(* ===== verification/Prelude.thy ===== *)
theory Prelude
  imports Main
begin

text \<open>
  Shared vocabulary of the tracker development: the shape of an HTTP response of a
  Next.js route handler (\<open>NextResponse.json\<close>), the session the handlers receive
  from \<open>getServerSession\<close>, and the list lemmas that the store and the handlers share.
  The collection \<open>model_simps\<close> gathers the characteristic equations of the component
  operations, so that \<open>simp add: model_simps\<close> evaluates a handler on a concrete state.
\<close>

named_theorems model_simps "characteristic equations of the modelled operations"

section \<open>Responses and sessions\<close>

text \<open>
  Every route handler of \<open>src/app/api\<close> ends in \<open>NextResponse.json(body, {status})\<close>.
  A body is either a data value (a document, a list of documents, the streak status) or
  an object \<open>{message}\<close>; a handler that throws and does not catch lets Next.js answer
  with status 500 and no JSON body, written \<open>Crash\<close>.
\<close>

datatype 'a response =
    Json nat 'a          \<comment> \<open>\<open>NextResponse.json(data, {status})\<close>, status 200 by default\<close>
  | Message nat string   \<comment> \<open>\<open>NextResponse.json({message}, {status})\<close>\<close>
  | Crash                \<comment> \<open>an uncaught exception: HTTP 500 from the framework\<close>

primrec status_of :: "'a response \<Rightarrow> nat" where
  "status_of (Json s _) = s"
| "status_of (Message s _) = s"
| "status_of Crash = 500"

text \<open>
  \<open>getServerSession(authOptions)\<close> yields no session or a session whose user carries an
  id; \<open>!session || !session.user\<close> is the first check of every handler. The model keeps
  the id of the signed-in user, \<open>None\<close> when there is none.
\<close>

type_synonym session = "nat option"

definition unauthorized :: "'a response" where
  "unauthorized = Message 401 ''Unauthorized''"

text \<open>
  What a client reads of an answer. \<open>res.ok\<close> holds for a status from 200 to 299
  (\<open>res_ok\<close>). \<open>if (res.ok) { const data = await res.json(); ... }\<close> gives the data
  of an ok answer (\<open>ok_body\<close>); the handlers whose answers a client reads this way
  send a \<open>{message}\<close> object only with an error status, so their ok answers are
  \<open>Json\<close> ones. (\<open>POST /api/streak\<close> and \<open>DELETE /api/gratitude\<close> answer a
  message with status 200; their callers read only \<open>res.ok\<close>.)
\<close>

definition res_ok :: "'a response \<Rightarrow> bool" where
  "res_ok r \<longleftrightarrow> 200 \<le> status_of r \<and> status_of r < 300"

primrec ok_body :: "'a response \<Rightarrow> 'a option" where
  "ok_body (Json s b) = (if 200 \<le> s \<and> s < 300 then Some b else None)"
| "ok_body (Message s m) = None"
| "ok_body Crash = None"

section \<open>Lists\<close>

text \<open>
  \<open>Array.prototype.findIndex\<close> returns the first index whose element satisfies the
  predicate, or \<open>-1\<close>; the model returns \<open>None\<close> for \<open>-1\<close>.
  \<open>splice(i, 1)\<close> removes the element at index \<open>i\<close>.
\<close>

fun find_index :: "('a \<Rightarrow> bool) \<Rightarrow> 'a list \<Rightarrow> nat option" where
  "find_index P [] = None"
| "find_index P (x # xs) = (if P x then Some 0 else map_option Suc (find_index P xs))"

definition splice1 :: "nat \<Rightarrow> 'a list \<Rightarrow> 'a list" where
  "splice1 i xs = take i xs @ drop (Suc i) xs"

text \<open>
  \<open>String.prototype.trim\<close>, which the forms call before they submit: it removes the
  leading and trailing white space. Of the JavaScript white-space and line-terminator
  code points, those that are characters of \<open>char\<close> are tab, line feed, vertical
  tab, form feed, carriage return, space and no-break space.
\<close>

definition js_is_space :: "char \<Rightarrow> bool" where
  "js_is_space c \<longleftrightarrow> of_char c \<in> {9, 10, 11, 12, 13, 32, 160 :: nat}"

definition js_trim :: "string \<Rightarrow> string" where
  "js_trim s = rev (dropWhile js_is_space (rev (dropWhile js_is_space s)))"

section \<open>JSON values\<close>

text \<open>
  A request body after \<open>await req.json()\<close>: a JSON value. Numbers are integers (the
  clients send integers; fractional and exponent literals are not modelled).
  \<open>const { k } = body\<close> throws a \<open>TypeError\<close> on \<open>null\<close>, reads the property of an
  object (the last of duplicate keys, as \<open>JSON.parse\<close> keeps it), and gives
  \<open>undefined\<close> on every other value.
\<close>

datatype jval = JUndefined | JNull | JBool bool | JNum int | JStr string
  | JArr "jval list" | JObj "(string \<times> jval) list"

text \<open>JavaScript truthiness (\<open>!v\<close> is \<open>\<not> truthy v\<close>).\<close>

fun truthy :: "jval \<Rightarrow> bool" where
  "truthy JUndefined = False"
| "truthy JNull = False"
| "truthy (JBool b) = b"
| "truthy (JNum n) = (n \<noteq> 0)"
| "truthy (JStr s) = (s \<noteq> [])"
| "truthy (JArr _) = True"
| "truthy (JObj _) = True"

definition json_prop :: "string \<Rightarrow> (string \<times> jval) list \<Rightarrow> jval" where
  "json_prop k kvs = (case map_of (rev kvs) k of Some v \<Rightarrow> v | None \<Rightarrow> JUndefined)"

fun destructure :: "string \<Rightarrow> jval \<Rightarrow> jval option" where
  "destructure k JUndefined = None"
| "destructure k JNull = None"
| "destructure k (JObj kvs) = Some (json_prop k kvs)"
| "destructure k _ = Some JUndefined"

text \<open>\<open>Number.prototype.toString()\<close> on an integer: its decimal digits.\<close>

fun digits_nat :: "nat \<Rightarrow> string" where
  "digits_nat n = (if n < 10 then [char_of (48 + n)] else digits_nat (n div 10) @ [char_of (48 + n mod 10)])"

definition int_to_string :: "int \<Rightarrow> string" where
  "int_to_string i = (if i < 0 then ''-'' @ digits_nat (nat (- i)) else digits_nat (nat i))"

section \<open>Numbers and strings of the views\<close>

text \<open>
  \<open>a % b\<close> on integers: the remainder of truncating division, with the sign of
  \<open>a\<close> (the views only divide by positive constants). \<open>s.padStart(n, c)\<close> with a
  one-character filler.
\<close>

definition js_rem :: "int \<Rightarrow> int \<Rightarrow> int" where
  "js_rem a b = sgn a * (\<bar>a\<bar> mod \<bar>b\<bar>)"

definition pad_start :: "nat \<Rightarrow> char \<Rightarrow> string \<Rightarrow> string" where
  "pad_start n c s = replicate (n - length s) c @ s"

declare unauthorized_def [code_unfold]

lemma status_unauthorized [simp]: "status_of unauthorized = 401"
  by (simp add: unauthorized_def)

lemma find_index_None_iff: "find_index P xs = None \<longleftrightarrow> (\<forall>x \<in> set xs. \<not> P x)"
  by (induction xs) auto

lemma find_index_False [simp]: "find_index (\<lambda>_. False) xs = None"
  by (induction xs) simp_all

lemma find_index_Some:
  "find_index P xs = Some i \<Longrightarrow> i < length xs \<and> P (xs ! i) \<and> (\<forall>j < i. \<not> P (xs ! j))"
proof (induction xs arbitrary: i)
  case Nil
  then show ?case by simp
next
  case (Cons x xs)
  show ?case
  proof (cases "P x")
    case True
    with Cons.prems show ?thesis by simp
  next
    case False
    with Cons.prems obtain k where k: "find_index P xs = Some k" and i: "i = Suc k"
      by auto
    from Cons.IH [OF k] False i show ?thesis
      by (auto simp: less_Suc_eq_0_disj)
  qed
qed

lemma find_index_append:
  "find_index P (xs @ ys) =
     (case find_index P xs of None \<Rightarrow> map_option ((+) (length xs)) (find_index P ys)
      | Some i \<Rightarrow> Some i)"
proof (induction xs)
  case Nil
  show ?case by (cases "find_index P ys") simp_all
next
  case (Cons a xs)
  then show ?case by (cases "find_index P xs"; cases "find_index P ys") auto
qed

lemma find_index_Some_iff_ex: "find_index P xs \<noteq> None \<longleftrightarrow> list_ex P xs"
  using find_index_None_iff [of P xs] by (simp add: list_ex_iff)

lemma length_splice1 [simp]: "i < length xs \<Longrightarrow> length (splice1 i xs) = length xs - 1"
  by (simp add: splice1_def)

lemma set_splice1_subset: "set (splice1 i xs) \<subseteq> set xs"
  by (auto simp: splice1_def dest: in_set_takeD in_set_dropD)

lemma in_set_splice1D: "x \<in> set (splice1 i xs) \<Longrightarrow> x \<in> set xs"
  using set_splice1_subset by fast

lemma distinct_splice1: "distinct xs \<Longrightarrow> distinct (splice1 i xs)"
  by (auto simp: splice1_def distinct_take distinct_drop set_take_disj_set_drop_if_distinct
      dest: in_set_takeD in_set_dropD)

lemma nth_notin_splice1:
  assumes "distinct xs" and "k < length xs"
  shows "xs ! k \<notin> set (splice1 k xs)"
proof -
  have "xs = take k xs @ xs ! k # drop (Suc k) xs"
    using assms(2) by (simp add: id_take_nth_drop)
  with assms(1) have "distinct (take k xs @ xs ! k # drop (Suc k) xs)" by simp
  then show ?thesis by (simp add: splice1_def)
qed

lemma map_splice1: "map f (splice1 i xs) = splice1 i (map f xs)"
  by (simp add: splice1_def take_map drop_map)

lemma splice1_append_length [simp]: "splice1 (length xs) (xs @ [x]) = xs"
  by (simp add: splice1_def)

lemma all_dropWhile_iff: "(\<forall>x \<in> set (dropWhile P s). P x) \<longleftrightarrow> (\<forall>x \<in> set s. P x)"
  by (induction s) auto

lemma js_trim_Nil_iff: "js_trim s = [] \<longleftrightarrow> list_all js_is_space s"
  by (simp add: js_trim_def dropWhile_eq_Nil_conv list_all_iff all_dropWhile_iff)

lemma js_trim_Nil [simp]: "js_trim [] = []"
  by (simp add: js_trim_def)

lemma digits_nat_ne [simp]: "digits_nat n \<noteq> []"
  by (simp add: digits_nat.simps [of n])

lemma int_to_string_ne [simp]: "int_to_string i \<noteq> []"
  by (simp add: int_to_string_def)

lemma js_rem_nonneg [simp]: "0 \<le> a \<Longrightarrow> 0 < b \<Longrightarrow> js_rem a b = a mod b"
  by (cases "a = 0") (simp_all add: js_rem_def)

lemma map_upt_eq_replicate:
  "map f [0..<n] = replicate n c \<longleftrightarrow> (\<forall>j < n. f j = c)"
  by (auto simp: list_eq_iff_nth_eq)

end
