(* ===== verification/Store.thy ===== *)
theory Store
  imports Prelude
begin

text \<open>
  The document store behind \<open>src/models/*.ts\<close>: MongoDB collections accessed through
  Mongoose. Mongoose is a library the sources only call; its operations are modelled
  here from their documented behaviour, on one collection at a time.

  Every schema of \<open>src/models\<close> is declared with \<open>{ timestamps: true }\<close>, so every
  document has an \<open>_id\<close> (written \<open>oid\<close>) and a \<open>createdAt\<close> time; the owned
  documents (habits, gratitude items, journal entries, meditation sessions) add
  \<open>userId\<close>. These shared fields are the extensible records \<open>mdoc\<close> and \<open>owned\<close>,
  which the component theories extend with their own fields, so that one definition of
  \<open>findById\<close> or \<open>find({userId})\<close> serves every collection. A collection is the list
  of its documents in insertion order. \<open>updatedAt\<close> is not modelled: no handler
  reads it.
\<close>

record mdoc =
  oid :: nat
  createdAt :: int

record owned = mdoc +
  userId :: nat

type_synonym 'a coll = "'a mdoc_scheme list"

text \<open>\<open>Model.findById(id)\<close>: the document with that \<open>_id\<close>, or \<open>null\<close>.\<close>

definition find_by_id :: "nat \<Rightarrow> 'a coll \<Rightarrow> 'a mdoc_scheme option" where
  "find_by_id i xs = find (\<lambda>d. oid d = i) xs"

text \<open>\<open>doc.save()\<close> on a document that was read: its stored version is replaced.\<close>

definition save_doc :: "'a mdoc_scheme \<Rightarrow> 'a coll \<Rightarrow> 'a coll" where
  "save_doc x xs = map (\<lambda>d. if oid d = oid x then x else d) xs"

text \<open>\<open>Model.findByIdAndDelete(id)\<close>; an id that matches nothing deletes nothing.\<close>

definition delete_by_id :: "nat \<Rightarrow> 'a coll \<Rightarrow> 'a coll" where
  "delete_by_id i xs = filter (\<lambda>d. oid d \<noteq> i) xs"

text \<open>\<open>Model.find({ userId })\<close>.\<close>

definition find_owned :: "nat \<Rightarrow> 'a owned_scheme list \<Rightarrow> 'a owned_scheme list" where
  "find_owned u xs = filter (\<lambda>d. userId d = u) xs"

text \<open>
  \<open>.sort({ createdAt: -1 })\<close> and \<open>.sort({ createdAt: 1 })\<close>. MongoDB leaves the
  order of equal keys unspecified; the model takes the stable order, one of the orders
  the server may return. \<open>.limit(n)\<close> keeps the first \<open>n\<close>.
\<close>

definition sort_desc :: "'a coll \<Rightarrow> 'a coll" where
  "sort_desc xs = sort_key (\<lambda>d. - createdAt d) xs"

definition sort_asc :: "'a coll \<Rightarrow> 'a coll" where
  "sort_asc xs = sort_key createdAt xs"

text \<open>
  \<open>Model.create(fields)\<close> appends a document with a fresh \<open>_id\<close>. ObjectIds are unique;
  the model draws the successor of the largest id in the collection.
\<close>

definition new_oid :: "'a coll \<Rightarrow> nat" where
  "new_oid xs = Suc (foldr max (map oid xs) 0)"

definition insert_doc :: "'a mdoc_scheme \<Rightarrow> 'a coll \<Rightarrow> 'a coll" where
  "insert_doc d xs = xs @ [d]"

text \<open>
  Mongoose's cast of a value to a \<open>String\<close> path (\<open>castString\<close>), followed by the
  \<open>required\<close> validator: \<open>None\<close> when \<open>create\<close> throws. \<open>null\<close> and
  \<open>undefined\<close> leave the path unset and fail \<open>required\<close>, as does the empty string;
  booleans and numbers are cast with their \<open>toString\<close>; an object is cast to its
  \<open>_id\<close> when that is a non-empty string; arrays and other objects are a
  \<open>CastError\<close>.
\<close>

fun cast_string :: "jval \<Rightarrow> string option" where
  "cast_string JUndefined = None"
| "cast_string JNull = None"
| "cast_string (JBool b) = Some (if b then ''true'' else ''false'')"
| "cast_string (JNum n) = Some (int_to_string n)"
| "cast_string (JStr s) = (if s = [] then None else Some s)"
| "cast_string (JArr _) = None"
| "cast_string (JObj kvs) =
     (case json_prop ''_id'' kvs of JStr s \<Rightarrow> if s = [] then None else Some s | _ \<Rightarrow> None)"

text \<open>
  Mongoose's cast to a \<open>Number\<close> path (\<open>castNumber\<close>) followed by \<open>required\<close>:
  \<open>None\<close> when \<open>create\<close> throws. \<open>null\<close>, \<open>undefined\<close> and the empty string leave
  the path unset; other strings and booleans go through \<open>Number(v)\<close>, a \<open>NaN\<close>
  result being a \<open>CastError\<close>; arrays and objects are a \<open>CastError\<close>. The
  conversion of a string (\<open>StringToNumber\<close>) is the parameter \<open>to_number\<close>, with
  \<open>None\<close> for \<open>NaN\<close>.
\<close>

fun cast_number :: "(string \<Rightarrow> int option) \<Rightarrow> jval \<Rightarrow> int option" where
  "cast_number to_number JUndefined = None"
| "cast_number to_number JNull = None"
| "cast_number to_number (JBool b) = Some (if b then 1 else 0)"
| "cast_number to_number (JNum n) = Some n"
| "cast_number to_number (JStr s) = (if s = [] then None else to_number s)"
| "cast_number to_number (JArr _) = None"
| "cast_number to_number (JObj _) = None"

text \<open>The store invariant every collection keeps: \<open>_id\<close>s are unique.\<close>

definition ids_distinct :: "'a coll \<Rightarrow> bool" where
  "ids_distinct xs \<longleftrightarrow> distinct (map oid xs)"

section \<open>Properties of the store operations\<close>

lemma find_by_id_Some:
  "find_by_id i xs = Some d \<Longrightarrow> d \<in> set xs \<and> oid d = i"
  by (auto simp: find_by_id_def find_Some_iff)

lemma find_by_id_None [simp]:
  "find_by_id i xs = None \<longleftrightarrow> (\<forall>d \<in> set xs. oid d \<noteq> i)"
  by (auto simp: find_by_id_def find_None_iff)

lemma find_by_id_in:
  "ids_distinct xs \<Longrightarrow> d \<in> set xs \<Longrightarrow> find_by_id (oid d) xs = Some d"
proof (induction xs)
  case Nil
  then show ?case by simp
next
  case (Cons x xs)
  then show ?case
    by (auto simp: find_by_id_def ids_distinct_def)
qed

lemma map_oid_save_doc [simp]: "map oid (save_doc x xs) = map oid xs"
  by (induction xs) (auto simp: save_doc_def)

lemma ids_distinct_save_doc [simp]: "ids_distinct (save_doc x xs) = ids_distinct xs"
  by (simp add: ids_distinct_def)

lemma length_save_doc [simp]: "length (save_doc x xs) = length xs"
  by (simp add: save_doc_def)

lemma find_by_id_save_doc:
  "find_by_id i (save_doc x xs) =
     (if i = oid x then map_option (\<lambda>_. x) (find_by_id i xs) else find_by_id i xs)"
  by (induction xs) (auto simp: save_doc_def find_by_id_def)

lemma save_doc_found:
  assumes "ids_distinct xs" and "find_by_id i xs = Some x"
  shows "save_doc x xs = xs"
proof -
  have x: "x \<in> set xs" using find_by_id_Some [OF assms(2)] by simp
  have "\<forall>d \<in> set xs. oid d = oid x \<longrightarrow> d = x"
  proof (intro ballI impI)
    fix d assume d: "d \<in> set xs" "oid d = oid x"
    from find_by_id_in [OF assms(1) d(1)] find_by_id_in [OF assms(1) x] d(2) show "d = x"
      by (metis option.inject)
  qed
  then show ?thesis unfolding save_doc_def by (intro map_idI) auto
qed

lemma save_doc_save_doc:
  assumes "oid x = oid y"
  shows "save_doc x (save_doc y xs) = save_doc x xs"
proof -
  have "\<And>d. (if oid (if oid d = oid y then y else d) = oid x then x else
      (if oid d = oid y then y else d)) = (if oid d = oid x then x else d)"
    using assms by simp
  then show ?thesis by (simp add: save_doc_def)
qed

lemma set_save_doc:
  "d \<in> set (save_doc x xs) \<Longrightarrow> d = x \<or> (d \<in> set xs \<and> oid d \<noteq> oid x)"
  by (auto simp: save_doc_def)

lemma new_oid_fresh: "d \<in> set xs \<Longrightarrow> oid d < new_oid xs"
proof -
  have "\<forall>d \<in> set xs. oid d \<le> foldr max (map oid xs) 0"
    by (induction xs) auto
  then show "d \<in> set xs \<Longrightarrow> oid d < new_oid xs"
    by (auto simp: new_oid_def less_Suc_eq_le)
qed

lemma ids_distinct_insert_new:
  "ids_distinct xs \<Longrightarrow> oid d = new_oid xs \<Longrightarrow> ids_distinct (insert_doc d xs)"
  by (auto simp: ids_distinct_def insert_doc_def dest: new_oid_fresh)

lemma ids_distinct_delete [simp]: "ids_distinct xs \<Longrightarrow> ids_distinct (delete_by_id i xs)"
  by (simp add: ids_distinct_def delete_by_id_def distinct_map_filter)

lemma find_by_id_delete [simp]: "find_by_id i (delete_by_id i xs) = None"
  by (simp add: delete_by_id_def)

lemma set_sort_desc [simp]: "set (sort_desc xs) = set xs"
  by (simp add: sort_desc_def)

lemma set_sort_asc [simp]: "set (sort_asc xs) = set xs"
  by (simp add: sort_asc_def)

lemma sorted_sort_desc: "sorted_wrt (\<ge>) (map createdAt (sort_desc xs))"
proof -
  have "sorted (map (\<lambda>d. - createdAt d) (sort_desc xs))"
    by (simp add: sort_desc_def)
  then show ?thesis
    by (simp add: sorted_wrt_map sorted_iff_nth_mono_less sorted_wrt_iff_nth_less)
qed

lemma sorted_sort_asc: "sorted (map createdAt (sort_asc xs))"
  by (simp add: sort_asc_def)

lemma length_sort_desc [simp]: "length (sort_desc xs) = length xs"
  by (simp add: sort_desc_def)

section \<open>Updates that keep the keys of the queries\<close>

lemma insort_key_map_same_key:
  assumes "\<And>x. f (h x) = f x"
  shows "insort_key f (h x) (map h ys) = map h (insort_key f x ys)"
  by (induction ys) (auto simp: assms)

lemma sort_key_map_same_key:
  assumes "\<And>x. f (h x) = f x"
  shows "sort_key f (map h xs) = map h (sort_key f xs)"
  by (induction xs) (simp_all add: insort_key_map_same_key [where f = f and h = h, OF assms])

lemma sort_desc_map:
  fixes h :: "'a mdoc_scheme \<Rightarrow> 'a mdoc_scheme"
  assumes "\<And>d. createdAt (h d) = createdAt d"
  shows "sort_desc (map h xs) = map h (sort_desc xs)"
  using sort_key_map_same_key [of "\<lambda>d. - createdAt d" h xs] assms by (simp add: sort_desc_def)

lemma sort_asc_map:
  fixes h :: "'a mdoc_scheme \<Rightarrow> 'a mdoc_scheme"
  assumes "\<And>d. createdAt (h d) = createdAt d"
  shows "sort_asc (map h xs) = map h (sort_asc xs)"
  using sort_key_map_same_key [of createdAt h xs] assms by (simp add: sort_asc_def)

lemma save_doc_update:
  assumes "ids_distinct xs" and "find_by_id i xs = Some g" and "oid (h g) = i"
  shows "save_doc (h g) xs = map (\<lambda>d. if oid d = i then h d else d) xs"
proof -
  have "\<And>d. d \<in> set xs \<Longrightarrow> oid d = i \<Longrightarrow> d = g"
    using find_by_id_in [OF assms(1)] assms(2) by (metis option.inject)
  then show ?thesis using assms(3) by (auto simp: save_doc_def)
qed

lemma save_doc_absent:
  "find_by_id i xs = None \<Longrightarrow> map (\<lambda>d. if oid d = i then h d else d) xs = xs"
  by (auto intro: map_idI)

lemma sort_desc_take_newest:
  assumes "d \<in> set xs" "d \<notin> set (take n (sort_desc xs))" "e \<in> set (take n (sort_desc xs))"
  shows "createdAt d \<le> createdAt e"
proof -
  have "sorted_wrt (\<lambda>a b. createdAt b \<le> createdAt a)
      (take n (sort_desc xs) @ drop n (sort_desc xs))"
    using sorted_sort_desc [of xs] by (simp add: sorted_wrt_map)
  then have "\<forall>a \<in> set (take n (sort_desc xs)). \<forall>b \<in> set (drop n (sort_desc xs)).
      createdAt b \<le> createdAt a"
    by (simp only: sorted_wrt_append) blast
  moreover have "d \<in> set (drop n (sort_desc xs))"
    using assms(1,2) by (metis Un_iff append_take_drop_id set_append set_sort_desc)
  ultimately show ?thesis using assms(3) by blast
qed

lemma find_owned_map:
  "(\<And>d. userId (h d) = userId d) \<Longrightarrow> find_owned u (map h xs) = map h (find_owned u xs)"
  by (induction xs) (auto simp: find_owned_def)

lemma find_owned_delete: "find_owned u (delete_by_id i xs) = delete_by_id i (find_owned u xs)"
  by (simp add: find_owned_def delete_by_id_def conj_commute)

lemma sort_asc_filter: "sort_asc (filter P xs) = filter P (sort_asc xs)"
  by (simp add: sort_asc_def filter_sort)

lemma sort_desc_snoc_newest:
  "\<forall>d \<in> set xs. createdAt d < createdAt x \<Longrightarrow> sort_desc (xs @ [x]) = x # sort_desc xs"
  by (induction xs) (simp_all add: sort_desc_def)

text \<open>The \<open>n\<close> newest documents of an owner: what \<open>find({userId}).sort({createdAt: -1}).limit(n)\<close> answers.\<close>

lemma recent_owned:
  "length (take n (sort_desc (find_owned u xs))) \<le> n
   \<and> set (take n (sort_desc (find_owned u xs))) \<subseteq> {g \<in> set xs. userId g = u}
   \<and> sorted_wrt (\<ge>) (map createdAt (take n (sort_desc (find_owned u xs))))
   \<and> (length (find_owned u xs) \<le> n \<longrightarrow> set (take n (sort_desc (find_owned u xs))) = {g \<in> set xs. userId g = u})
   \<and> (\<forall>d \<in> set xs. userId d = u \<longrightarrow> d \<notin> set (take n (sort_desc (find_owned u xs))) \<longrightarrow>
        (\<forall>e \<in> set (take n (sort_desc (find_owned u xs))). createdAt d \<le> createdAt e))"
proof -
  let ?s = "sort_desc (find_owned u xs)"
  have "sorted_wrt (\<ge>) (map createdAt (take n ?s))"
    using sorted_sort_desc [of "find_owned u xs"] by (simp add: take_map [symmetric] sorted_wrt_take)
  moreover have "set (take n ?s) \<subseteq> {g \<in> set xs. userId g = u}"
    using set_take_subset [of n ?s] by (auto simp: find_owned_def)
  moreover have "length (find_owned u xs) \<le> n \<Longrightarrow> set (take n ?s) = {g \<in> set xs. userId g = u}"
    by (auto simp: find_owned_def)
  moreover have "\<forall>d \<in> set xs. userId d = u \<longrightarrow> d \<notin> set (take n ?s) \<longrightarrow>
      (\<forall>e \<in> set (take n ?s). createdAt d \<le> createdAt e)"
    using sort_desc_take_newest [of _ "find_owned u xs" n] by (auto simp: find_owned_def)
  ultimately show ?thesis by simp
qed

lemma ids_distinct_insert_fresh [simp]:
  "ids_distinct (insert_doc d xs) \<longleftrightarrow> ids_distinct xs \<and> oid d \<notin> oid ` set xs"
  by (auto simp: ids_distinct_def insert_doc_def)

lemma set_insert_doc [simp]: "set (insert_doc d xs) = insert d (set xs)"
  by (simp add: insert_doc_def)

lemma new_oid_notin: "new_oid xs \<notin> oid ` set xs"
  using new_oid_fresh by fastforce


text \<open>
  Saving a document that keeps its owner and its creation time commutes with the owner's
  newest-first query: the answer changes in the one place the document is.
\<close>

lemma owned_query_save_doc:
  fixes x :: "'a owned_scheme"
  assumes ids: "ids_distinct xs" and f: "find_by_id (oid x) xs = Some d"
    and c: "createdAt x = createdAt d" and u: "userId x = userId d"
  shows "sort_desc (find_owned v (save_doc x xs)) = save_doc x (sort_desc (find_owned v xs))"
proof -
  define G where "G e = (if oid e = oid x then x\<lparr>createdAt := createdAt e, userId := userId e\<rparr> else e)"
    for e :: "'a owned_scheme"
  have same: "e = d" if "e \<in> set xs" "oid e = oid x" for e
    using find_by_id_in [OF ids that(1)] f that(2) by simp
  have xd: "x\<lparr>createdAt := createdAt d, userId := userId d\<rparr> = x" using c u by simp
  have sv: "save_doc x ys = map G ys" if "set ys \<subseteq> set xs" for ys
    unfolding save_doc_def G_def using that same xd by (intro map_cong) auto
  have sub: "set (sort_desc (find_owned v xs)) \<subseteq> set xs"
    by (auto simp: sort_desc_def find_owned_def)
  have "sort_desc (find_owned v (save_doc x xs)) = sort_desc (find_owned v (map G xs))"
    by (simp add: sv)
  also have "\<dots> = map G (sort_desc (find_owned v xs))"
    by (simp add: find_owned_map sort_desc_map G_def)
  also have "\<dots> = save_doc x (sort_desc (find_owned v xs))"
    using sv [OF sub] by simp
  finally show ?thesis .
qed


lemma insort_key_snoc: "f y \<le> f x \<Longrightarrow> insort_key f y (zs @ [x]) = insort_key f y zs @ [x]"
  by (induction zs) auto

text \<open>The stable oldest-first sort puts a document created last at the end.\<close>

lemma sort_asc_snoc_newest:
  "\<forall>d \<in> set xs. createdAt d \<le> createdAt x \<Longrightarrow> sort_asc (xs @ [x]) = sort_asc xs @ [x]"
  by (induction xs) (simp_all add: sort_asc_def insort_key_snoc)

end
