(* ===== verification/JsDate.thy ===== *)
theory JsDate
  imports Prelude
begin

text \<open>
  The JavaScript \<open>Date\<close> operations the tracker calls (\<open>new Date\<close>, \<open>getTime\<close>,
  \<open>setHours\<close>, \<open>getDate\<close>, \<open>getMonth\<close>, \<open>getFullYear\<close>), modelled after
  ECMA-262 \<section>21.4.1. The engine is not code of the repository; these definitions are the
  Date-Bucket Utility of the spec and the calendar the habit tracker reads.

  A time value is an integral number of milliseconds since the epoch, or NaN (an
  "Invalid Date"); time values stay within \<open>\<plusminus>8.64e15\<close>, where doubles are exact
  integers, so \<open>int\<close> is faithful and \<open>Math.floor(x / k)\<close> for a positive integer
  \<open>k\<close> is \<open>x div k\<close>. Local time is UTC plus a fixed offset \<open>tz\<close> (milliseconds);
  daylight-saving changes of the offset are not modelled.
\<close>

datatype jsint = JInt int | NaN

definition ms_per_day :: int where "ms_per_day = 86400000"
definition ms_per_hour :: int where "ms_per_hour = 3600000"
definition ms_per_minute :: int where "ms_per_minute = 60000"
definition ms_per_second :: int where "ms_per_second = 1000"

text \<open>TimeClip: a time value outside \<open>\<plusminus>8.64e15\<close> becomes NaN.\<close>

definition time_clip :: "int \<Rightarrow> jsint" where
  "time_clip t = (if \<bar>t\<bar> \<le> 8640000000000000 then JInt t else NaN)"

text \<open>\<open>===\<close> on two numbers: NaN equals nothing, not even NaN.\<close>

fun js_eq :: "jsint \<Rightarrow> jsint \<Rightarrow> bool" where
  "js_eq (JInt a) (JInt b) = (a = b)"
| "js_eq _ _ = False"

fun is_nan :: "jsint \<Rightarrow> bool" where
  "is_nan NaN = True"
| "is_nan (JInt _) = False"

text \<open>MakeTime(h, m, s, ms) and \<open>Date.prototype.setHours(h, m, s, ms)\<close> in local time.\<close>

definition make_time :: "int \<Rightarrow> int \<Rightarrow> int \<Rightarrow> int \<Rightarrow> int" where
  "make_time h m s ms = h * ms_per_hour + m * ms_per_minute + s * ms_per_second + ms"

fun set_hours :: "int \<Rightarrow> int \<Rightarrow> int \<Rightarrow> int \<Rightarrow> int \<Rightarrow> jsint \<Rightarrow> jsint" where
  "set_hours tz h m s ms NaN = NaN"
| "set_hours tz h m s ms (JInt t) =
     time_clip ((t + tz) div ms_per_day * ms_per_day + make_time h m s ms - tz)"

text \<open>\<open>d.setHours(0, 0, 0, 0)\<close>: local midnight of the day holding \<open>d\<close>, the bucket key.\<close>

abbreviation start_of_day :: "int \<Rightarrow> jsint \<Rightarrow> jsint" where
  "start_of_day tz d \<equiv> set_hours tz 0 0 0 0 d"

text \<open>
  Number arithmetic on time values, as the handlers use it: subtraction of two
  \<open>getTime()\<close> results, \<open>Math.abs\<close>, \<open>Math.floor(x / k)\<close> for a positive
  constant \<open>k\<close>, and the guard \<open>isNaN(x) ? 0 : x\<close>. NaN propagates through each.
\<close>

fun js_sub :: "jsint \<Rightarrow> jsint \<Rightarrow> jsint" where
  "js_sub (JInt a) (JInt b) = JInt (a - b)"
| "js_sub _ _ = NaN"

fun js_abs :: "jsint \<Rightarrow> jsint" where
  "js_abs (JInt a) = JInt \<bar>a\<bar>"
| "js_abs NaN = NaN"

fun js_floor_div :: "jsint \<Rightarrow> int \<Rightarrow> jsint" where
  "js_floor_div (JInt a) k = JInt (a div k)"
| "js_floor_div NaN k = NaN"

fun nan_or_zero :: "jsint \<Rightarrow> int" where
  "nan_or_zero (JInt a) = a"
| "nan_or_zero NaN = 0"

section \<open>The proleptic Gregorian calendar of ECMA-262\<close>

definition leap_year :: "int \<Rightarrow> bool" where
  "leap_year y \<longleftrightarrow> y mod 4 = 0 \<and> (y mod 100 \<noteq> 0 \<or> y mod 400 = 0)"

definition days_in_year :: "int \<Rightarrow> int" where
  "days_in_year y = (if leap_year y then 366 else 365)"

text \<open>DayFromYear(y): the day number of the first day of year \<open>y\<close>.\<close>

definition day_from_year :: "int \<Rightarrow> int" where
  "day_from_year y =
     365 * (y - 1970) + (y - 1969) div 4 - (y - 1901) div 100 + (y - 1601) div 400"

text \<open>
  YearFromTime(t) is the largest \<open>y\<close> with \<open>DayFromYear(y) \<le> Day(t)\<close>. The model
  finds it by walking year by year from 1970, upwards for days on or after the epoch and
  downwards before it, and returns the day within the year alongside.
\<close>

function year_up :: "int \<Rightarrow> int \<Rightarrow> int \<times> int" where
  "year_up y d = (if d < days_in_year y then (y, d) else year_up (y + 1) (d - days_in_year y))"
  by pat_completeness auto
termination
  by (relation "measure (\<lambda>(y, d). nat d)") (auto simp: days_in_year_def split: if_split_asm)

function year_down :: "int \<Rightarrow> int \<Rightarrow> int \<times> int" where
  "year_down y d = (if 0 \<le> d then (y, d) else year_down (y - 1) (d + days_in_year (y - 1)))"
  by pat_completeness auto
termination
  by (relation "measure (\<lambda>(y, d). nat (- d))") (auto simp: days_in_year_def)

declare year_up.simps [simp del] year_down.simps [simp del]

definition year_from_day :: "int \<Rightarrow> int \<times> int" where
  "year_from_day d = (if 0 \<le> d then year_up 1970 d else year_down 1970 d)"

text \<open>Month lengths, months numbered from 0 as \<open>getMonth\<close> does.\<close>

definition days_in_month :: "int \<Rightarrow> nat \<Rightarrow> int" where
  "days_in_month y m =
     (if m = 1 then (if leap_year y then 29 else 28)
      else if m = 3 \<or> m = 5 \<or> m = 8 \<or> m = 10 then 30 else 31)"

function month_walk :: "int \<Rightarrow> nat \<Rightarrow> int \<Rightarrow> nat \<times> int" where
  "month_walk y m r =
     (if 11 \<le> m \<or> r < days_in_month y m then (m, r)
      else month_walk y (Suc m) (r - days_in_month y m))"
  by pat_completeness auto
termination
  by (relation "measure (\<lambda>(y, m, r). 11 - m)") auto

declare month_walk.simps [simp del]

text \<open>Year, month (0-based) and day of month (1-based) of a local day number.\<close>

definition civil_of_day :: "int \<Rightarrow> int \<times> nat \<times> int" where
  "civil_of_day d =
     (let (y, r) = year_from_day d; (m, r') = month_walk y 0 r in (y, m, r' + 1))"

text \<open>
  MakeDay(y, m, dt) for a month index within \<open>0..11\<close>: the day number of day \<open>dt\<close>
  (counted from 1) of month \<open>m\<close> of year \<open>y\<close>.
\<close>

definition month_start :: "int \<Rightarrow> nat \<Rightarrow> int" where
  "month_start y m = sum_list (map (days_in_month y) [0..<m])"

definition make_day :: "int \<Rightarrow> nat \<Rightarrow> int \<Rightarrow> int" where
  "make_day y m dt = day_from_year y + month_start y m + dt - 1"

definition local_day :: "int \<Rightarrow> int \<Rightarrow> int" where
  "local_day tz t = (t + tz) div ms_per_day"

fun get_full_year :: "int \<Rightarrow> jsint \<Rightarrow> jsint" where
  "get_full_year tz NaN = NaN"
| "get_full_year tz (JInt t) = JInt (fst (civil_of_day (local_day tz t)))"

fun get_month :: "int \<Rightarrow> jsint \<Rightarrow> jsint" where
  "get_month tz NaN = NaN"
| "get_month tz (JInt t) = JInt (int (fst (snd (civil_of_day (local_day tz t)))))"

fun get_date :: "int \<Rightarrow> jsint \<Rightarrow> jsint" where
  "get_date tz NaN = NaN"
| "get_date tz (JInt t) = JInt (snd (snd (civil_of_day (local_day tz t))))"

lemmas ms_consts = ms_per_day_def ms_per_hour_def ms_per_minute_def ms_per_second_def

section \<open>Properties of the date operations\<close>

lemma div_succ_step:
  fixes a k :: int
  assumes k: "1 < k"
  shows "(a + 1) div k = a div k + (if (a + 1) mod k = 0 then 1 else 0)"
proof -
  have b: "0 \<le> a mod k" "a mod k < k" using k by simp_all
  have "(a + 1) div k = a div k + 1 div k + (a mod k + 1 mod k) div k"
    by (rule div_add1_eq)
  with k have d: "(a + 1) div k = a div k + (a mod k + 1) div k" by simp
  from b have q: "(a mod k + 1) div k = (if a mod k + 1 = k then 1 else 0)"
    by (cases "a mod k + 1 = k") (auto intro: div_pos_pos_trivial)
  have "(a + 1) mod k = (a mod k + 1) mod k" by (simp add: mod_add_left_eq)
  with b have "(a + 1) mod k = 0 \<longleftrightarrow> a mod k + 1 = k"
    by (cases "a mod k + 1 = k") auto
  with d q show ?thesis by simp
qed

lemma div_succ_shift:
  fixes y c k :: int
  assumes k: "1 < k" and c: "y - c + 1 = y + e * k"
  shows "(y - c + 1) div k = (y - c) div k + (if y mod k = 0 then 1 else 0)"
proof -
  have "(y - c + 1) mod k = y mod k"
    using c by (simp only: mod_mult_self1)
  with div_succ_step [OF k, of "y - c"] show ?thesis by simp
qed

lemma mod_factor_zero:
  fixes y :: int
  assumes "y mod (a * b) = 0"
  shows "y mod a = 0"
  using assms by (auto simp: mod_eq_0_iff_dvd intro: dvd_mult_left)

lemma leap_count_step:
  fixes x A B C :: int
  assumes "R \<Longrightarrow> Q" and "Q \<Longrightarrow> P"
  shows "x + 365 + (A + (if P then 1 else 0)) - (B + (if Q then 1 else 0)) + (C + (if R then 1 else 0))
     = x + A - B + C + (if P \<and> (\<not> Q \<or> R) then 366 else 365)"
  using assms by (cases P; cases Q; cases R) simp_all

lemma day_from_year_Suc: "day_from_year (y + 1) = day_from_year y + days_in_year y"
proof -
  have a: "(y - 1969 + 1) div 4 = (y - 1969) div 4 + (if y mod 4 = 0 then 1 else 0)"
    by (rule div_succ_shift [where e = "-492"]) simp_all
  have b: "(y - 1901 + 1) div 100 = (y - 1901) div 100 + (if y mod 100 = 0 then 1 else 0)"
    by (rule div_succ_shift [where e = "-19"]) simp_all
  have c: "(y - 1601 + 1) div 400 = (y - 1601) div 400 + (if y mod 400 = 0 then 1 else 0)"
    by (rule div_succ_shift [where e = "-4"]) simp_all
  have l1: "y mod 400 = 0 \<Longrightarrow> y mod 100 = 0"
    using mod_factor_zero [of y 100 4] by simp
  have l2: "y mod 100 = 0 \<Longrightarrow> y mod 4 = 0"
    using mod_factor_zero [of y 4 25] by simp
  define A B C where "A = (y - 1969) div 4" and "B = (y - 1901) div 100"
    and "C = (y - 1601) div 400"
  have e: "day_from_year (y + 1) = 365 * (y - 1970) + 365 + (y - 1969 + 1) div 4
      - (y - 1901 + 1) div 100 + (y - 1601 + 1) div 400"
  proof -
    have "y + 1 - 1970 = (y - 1970) + 1" "y + 1 - 1969 = y - 1969 + 1"
      "y + 1 - 1901 = y - 1901 + 1" "y + 1 - 1601 = y - 1601 + 1" by simp_all
    then show ?thesis unfolding day_from_year_def by (simp only: distrib_left mult_1_right)
  qed
  have d1: "day_from_year (y + 1) = 365 * (y - 1970) + 365 + (A + (if y mod 4 = 0 then 1 else 0))
      - (B + (if y mod 100 = 0 then 1 else 0)) + (C + (if y mod 400 = 0 then 1 else 0))"
    unfolding A_def B_def C_def by (simp only: e a b c)
  have d0: "day_from_year y = 365 * (y - 1970) + A - B + C"
    unfolding A_def B_def C_def day_from_year_def ..
  show ?thesis
    unfolding d1 d0 days_in_year_def leap_year_def by (rule leap_count_step [OF l1 l2])
qed

lemma days_in_year_pos: "0 < days_in_year y"
  by (simp add: days_in_year_def)

lemma year_up_spec:
  "0 \<le> d \<Longrightarrow> year_up y d = (y', r) \<Longrightarrow>
     day_from_year y' + r = day_from_year y + d \<and> 0 \<le> r \<and> r < days_in_year y'"
proof (induction y d rule: year_up.induct)
  case (1 y d)
  show ?case
  proof (cases "d < days_in_year y")
    case True
    with "1.prems" show ?thesis by (simp add: year_up.simps [of y d])
  next
    case False
    with "1.prems" have "year_up (y + 1) (d - days_in_year y) = (y', r)"
      by (simp add: year_up.simps [of y d])
    with False "1.IH" have "day_from_year y' + r = day_from_year (y + 1) + (d - days_in_year y)
        \<and> 0 \<le> r \<and> r < days_in_year y'"
      by simp
    then show ?thesis by (simp add: day_from_year_Suc)
  qed
qed

lemma year_down_spec:
  "year_down y d = (y', r) \<Longrightarrow> d < days_in_year y \<Longrightarrow>
     day_from_year y' + r = day_from_year y + d \<and> 0 \<le> r \<and> r < days_in_year y'"
proof (induction y d rule: year_down.induct)
  case (1 y d)
  show ?case
  proof (cases "0 \<le> d")
    case True
    with "1.prems" show ?thesis by (simp add: year_down.simps [of y d])
  next
    case False
    with "1.prems" have "year_down (y - 1) (d + days_in_year (y - 1)) = (y', r)"
      by (simp add: year_down.simps [of y d])
    with False "1.IH" have "day_from_year y' + r = day_from_year (y - 1) + (d + days_in_year (y - 1))
        \<and> 0 \<le> r \<and> r < days_in_year y'"
      by simp
    moreover have "day_from_year y = day_from_year (y - 1) + days_in_year (y - 1)"
      using day_from_year_Suc [of "y - 1"] by simp
    ultimately show ?thesis by simp
  qed
qed

lemma year_from_day_spec:
  "year_from_day d = (y, r) \<Longrightarrow> day_from_year y + r = d \<and> 0 \<le> r \<and> r < days_in_year y"
proof -
  assume yr: "year_from_day d = (y, r)"
  have z: "day_from_year 1970 = 0" by (simp add: day_from_year_def)
  show ?thesis
  proof (cases "0 \<le> d")
    case True
    with yr year_up_spec [OF True, of 1970 y r] z show ?thesis by (simp add: year_from_day_def)
  next
    case False
    then have "d < days_in_year 1970" using days_in_year_pos [of 1970] by simp
    with False yr year_down_spec [of 1970 d y r] z show ?thesis by (simp add: year_from_day_def)
  qed
qed

lemma month_start_Suc: "month_start y (Suc m) = month_start y m + days_in_month y m"
  by (simp add: month_start_def)

lemma month_start_12: "month_start y 12 = days_in_year y"
  by (simp add: month_start_def days_in_month_def days_in_year_def upt_rec)

lemma month_walk_spec:
  "month_walk y m r = (m', r') \<Longrightarrow> m \<le> 11 \<Longrightarrow> 0 \<le> r \<Longrightarrow> month_start y m + r < days_in_year y \<Longrightarrow>
     m' \<le> 11 \<and> 0 \<le> r' \<and> r' < days_in_month y m' \<and> month_start y m' + r' = month_start y m + r"
proof (induction y m r rule: month_walk.induct)
  case (1 y m r)
  show ?case
  proof (cases "11 \<le> m \<or> r < days_in_month y m")
    case True
    then consider "r < days_in_month y m" | "m = 11" "\<not> r < days_in_month y m"
      using "1.prems"(2) by linarith
    then show ?thesis
    proof cases
      case 1
      with "1.prems" show ?thesis by (simp add: month_walk.simps [of y m r])
    next
      case 2
      have "month_start y 11 + days_in_month y 11 = days_in_year y"
        using month_start_Suc [of y 11] month_start_12 [of y] by simp
      with 2 "1.prems" show ?thesis by simp
    qed
  next
    case False
    with "1.prems" have "month_walk y (Suc m) (r - days_in_month y m) = (m', r')"
      by (simp add: month_walk.simps [of y m r])
    with False "1.IH" "1.prems"(3,4) show ?thesis by (simp add: month_start_Suc)
  qed
qed

lemma civil_of_day_spec:
  assumes "civil_of_day d = (y, m, dt)"
  shows "m \<le> 11 \<and> 1 \<le> dt \<and> dt \<le> days_in_month y m \<and> make_day y m dt = d"
proof -
  obtain y0 r where yr: "year_from_day d = (y0, r)" by fastforce
  obtain m0 r' where mr: "month_walk y0 0 r = (m0, r')" by fastforce
  from assms yr mr have eq: "y = y0" "m = m0" "dt = r' + 1"
    by (simp_all add: civil_of_day_def)
  from year_from_day_spec [OF yr] have y: "day_from_year y0 + r = d" "0 \<le> r" "r < days_in_year y0"
    by simp_all
  have "month_start y0 0 = 0" by (simp add: month_start_def)
  with month_walk_spec [OF mr] y have "m0 \<le> 11 \<and> 0 \<le> r' \<and> r' < days_in_month y0 m0
      \<and> month_start y0 m0 + r' = r"
    by simp
  with eq y show ?thesis by (simp add: make_day_def)
qed

lemma is_nan_iff: "is_nan d \<longleftrightarrow> d = NaN"
  by (cases d) simp_all

lemma make_time_zero [simp]: "make_time 0 0 0 0 = 0"
  by (simp add: make_time_def)

lemma start_of_day_JInt: "start_of_day tz (JInt t) = time_clip (local_day tz t * ms_per_day - tz)"
  by (simp add: local_day_def)

lemma bucket_eq:
  "js_eq (start_of_day tz (JInt a)) (start_of_day tz (JInt b)) \<longleftrightarrow>
     start_of_day tz (JInt a) \<noteq> NaN \<and> local_day tz a = local_day tz b"
  by (auto simp: local_day_def time_clip_def ms_per_day_def)

lemma start_of_day_bounds:
  assumes "start_of_day tz (JInt t) = JInt s"
  shows "s \<le> t \<and> t < s + ms_per_day"
proof -
  have s: "s = (t + tz) div ms_per_day * ms_per_day - tz"
    using assms by (simp add: time_clip_def split: if_splits)
  have "(t + tz) div ms_per_day * ms_per_day + (t + tz) mod ms_per_day = t + tz"
    by (rule div_mult_mod_eq)
  moreover have "0 \<le> (t + tz) mod ms_per_day" "(t + tz) mod ms_per_day < ms_per_day"
    by (simp_all add: ms_per_day_def)
  ultimately show ?thesis using s by linarith
qed

lemma start_of_day_idem: "start_of_day tz (start_of_day tz d) = start_of_day tz d"
proof (cases d)
  case (JInt t)
  show ?thesis
  proof (cases "start_of_day tz d")
    case (JInt s)
    have "(s + tz) div ms_per_day = local_day tz t"
      using JInt \<open>d = _\<close> by (auto simp: time_clip_def local_day_def ms_per_day_def
          split: if_splits)
    then show ?thesis using JInt \<open>d = _\<close>
      by (simp add: local_day_def)
  next
    case NaN
    then show ?thesis by simp
  qed
next
  case NaN
  then show ?thesis by simp
qed

lemma days_in_month_le_31: "days_in_month y m \<le> 31"
  by (simp add: days_in_month_def)

lemma get_date_range:
  assumes "get_date tz (JInt t) = JInt n"
  shows "1 \<le> n \<and> n \<le> 31"
proof -
  obtain y m dt where c: "civil_of_day (local_day tz t) = (y, m, dt)"
    by (cases "civil_of_day (local_day tz t)") auto
  with assms have "n = dt" by simp
  with civil_of_day_spec [OF c] days_in_month_le_31 [of y m] show ?thesis by simp
qed

lemma get_month_range:
  assumes "get_month tz (JInt t) = JInt n"
  shows "0 \<le> n \<and> n \<le> 11"
proof -
  obtain y m dt where c: "civil_of_day (local_day tz t) = (y, m, dt)"
    by (cases "civil_of_day (local_day tz t)") auto
  with assms have "n = int m" by simp
  with civil_of_day_spec [OF c] show ?thesis by simp
qed

text \<open>\<open>setHours(23, 59, 59, 999)\<close> is the last millisecond of the local day.\<close>

lemma make_time_end_of_day: "make_time 23 59 59 999 = ms_per_day - 1"
  by (simp add: make_time_def ms_consts)

lemma day_window_iff:
  fixes x k D :: int
  assumes "0 < D"
  shows "k * D \<le> x \<and> x \<le> k * D + (D - 1) \<longleftrightarrow> x div D = k"
proof
  assume "k * D \<le> x \<and> x \<le> k * D + (D - 1)"
  then show "x div D = k"
    using int_div_pos_eq [of x D k "x - k * D"] by (simp add: algebra_simps)
next
  assume h: "x div D = k"
  have "k * D + x mod D = x" using div_mult_mod_eq [of x D] h by simp
  moreover have "0 \<le> x mod D" "x mod D < D" using assms by simp_all
  ultimately show "k * D \<le> x \<and> x \<le> k * D + (D - 1)" by linarith
qed

end
