(* ===== verification/Streak.thy ===== *)
theory Streak
  imports Store JsDate
begin

text \<open>
  The Streak Engine: the \<open>User\<close> document of \<open>src/models/User.ts\<close> and the two
  handlers of \<open>src/app/api/streak/route.ts\<close>. \<open>GET\<close> reads the signed-in user's
  streak start, repairs a missing or invalid one to the current time and saves it, and
  returns the elapsed whole days and hours since the start; \<open>POST\<close> (the "I Relapsed"
  button) appends the current time to \<open>history\<close> and restarts the streak now.

  Each \<open>new Date()\<close> of a handler is a separate reading of the clock; the model takes
  them as parameters in the order the code makes them, so that a claim can say how they
  relate. \<open>dbConnect()\<close> and the debug \<open>console.log\<close> calls have no effect on
  the state and are left out.
\<close>

text \<open>
  The user document. \<open>currentStreakStart\<close> is \<open>None\<close> when the field is absent or
  \<open>null\<close>, and \<open>Some NaN\<close> when the stored value does not parse as a date.
\<close>

record user = mdoc +
  email :: string
  password :: string
  user_name :: "string option"
  currentStreakStart :: "jsint option"
  history :: "jsint list"

text \<open>The JSON body of a successful \<open>GET\<close>: \<open>{streakDays, streakHours, startDate, history}\<close>.\<close>

datatype streak_json =
  StreakJson (streakDays: int) (streakHours: int) (startDate: "jsint option")
    (streak_history: "jsint list")

text \<open>\<open>new Date(user.currentStreakStart)\<close>: \<open>new Date(undefined)\<close> is an Invalid Date.\<close>

fun start_value :: "jsint option \<Rightarrow> jsint" where
  "start_value None = NaN"
| "start_value (Some d) = d"

text \<open>\<open>user.currentStreakStart = new Date(); await user.save();\<close>\<close>

definition repair_start :: "int \<Rightarrow> user \<Rightarrow> user list \<Rightarrow> user \<times> user list" where
  "repair_start t u us = (let u' = u\<lparr>currentStreakStart := Some (JInt t)\<rparr> in (u', save_doc u' us))"

text \<open>
  \<open>GET /api/streak\<close>. The clock is read at line 31 (\<open>t_fill\<close>, only when the start
  is missing), line 36 (\<open>t_now\<close>) and line 42 (\<open>t_fix\<close>, only when the start is
  invalid).
\<close>

definition streak_GET ::
  "session \<Rightarrow> int \<Rightarrow> int \<Rightarrow> int \<Rightarrow> user list \<Rightarrow> streak_json response \<times> user list" where
  "streak_GET sess t_fill t_now t_fix us =
     (case sess of
        None \<Rightarrow> (unauthorized, us)
      | Some uid \<Rightarrow>
          (case find_by_id uid us of
             None \<Rightarrow> (Message 404 ''User not found'', us)
           | Some u \<Rightarrow>
               (let (u1, us1) = (if currentStreakStart u = None then repair_start t_fill u us
                                 else (u, us));
                    start = start_value (currentStreakStart u1);
                    (u2, us2) = (if is_nan start then repair_start t_fix u1 us1 else (u1, us1));
                    validStart = start_value (currentStreakStart u2);
                    diffTime = js_abs (js_sub (JInt t_now) validStart);
                    diffDays = js_floor_div diffTime ms_per_day;
                    diffHours = js_floor_div diffTime ms_per_hour
                in (Json 200 (StreakJson (nan_or_zero diffDays) (nan_or_zero diffHours)
                                (currentStreakStart u2) (history u2)), us2))))"

text \<open>
  \<open>POST /api/streak\<close>: \<open>user.history.push(new Date())\<close> (\<open>t_push\<close>), then
  \<open>user.currentStreakStart = new Date()\<close> (\<open>t_start\<close>), then one save.
\<close>

definition streak_POST ::
  "session \<Rightarrow> int \<Rightarrow> int \<Rightarrow> user list \<Rightarrow> streak_json response \<times> user list" where
  "streak_POST sess t_push t_start us =
     (case sess of
        None \<Rightarrow> (unauthorized, us)
      | Some uid \<Rightarrow>
          (case find_by_id uid us of
             None \<Rightarrow> (Message 404 ''User not found'', us)
           | Some u \<Rightarrow>
               (let u' = u\<lparr>history := history u @ [JInt t_push],
                          currentStreakStart := Some (JInt t_start)\<rparr>
                in (Message 200 ''Streak reset successfully'', save_doc u' us))))"

text \<open>
  The contract of the spec's \<open>getStatus\<close>: the start after repair (the stored one when
  it is a valid date, else the clock reading that repairs it) and the status computed
  from it, \<open>elapsedDays = floor(|now - start| / 1 day)\<close> and likewise for hours.
\<close>

definition healed_start :: "int \<Rightarrow> int \<Rightarrow> jsint option \<Rightarrow> int" where
  "healed_start t_fill t_fix d =
     (case d of None \<Rightarrow> t_fill | Some NaN \<Rightarrow> t_fix | Some (JInt s) \<Rightarrow> s)"

definition streak_status_spec :: "int \<Rightarrow> int \<Rightarrow> jsint list \<Rightarrow> streak_json" where
  "streak_status_spec s now h =
     StreakJson (\<bar>now - s\<bar> div ms_per_day) (\<bar>now - s\<bar> div ms_per_hour) (Some (JInt s)) h"

text \<open>A user for the worked examples: id 1, streak started at the epoch, no resets.\<close>

definition demo_user :: user where
  "demo_user = \<lparr>oid = 1, createdAt = 0, email = ''a@b.c'', password = ''h'', user_name = None,
     currentStreakStart = Some (JInt 0), history = []\<rparr>"

section \<open>Properties of the streak handlers\<close>

lemma streak_GET_refines:
  assumes "find_by_id uid us = Some u"
  shows "streak_GET (Some uid) t_fill t_now t_fix us =
    (let s = healed_start t_fill t_fix (currentStreakStart u)
     in (Json 200 (streak_status_spec s t_now (history u)),
         if currentStreakStart u = Some (JInt s) then us
         else save_doc (u\<lparr>currentStreakStart := Some (JInt s)\<rparr>) us))"
  using assms
  by (cases "currentStreakStart u" rule: option.exhaust; cases "the (currentStreakStart u)")
     (auto simp: streak_GET_def repair_start_def healed_start_def streak_status_spec_def Let_def)

text \<open>
  C1: when the stored streak start is a valid date no later than the current time,
  \<open>GET /api/streak\<close> answers 200 with \<open>streakDays = floor((now - start) / 1 day)\<close>
  and \<open>streakHours = floor((now - start) / 1 hour)\<close>, the stored start and the
  history, and writes nothing.
\<close>

theorem streak_GET_valid_start:
  assumes "find_by_id uid us = Some u" and "currentStreakStart u = Some (JInt s)" and "s \<le> t_now"
  shows "streak_GET (Some uid) t_fill t_now t_fix us =
    (Json 200 (StreakJson ((t_now - s) div ms_per_day) ((t_now - s) div ms_per_hour)
       (Some (JInt s)) (history u)), us)"
  using assms by (simp add: streak_GET_refines healed_start_def streak_status_spec_def)


theorem streak_GET_valid_start_witness:
  "find_by_id 1 [demo_user] = Some demo_user \<and> currentStreakStart demo_user = Some (JInt 0)
   \<and> (0::int) \<le> 90000000 \<and>
   streak_GET (Some 1) 0 90000000 0 [demo_user] =
     (Json 200 (StreakJson 1 25 (Some (JInt 0)) []), [demo_user])"
proof -
  have h: "find_by_id 1 [demo_user] = Some demo_user" "currentStreakStart demo_user = Some (JInt 0)"
    by (simp_all add: demo_user_def find_by_id_def)
  show ?thesis
    using h streak_GET_valid_start [OF h, of 90000000 0 0]
    by (simp add: ms_per_day_def ms_per_hour_def demo_user_def)
qed

text \<open>
  When the stored streak start is missing, \<open>GET\<close> sets it to the time read at
  line 31, saves the user, and (the next clock reading being less than a day later)
  answers \<open>streakDays = 0\<close> with the repaired start.
\<close>

theorem streak_GET_repairs_missing:
  assumes "find_by_id uid us = Some u" and "currentStreakStart u = None"
    and "t_fill \<le> t_now" and "t_now < t_fill + ms_per_day"
  shows "fst (streak_GET (Some uid) t_fill t_now t_fix us) =
           Json 200 (StreakJson 0 ((t_now - t_fill) div ms_per_hour) (Some (JInt t_fill)) (history u))
      \<and> find_by_id uid (snd (streak_GET (Some uid) t_fill t_now t_fix us)) =
           Some (u\<lparr>currentStreakStart := Some (JInt t_fill)\<rparr>)"
proof -
  from assms(1) have "oid u = uid" by (simp add: find_by_id_Some)
  moreover have "(t_now - t_fill) div ms_per_day = 0"
    using assms(3,4) by (simp add: ms_per_day_def)
  ultimately show ?thesis using assms
    by (simp add: streak_GET_refines healed_start_def streak_status_spec_def find_by_id_save_doc)
qed

theorem streak_GET_repairs_missing_witness:
  "fst (streak_GET (Some 1) 5 7 9 [demo_user\<lparr>currentStreakStart := None\<rparr>]) =
     Json 200 (StreakJson 0 0 (Some (JInt 5)) [])
   \<and> find_by_id 1 (snd (streak_GET (Some 1) 5 7 9 [demo_user\<lparr>currentStreakStart := None\<rparr>])) =
     Some (demo_user\<lparr>currentStreakStart := Some (JInt 5)\<rparr>)"
proof -
  have h: "find_by_id 1 [demo_user\<lparr>currentStreakStart := None\<rparr>] = Some (demo_user\<lparr>currentStreakStart := None\<rparr>)"
    "currentStreakStart (demo_user\<lparr>currentStreakStart := None\<rparr>) = None"
    "(5::int) \<le> 7" "(7::int) < 5 + ms_per_day"
    by (simp_all add: demo_user_def find_by_id_def ms_per_day_def)
  show ?thesis
    using streak_GET_repairs_missing [OF h, of 9]
    by (simp add: ms_per_hour_def demo_user_def)
qed

text \<open>
  C2: when the stored streak start does not parse as a date, \<open>GET\<close> sets it to the
  time read at line 42, saves the user, and answers with the elapsed time from that
  repaired start, \<open>floor(|now - start| / 1 day)\<close>.
\<close>

theorem streak_GET_repairs_invalid:
  assumes "find_by_id uid us = Some u" and "currentStreakStart u = Some NaN"
  shows "fst (streak_GET (Some uid) t_fill t_now t_fix us) =
           Json 200 (StreakJson (\<bar>t_now - t_fix\<bar> div ms_per_day) (\<bar>t_now - t_fix\<bar> div ms_per_hour)
             (Some (JInt t_fix)) (history u))
      \<and> find_by_id uid (snd (streak_GET (Some uid) t_fill t_now t_fix us)) =
           Some (u\<lparr>currentStreakStart := Some (JInt t_fix)\<rparr>)"
proof -
  from assms(1) have "oid u = uid" by (simp add: find_by_id_Some)
  then show ?thesis using assms
    by (simp add: streak_GET_refines healed_start_def streak_status_spec_def find_by_id_save_doc)
qed

theorem streak_GET_repairs_invalid_witness:
  "fst (streak_GET (Some 1) 5 7 9 [demo_user\<lparr>currentStreakStart := Some NaN\<rparr>]) =
     Json 200 (StreakJson 0 0 (Some (JInt 9)) [])
   \<and> find_by_id 1 (snd (streak_GET (Some 1) 5 7 9 [demo_user\<lparr>currentStreakStart := Some NaN\<rparr>])) =
     Some (demo_user\<lparr>currentStreakStart := Some (JInt 9)\<rparr>)"
proof -
  have h: "find_by_id 1 [demo_user\<lparr>currentStreakStart := Some NaN\<rparr>] =
      Some (demo_user\<lparr>currentStreakStart := Some NaN\<rparr>)"
    "currentStreakStart (demo_user\<lparr>currentStreakStart := Some NaN\<rparr>) = Some NaN"
    by (simp_all add: demo_user_def find_by_id_def)
  show ?thesis
    using streak_GET_repairs_invalid [OF h, of 5 7 9]
    by (simp add: ms_per_day_def ms_per_hour_def demo_user_def)
qed

text \<open>
  C3: whatever the session, the store and the clock readings, a JSON answer of
  \<open>GET /api/streak\<close> has status 200, non-negative \<open>streakDays\<close> and
  \<open>streakHours\<close>, and a valid \<open>startDate\<close> which is the start stored for the
  signed-in user after the call: the self-healing invariant of the spec.
\<close>

theorem streak_GET_sound:
  assumes "streak_GET sess t_fill t_now t_fix us = (Json st b, us')"
  shows "st = 200 \<and> 0 \<le> streakDays b \<and> 0 \<le> streakHours b \<and>
    (\<exists>uid u s. sess = Some uid \<and> find_by_id uid us' = Some u \<and>
       currentStreakStart u = Some (JInt s) \<and> startDate b = Some (JInt s))"
proof -
  obtain uid where sess: "sess = Some uid"
    using assms by (cases sess) (auto simp: streak_GET_def unauthorized_def)
  obtain u where u: "find_by_id uid us = Some u"
    using assms sess by (cases "find_by_id uid us") (auto simp: streak_GET_def)
  have uid: "oid u = uid" using u by (simp add: find_by_id_Some)
  define s where "s = healed_start t_fill t_fix (currentStreakStart u)"
  define X where "X = (if currentStreakStart u = Some (JInt s) then us
         else save_doc (u\<lparr>currentStreakStart := Some (JInt s)\<rparr>) us)"
  have "streak_GET sess t_fill t_now t_fix us = (Json 200 (streak_status_spec s t_now (history u)), X)"
    using streak_GET_refines [OF u, of t_fill t_now t_fix] sess by (simp only: s_def X_def Let_def)
  with assms have st: "st = 200" and b: "b = streak_status_spec s t_now (history u)" and us': "us' = X"
    by simp_all
  have "\<exists>u'. find_by_id uid us' = Some u' \<and> currentStreakStart u' = Some (JInt s)"
  proof (cases "currentStreakStart u = Some (JInt s)")
    case True
    with us' u show ?thesis by (auto simp: X_def)
  next
    case False
    with us' u uid show ?thesis by (auto simp: X_def find_by_id_save_doc)
  qed
  then show ?thesis
    using st b sess by (auto simp: streak_status_spec_def ms_per_day_def ms_per_hour_def)
qed

theorem streak_GET_sound_witness:
  "0 \<le> streakDays (StreakJson 0 0 (Some (JInt 9)) []) \<and>
   (\<exists>u. find_by_id 1 (snd (streak_GET (Some 1) 5 7 9 [demo_user\<lparr>currentStreakStart := Some NaN\<rparr>])) = Some u
     \<and> currentStreakStart u = Some (JInt 9))"
proof -
  define us where "us = [demo_user\<lparr>currentStreakStart := Some NaN\<rparr>]"
  have r: "streak_GET (Some 1) 5 7 9 us = (Json 200 (StreakJson 0 0 (Some (JInt 9)) []),
      [demo_user\<lparr>currentStreakStart := Some (JInt 9)\<rparr>])"
    by (simp add: us_def streak_GET_def demo_user_def find_by_id_def repair_start_def save_doc_def Let_def
        ms_per_day_def ms_per_hour_def)
  show ?thesis
    unfolding us_def [symmetric] using streak_GET_sound [OF r] r by auto
qed

text \<open>
  C4: \<open>POST /api/streak\<close> for a signed-in user answers 200, appends exactly one entry,
  the time read at line 78, to the user's \<open>history\<close>, sets \<open>currentStreakStart\<close>
  to the time read at line 80, and leaves every other user unchanged.
\<close>

theorem streak_POST_effect:
  assumes "find_by_id uid us = Some u"
  shows "fst (streak_POST (Some uid) t_push t_start us) = Message 200 ''Streak reset successfully''
    \<and> find_by_id uid (snd (streak_POST (Some uid) t_push t_start us)) =
        Some (u\<lparr>history := history u @ [JInt t_push], currentStreakStart := Some (JInt t_start)\<rparr>)
    \<and> (\<forall>i. i \<noteq> uid \<longrightarrow> find_by_id i (snd (streak_POST (Some uid) t_push t_start us)) = find_by_id i us)"
proof -
  from assms have "oid u = uid" by (simp add: find_by_id_Some)
  with assms show ?thesis
    by (auto simp: streak_POST_def find_by_id_save_doc)
qed

theorem streak_POST_effect_witness:
  "fst (streak_POST (Some 1) 3 4 [demo_user]) = Message 200 ''Streak reset successfully''
   \<and> find_by_id 1 (snd (streak_POST (Some 1) 3 4 [demo_user])) =
       Some (demo_user\<lparr>history := [JInt 3], currentStreakStart := Some (JInt 4)\<rparr>)"
proof -
  have h: "find_by_id 1 [demo_user] = Some demo_user"
    by (simp add: demo_user_def find_by_id_def)
  show ?thesis
    using streak_POST_effect [OF h, of 3 4] by (simp add: demo_user_def)
qed

end
