(* ===== verification/Habits.thy ===== *)
theory Habits
  imports Store JsDate
begin

text \<open>
  The Habit Completion Tracker: the \<open>Habbit\<close> document of \<open>src/models/Habbit.ts\<close>,
  the three handlers of \<open>src/app/api/habits/route.ts\<close>, and the two computations of
  the client view \<open>src/components/habbit-tracker.tsx\<close> (whether a habit is done
  today, and its monthly progress). The server zeroes dates in its own local time
  (offset \<open>tz\<close>), the browser in the user's; both offsets are parameters.
\<close>

datatype frequency = Daily | Weekly

record habbit = owned +
  name :: string
  frequency :: frequency
  completedDates :: "jsint list"

text \<open>
  Schema validation of \<open>Habbit.create\<close>: \<open>name\<close> is required (Mongoose rejects a
  missing value and the empty string), \<open>frequency\<close> defaults to \<open>'daily'\<close> when
  absent and must be one of the enum values otherwise. A rejected document makes
  \<open>create\<close> throw.
\<close>

definition validate_habbit :: "string option \<Rightarrow> string option \<Rightarrow> (string \<times> frequency) option" where
  "validate_habbit nm fq =
     (case nm of
        None \<Rightarrow> None
      | Some n \<Rightarrow>
          if n = [] then None
          else (case fq of
                  None \<Rightarrow> Some (n, Daily)
                | Some f \<Rightarrow>
                    if f = ''daily'' then Some (n, Daily)
                    else if f = ''weekly'' then Some (n, Weekly) else None))"

text \<open>\<open>GET /api/habits\<close>: the user's habits, newest first.\<close>

definition habits_GET :: "session \<Rightarrow> habbit list \<Rightarrow> habbit list response \<times> habbit list" where
  "habits_GET sess hs =
     (case sess of
        None \<Rightarrow> (unauthorized, hs)
      | Some uid \<Rightarrow> (Json 200 (sort_desc (find_owned uid hs)), hs))"

text \<open>
  \<open>POST /api/habits\<close> with the parsed body \<open>{name, frequency}\<close>; \<open>t\<close> is the
  creation time Mongoose stamps as \<open>createdAt\<close>.
\<close>

definition habits_POST ::
  "session \<Rightarrow> int \<Rightarrow> string option \<Rightarrow> string option \<Rightarrow> habbit list \<Rightarrow> habbit response \<times> habbit list" where
  "habits_POST sess t nm fq hs =
     (case sess of
        None \<Rightarrow> (unauthorized, hs)
      | Some uid \<Rightarrow>
          (case validate_habbit nm fq of
             None \<Rightarrow> (Crash, hs)
           | Some (n, f) \<Rightarrow>
               (let h = \<lparr>oid = new_oid hs, createdAt = t, userId = uid, name = n,
                         frequency = f, completedDates = []\<rparr>
                in (Json 200 h, insert_doc h hs))))"

text \<open>
  The toggle of \<open>PUT\<close> (lines 58 to 74): zero the requested date, look for an entry
  on the same local day (\<open>findIndex\<close> comparing the zeroed times with \<open>===\<close>),
  remove the first one found, or else append the zeroed date.
\<close>

definition toggle_dates :: "int \<Rightarrow> jsint \<Rightarrow> jsint list \<Rightarrow> jsint list" where
  "toggle_dates tz date ds =
     (let targetDate = start_of_day tz date
      in case find_index (\<lambda>d. js_eq (start_of_day tz d) targetDate) ds of
           Some k \<Rightarrow> splice1 k ds
         | None \<Rightarrow> ds @ [targetDate])"

text \<open>
  \<open>PUT /api/habits\<close> with the parsed body \<open>{id, date}\<close>. The habit is looked up by
  id alone. \<open>habbit.save()\<close> casts \<open>completedDates\<close> to dates and throws on an
  Invalid Date, so an unparsable \<open>date\<close> ends in an uncaught exception.
\<close>

definition habits_PUT ::
  "session \<Rightarrow> int \<Rightarrow> nat \<Rightarrow> jsint \<Rightarrow> habbit list \<Rightarrow> habbit response \<times> habbit list" where
  "habits_PUT sess tz i date hs =
     (case sess of
        None \<Rightarrow> (unauthorized, hs)
      | Some uid \<Rightarrow>
          (case find_by_id i hs of
             None \<Rightarrow> (Message 404 ''Habbit not found'', hs)
           | Some h \<Rightarrow>
               (let h' = h\<lparr>completedDates := toggle_dates tz date (completedDates h)\<rparr>
                in if list_ex is_nan (completedDates h') then (Crash, hs)
                   else (Json 200 h', save_doc h' hs))))"

section \<open>The client view\<close>

text \<open>\<open>isCompletedToday(dates)\<close> of \<open>habbit-tracker.tsx\<close>, at browser offset \<open>tz\<close>.\<close>

definition is_completed_today :: "int \<Rightarrow> int \<Rightarrow> jsint list \<Rightarrow> bool" where
  "is_completed_today tz now dates =
     (let today = start_of_day tz (JInt now) in list_ex (\<lambda>d. js_eq (start_of_day tz d) today) dates)"

text \<open>
  \<open>Math.ceil(a / b)\<close> for integers and positive \<open>b\<close>, and
  \<open>Math.round(c / t * 100)\<close>, which for integers is \<open>floor((200c + t) / 2t)\<close>;
  the quotient is exact in binary floating point at the half-way points that occur
  here (\<open>t \<le> 31\<close>), so the integer formula is the one the browser computes. A zero
  target gives \<open>0/0 = NaN\<close> or \<open>c/0 = Infinity\<close>, and \<open>Math.min(100, Infinity)\<close> is
  100.
\<close>

definition ceil_div :: "int \<Rightarrow> int \<Rightarrow> int" where
  "ceil_div a b = - ((- a) div b)"

definition round_percent :: "int \<Rightarrow> int \<Rightarrow> jsint" where
  "round_percent c t =
     (if t = 0 then (if c = 0 then NaN else JInt 100)
      else JInt (min 100 ((200 * c + t) div (2 * t))))"

text \<open>
  Monthly statistics of one habit (lines 119 to 142), at the browser's clock reading
  \<open>now\<close> (whose \<open>getFullYear\<close>, \<open>getMonth\<close> and \<open>getDate\<close> are the fields of
  \<open>civil_of_day\<close>): the entries in the current month and year, the target (days so far for a
  daily habit, \<open>ceil(days / 7)\<close> for a weekly one), and the capped percentage.
\<close>

definition monthly_progress :: "int \<Rightarrow> int \<Rightarrow> frequency \<Rightarrow> jsint list \<Rightarrow> int \<times> int \<times> jsint" where
  "monthly_progress tz now freq dates =
     (let (currentYear, currentMonth, daysInMonthSoFar) = civil_of_day (local_day tz now);
          completedThisMonth = int (length (filter (\<lambda>d. js_eq (get_month tz d) (JInt (int currentMonth))
                                  \<and> js_eq (get_full_year tz d) (JInt currentYear)) dates));
          target = (if freq = Weekly then ceil_div daysInMonthSoFar 7 else daysInMonthSoFar)
      in (completedThisMonth, target, round_percent completedThisMonth target))"

section \<open>Invariants and examples\<close>

text \<open>
  The spec's invariant of a habit: the entries of \<open>completedDates\<close> have distinct day
  keys, all of them valid, in the server's local time.
\<close>

definition day_keys_ok :: "int \<Rightarrow> jsint list \<Rightarrow> bool" where
  "day_keys_ok tz ds \<longleftrightarrow> (\<forall>d \<in> set ds. start_of_day tz d \<noteq> NaN) \<and> distinct (map (start_of_day tz) ds)"

definition habbits_ok :: "int \<Rightarrow> habbit list \<Rightarrow> bool" where
  "habbits_ok tz hs \<longleftrightarrow> ids_distinct hs \<and> (\<forall>h \<in> set hs. day_keys_ok tz (completedDates h))"

text \<open>A habit of user 2 for the worked examples, never completed.\<close>

definition demo_habbit :: habbit where
  "demo_habbit = \<lparr>oid = 7, createdAt = 0, userId = 2, name = ''read'', frequency = Daily,
     completedDates = []\<rparr>"

section \<open>Properties of the toggle\<close>

lemma js_eq_JInt_right: "js_eq x (JInt z) \<longleftrightarrow> x = JInt z"
  by (cases x) simp_all

lemma start_of_day_valid_self:
  "start_of_day tz date = JInt z \<Longrightarrow> start_of_day tz (JInt z) = JInt z"
  using start_of_day_idem [of tz date] by simp

lemma toggle_dates_on:
  assumes "start_of_day tz date = JInt z" and "\<forall>d \<in> set ds. start_of_day tz d \<noteq> JInt z"
  shows "toggle_dates tz date ds = ds @ [JInt z]"
proof -
  have "find_index (\<lambda>d. js_eq (start_of_day tz d) (JInt z)) ds = None"
    using assms(2) by (auto simp: js_eq_JInt_right find_index_None_iff)
  with assms(1) show ?thesis by (simp add: toggle_dates_def Let_def)
qed

lemma toggle_dates_twice:
  assumes "start_of_day tz date = JInt z" and "start_of_day tz date' = JInt z"
    and "\<forall>d \<in> set ds. start_of_day tz d \<noteq> JInt z"
  shows "toggle_dates tz date' (toggle_dates tz date ds) = ds"
proof -
  have on: "toggle_dates tz date ds = ds @ [JInt z]" by (rule toggle_dates_on [OF assms(1,3)])
  have "find_index (\<lambda>d. js_eq (start_of_day tz d) (JInt z)) ds = None"
    using assms(3) by (auto simp: js_eq_JInt_right find_index_None_iff)
  moreover have "start_of_day tz (JInt z) = JInt z" by (rule start_of_day_valid_self [OF assms(1)])
  ultimately have "find_index (\<lambda>d. js_eq (start_of_day tz d) (JInt z)) (ds @ [JInt z]) = Some (length ds)"
    by (simp add: find_index_append)
  with on assms(2) show ?thesis by (simp add: toggle_dates_def Let_def)
qed

lemma toggle_dates_keys_ok:
  assumes ok: "day_keys_ok tz ds" and nn: "\<not> list_ex is_nan (toggle_dates tz date ds)"
  shows "day_keys_ok tz (toggle_dates tz date ds)"
proof (cases "find_index (\<lambda>d. js_eq (start_of_day tz d) (start_of_day tz date)) ds")
  case (Some k)
  then have "toggle_dates tz date ds = splice1 k ds" by (simp add: toggle_dates_def Let_def)
  with ok show ?thesis
    using set_splice1_subset [of k ds] distinct_splice1 [of "map (start_of_day tz) ds" k]
    by (auto simp: day_keys_ok_def map_splice1)
next
  case None
  then have t: "toggle_dates tz date ds = ds @ [start_of_day tz date]" by (simp add: toggle_dates_def Let_def)
  with nn obtain z where z: "start_of_day tz date = JInt z"
    by (cases "start_of_day tz date") (auto simp: list_ex_iff)
  have self: "start_of_day tz (JInt z) = JInt z" by (rule start_of_day_valid_self [OF z])
  have "\<forall>d \<in> set ds. start_of_day tz d \<noteq> JInt z"
    using None z by (auto simp: js_eq_JInt_right find_index_None_iff)
  with ok t z self show ?thesis by (auto simp: day_keys_ok_def)
qed

lemma is_completed_today_find_index:
  "is_completed_today tz now ds \<longleftrightarrow>
     find_index (\<lambda>d. js_eq (start_of_day tz d) (start_of_day tz (JInt now))) ds \<noteq> None"
  unfolding is_completed_today_def Let_def by (rule find_index_Some_iff_ex [symmetric])

lemma toggle_dates_no_nan:
  assumes ok: "day_keys_ok tz ds" and t: "start_of_day tz date \<noteq> NaN"
  shows "\<not> list_ex is_nan (toggle_dates tz date ds)"
proof -
  have "\<forall>d \<in> set ds. \<not> is_nan d"
    using ok by (auto simp: day_keys_ok_def is_nan_iff)
  moreover have "set (toggle_dates tz date ds) \<subseteq> set ds \<union> {start_of_day tz date}"
    by (auto simp: toggle_dates_def Let_def split: option.splits dest: in_set_splice1D)
  ultimately show ?thesis using t by (auto simp: list_ex_iff is_nan_iff)
qed

lemma toggle_flips_today:
  assumes ok: "day_keys_ok tz ds" and z: "start_of_day tz (JInt now) = JInt z"
  shows "is_completed_today tz now (toggle_dates tz (JInt now) ds) \<longleftrightarrow>
           \<not> is_completed_today tz now ds"
proof (cases "find_index (\<lambda>d. js_eq (start_of_day tz d) (JInt z)) ds")
  case (Some k)
  then have tg: "toggle_dates tz (JInt now) ds = splice1 k ds"
    using z by (simp add: toggle_dates_def)
  from find_index_Some [OF Some] have k: "k < length ds" "start_of_day tz (ds ! k) = JInt z"
    by (simp_all add: js_eq_JInt_right)
  have "map (start_of_day tz) ds ! k \<notin> set (splice1 k (map (start_of_day tz) ds))"
    using ok k(1) by (intro nth_notin_splice1) (simp_all add: day_keys_ok_def)
  then have "\<forall>d \<in> set (splice1 k ds). start_of_day tz d \<noteq> JInt z"
    using k by (auto simp: map_splice1 [symmetric] image_iff)
  then have "\<not> is_completed_today tz now (splice1 k ds)"
    using z by (auto simp: is_completed_today_def list_ex_iff js_eq_JInt_right)
  moreover have "is_completed_today tz now ds"
    using Some z by (simp add: is_completed_today_find_index)
  ultimately show ?thesis using tg by simp
next
  case None
  then have tg: "toggle_dates tz (JInt now) ds = ds @ [JInt z]"
    using z by (simp add: toggle_dates_def)
  have "start_of_day tz (JInt z) = JInt z" by (rule start_of_day_valid_self [OF z])
  then have "is_completed_today tz now (ds @ [JInt z])"
    using z by (simp add: is_completed_today_def)
  moreover have "\<not> is_completed_today tz now ds"
    using None z by (simp add: is_completed_today_find_index)
  ultimately show ?thesis using tg by simp
qed

lemma habits_PUT_cases:
  "habits_PUT sess tz i date hs = (r, hs') \<Longrightarrow>
     hs' = hs \<or> (\<exists>h. find_by_id i hs = Some h \<and> \<not> list_ex is_nan (toggle_dates tz date (completedDates h))
        \<and> hs' = save_doc (h\<lparr>completedDates := toggle_dates tz date (completedDates h)\<rparr>) hs)"
  by (auto simp: habits_PUT_def Let_def split: option.splits if_splits)

lemma habbits_ok_save_toggle:
  assumes "habbits_ok tz hs" and h: "find_by_id i hs = Some h"
    and nn: "\<not> list_ex is_nan (toggle_dates tz date (completedDates h))"
  shows "habbits_ok tz (save_doc (h\<lparr>completedDates := toggle_dates tz date (completedDates h)\<rparr>) hs)"
proof -
  have "day_keys_ok tz (completedDates h)"
    using assms(1) find_by_id_Some [OF h] by (auto simp: habbits_ok_def)
  then have "day_keys_ok tz (toggle_dates tz date (completedDates h))"
    using nn by (rule toggle_dates_keys_ok)
  with assms(1) show ?thesis
    by (auto simp: habbits_ok_def dest: set_save_doc)
qed

lemma habits_POST_ok: "habbits_ok tz hs \<Longrightarrow> habbits_ok tz (snd (habits_POST s t nm fq hs))"
  by (auto simp: habits_POST_def habbits_ok_def Let_def new_oid_notin day_keys_ok_def
      split: option.splits)

lemma habits_PUT_ok: "habbits_ok tz hs \<Longrightarrow> habbits_ok tz (snd (habits_PUT s tz i date hs))"
proof -
  assume ok: "habbits_ok tz hs"
  have "habits_PUT s tz i date hs = (fst (habits_PUT s tz i date hs), snd (habits_PUT s tz i date hs))"
    by simp
  from habits_PUT_cases [OF this] ok habbits_ok_save_toggle show ?thesis by metis
qed

lemma ceil_div_7_bounds:
  fixes a :: int
  assumes "1 \<le> a"
  shows "1 \<le> ceil_div a 7 \<and> ceil_div a 7 \<le> a"
proof -
  have e: "(- a) div 7 * 7 + (- a) mod 7 = - a" by (rule div_mult_mod_eq)
  have "0 \<le> (- a) mod 7" "(- a) mod 7 < 7" by simp_all
  with e assms show ?thesis unfolding ceil_div_def by linarith
qed

lemma round_percent_bounds:
  assumes "0 \<le> c" and "1 \<le> t"
  shows "\<exists>n. round_percent c t = JInt n \<and> 0 \<le> n \<and> n \<le> 100"
proof -
  have "0 \<le> (200 * c + t) div (2 * t)"
    using assms by (simp add: pos_imp_zdiv_nonneg_iff)
  with assms show ?thesis by (simp add: round_percent_def)
qed

lemma validate_habbit_None_iff:
  "validate_habbit nm fq = None \<longleftrightarrow>
     nm = None \<or> nm = Some [] \<or> (\<exists>f. fq = Some f \<and> f \<noteq> ''daily'' \<and> f \<noteq> ''weekly'')"
  by (auto simp: validate_habbit_def split: option.splits)

section \<open>Properties of the habit handlers and the view\<close>

text \<open>
  C5: with the server and the browser in the same time zone, one \<open>PUT /api/habits\<close>
  with the current time flips what the view shows: a habit that was not completed
  today is completed today afterwards, and one that was is not, provided the habit's
  day keys are distinct (the invariant of C8).
\<close>

theorem habits_PUT_flips_today:
  assumes h: "find_by_id i hs = Some h" and ok: "day_keys_ok tz (completedDates h)"
    and z: "start_of_day tz (JInt now) = JInt z"
  shows "\<exists>h'. habits_PUT (Some u) tz i (JInt now) hs = (Json 200 h', save_doc h' hs) \<and> oid h' = i
    \<and> (is_completed_today tz now (completedDates h') \<longleftrightarrow> \<not> is_completed_today tz now (completedDates h))"
proof -
  let ?h' = "h\<lparr>completedDates := toggle_dates tz (JInt now) (completedDates h)\<rparr>"
  have nn: "\<not> list_ex is_nan (toggle_dates tz (JInt now) (completedDates h))"
    using toggle_dates_no_nan [OF ok] z by simp
  have "habits_PUT (Some u) tz i (JInt now) hs = (Json 200 ?h', save_doc ?h' hs)"
    using h nn by (simp add: habits_PUT_def Let_def)
  moreover have "oid ?h' = i" using find_by_id_Some [OF h] by simp
  moreover have "is_completed_today tz now (completedDates ?h') \<longleftrightarrow>
      \<not> is_completed_today tz now (completedDates h)"
    using toggle_flips_today [OF ok z] by simp
  ultimately show ?thesis by blast
qed

theorem habits_PUT_flips_today_witness:
  "\<exists>h'. habits_PUT (Some 2) 0 7 (JInt 1709307000000) [demo_habbit] =
      (Json 200 h', save_doc h' [demo_habbit]) \<and> oid h' = 7 \<and>
      (is_completed_today 0 1709307000000 (completedDates h') \<longleftrightarrow>
       \<not> is_completed_today 0 1709307000000 (completedDates demo_habbit))"
proof -
  have h: "find_by_id 7 [demo_habbit] = Some demo_habbit"
    "day_keys_ok 0 (completedDates demo_habbit)"
    "start_of_day 0 (JInt 1709307000000) = JInt 1709251200000"
    by (simp_all add: demo_habbit_def find_by_id_def day_keys_ok_def time_clip_def ms_per_day_def)
  show ?thesis by (rule habits_PUT_flips_today [OF h])
qed

text \<open>
  C6: toggling the same day twice restores the habit: when no entry lies on the local
  day of \<open>t\<close>, a \<open>PUT\<close> at \<open>t\<close> followed by a \<open>PUT\<close> at any \<open>t'\<close> on the same
  day answers the original habit and leaves the store as it was (the spec's example:
  \<open>[]\<close>, toggle 2024-03-01, toggle 2024-03-01T15:30, \<open>[]\<close>).
\<close>

theorem habits_PUT_twice:
  assumes ids: "ids_distinct hs" and h: "find_by_id i hs = Some h"
    and nn: "\<not> list_ex is_nan (completedDates h)"
    and z: "start_of_day tz (JInt t) = JInt z" and z': "start_of_day tz (JInt t') = JInt z"
    and off: "\<forall>d \<in> set (completedDates h). start_of_day tz d \<noteq> JInt z"
  shows "habits_PUT (Some u') tz i (JInt t') (snd (habits_PUT (Some u) tz i (JInt t) hs)) = (Json 200 h, hs)"
proof -
  let ?h1 = "h\<lparr>completedDates := completedDates h @ [JInt z]\<rparr>"
  have on: "toggle_dates tz (JInt t) (completedDates h) = completedDates h @ [JInt z]"
    by (rule toggle_dates_on [OF z off])
  have s1: "snd (habits_PUT (Some u) tz i (JInt t) hs) = save_doc ?h1 hs"
    using h nn on by (simp add: habits_PUT_def Let_def)
  have i: "oid h = i" using find_by_id_Some [OF h] by simp
  have f1: "find_by_id i (save_doc ?h1 hs) = Some ?h1"
    using h i by (simp add: find_by_id_save_doc)
  have off2: "toggle_dates tz (JInt t') (completedDates ?h1) = completedDates h"
    using toggle_dates_twice [OF z z' off] on by simp
  have "habits_PUT (Some u') tz i (JInt t') (save_doc ?h1 hs) = (Json 200 h, save_doc h (save_doc ?h1 hs))"
    using f1 off2 nn by (simp add: habits_PUT_def Let_def)
  moreover have "save_doc h (save_doc ?h1 hs) = hs"
    using save_doc_save_doc [of h ?h1 hs] save_doc_found [OF ids h] by simp
  ultimately show ?thesis using s1 by simp
qed

theorem habits_PUT_twice_witness:
  "habits_PUT (Some 2) 0 7 (JInt 1709307000000)
     (snd (habits_PUT (Some 2) 0 7 (JInt 1709251200000) [demo_habbit])) = (Json 200 demo_habbit, [demo_habbit])"
proof -
  have h: "ids_distinct [demo_habbit]" "find_by_id 7 [demo_habbit] = Some demo_habbit"
    "\<not> list_ex is_nan (completedDates demo_habbit)"
    "start_of_day 0 (JInt 1709251200000) = JInt 1709251200000"
    "start_of_day 0 (JInt 1709307000000) = JInt 1709251200000"
    "\<forall>d \<in> set (completedDates demo_habbit). start_of_day 0 d \<noteq> JInt 1709251200000"
    by (simp_all add: demo_habbit_def find_by_id_def ids_distinct_def time_clip_def ms_per_day_def)
  show ?thesis by (rule habits_PUT_twice [OF h])
qed

text \<open>
  C7: \<open>PUT /api/habits\<close> keeps the store invariant: ids stay distinct and every habit's
  completion entries keep distinct, valid day keys, whatever the session, id and date
  (an Invalid Date makes the save throw and leaves the store unchanged).
\<close>

theorem habits_PUT_preserves_ok:
  assumes "habbits_ok tz hs" and "habits_PUT sess tz i date hs = (r, hs')"
  shows "habbits_ok tz hs'"
  using habits_PUT_cases [OF assms(2)] assms(1) habbits_ok_save_toggle by blast

theorem habits_PUT_preserves_ok_witness:
  "habbits_ok 0 [demo_habbit\<lparr>completedDates := [JInt 1709251200000]\<rparr>]"
proof -
  have ok: "habbits_ok 0 [demo_habbit]"
    by (simp add: habbits_ok_def ids_distinct_def day_keys_ok_def demo_habbit_def)
  have r: "habits_PUT (Some 2) 0 7 (JInt 1709307000000) [demo_habbit] =
      (Json 200 (demo_habbit\<lparr>completedDates := [JInt 1709251200000]\<rparr>),
       [demo_habbit\<lparr>completedDates := [JInt 1709251200000]\<rparr>])"
    by (simp add: demo_habbit_def habits_PUT_def find_by_id_def toggle_dates_def time_clip_def
        ms_per_day_def save_doc_def Let_def)
  show ?thesis by (rule habits_PUT_preserves_ok [OF ok r])
qed

text \<open>
  C9: the view's monthly statistics are bounded whatever the entries: the count is
  non-negative, the target is between 1 and 31 (so the division by zero the spec guards
  against cannot occur), and the percentage is a number between 0 and 100 (the spec's
  example: more completions than days so far is capped at 100).
\<close>

theorem monthly_progress_bounds:
  assumes "monthly_progress tz now freq ds = (c, t, p)"
  shows "0 \<le> c \<and> 1 \<le> t \<and> t \<le> 31 \<and> (\<exists>n. p = JInt n \<and> 0 \<le> n \<and> n \<le> 100)"
proof -
  obtain y m dd where civ: "civil_of_day (local_day tz now) = (y, m, dd)"
    by (cases "civil_of_day (local_day tz now)") auto
  have dd: "1 \<le> dd" "dd \<le> 31"
    using civil_of_day_spec [OF civ] days_in_month_le_31 [of y m] by simp_all
  have t: "t = (if freq = Weekly then ceil_div dd 7 else dd)" and c: "0 \<le> c"
    and p: "p = round_percent c t"
    using assms civ by (auto simp: monthly_progress_def Let_def)
  have "1 \<le> t \<and> t \<le> 31" using ceil_div_7_bounds [OF dd(1)] dd t by auto
  with c p round_percent_bounds [of c t] show ?thesis by simp
qed

theorem monthly_progress_bounds_witness:
  "monthly_progress 0 1709337000000 Daily [JInt 1709251200000, JInt 1709337000000] = (2, 1, JInt 100)
   \<and> 0 \<le> (2::int) \<and> 1 \<le> (1::int) \<and> (1::int) \<le> 31"
proof -
  have e: "monthly_progress 0 1709337000000 Daily [JInt 1709251200000, JInt 1709337000000] = (2, 1, JInt 100)"
    by code_simp
  from monthly_progress_bounds [OF e] e show ?thesis by simp
qed

text \<open>
  C10: the view's millisecond comparison is a calendar comparison: when today's local
  midnight is a valid date, \<open>isCompletedToday\<close> holds exactly when some entry lies on
  the same local day as now.
\<close>

theorem is_completed_today_same_day:
  assumes "start_of_day tz (JInt now) \<noteq> NaN"
  shows "is_completed_today tz now ds \<longleftrightarrow> (\<exists>t. JInt t \<in> set ds \<and> local_day tz t = local_day tz now)"
proof -
  have "js_eq (start_of_day tz d) (start_of_day tz (JInt now)) \<longleftrightarrow>
      (\<exists>t. d = JInt t \<and> local_day tz t = local_day tz now)" for d
  proof (cases d)
    case (JInt t)
    have b: "js_eq (start_of_day tz (JInt t)) (start_of_day tz (JInt now)) \<longleftrightarrow>
        start_of_day tz (JInt t) \<noteq> NaN \<and> local_day tz t = local_day tz now"
      by (rule bucket_eq)
    have "local_day tz t = local_day tz now \<Longrightarrow> start_of_day tz (JInt t) = start_of_day tz (JInt now)"
      by (simp add: local_day_def)
    with b JInt assms show ?thesis by (auto simp del: set_hours.simps)
  next
    case NaN
    then show ?thesis by simp
  qed
  then show ?thesis by (auto simp: is_completed_today_def list_ex_iff)
qed

theorem is_completed_today_same_day_witness:
  "is_completed_today 0 1709307000000 [JInt 1709251200000]"
proof -
  have v: "start_of_day 0 (JInt 1709307000000) \<noteq> NaN"
    by (simp add: time_clip_def ms_per_day_def)
  have "\<exists>t. JInt t \<in> set [JInt 1709251200000] \<and> local_day 0 t = local_day 0 1709307000000"
    by (simp add: local_day_def ms_per_day_def)
  with is_completed_today_same_day [OF v] show ?thesis by blast
qed

text \<open>
  C11: \<open>POST /api/habits\<close> without a name, with an empty name, or with a frequency
  other than \<open>daily\<close> and \<open>weekly\<close> fails schema validation; \<open>create\<close> throws,
  the handler does not catch it, the answer is a 500 and nothing is stored.
\<close>

theorem habits_POST_rejects:
  assumes "nm = None \<or> nm = Some [] \<or> (\<exists>f. fq = Some f \<and> f \<noteq> ''daily'' \<and> f \<noteq> ''weekly'')"
  shows "habits_POST (Some uid) t nm fq hs = (Crash, hs)"
  using assms by (simp add: habits_POST_def validate_habbit_None_iff [symmetric])

theorem habits_POST_rejects_witness:
  "habits_POST (Some 2) 0 (Some ''read'') (Some ''monthly'') [demo_habbit] = (Crash, [demo_habbit])"
  by (rule habits_POST_rejects) simp

text \<open>
  A valid \<open>POST /api/habits\<close> stores and answers one new habit owned by the
  signed-in user, with the given name, no completions, frequency \<open>daily\<close> unless
  \<open>weekly\<close> was asked for, and an id no other habit has.
\<close>

theorem habits_POST_creates:
  assumes "n \<noteq> []" and "fq = None \<or> fq = Some ''daily'' \<or> fq = Some ''weekly''"
  shows "\<exists>h. habits_POST (Some uid) t (Some n) fq hs = (Json 200 h, hs @ [h]) \<and>
    userId h = uid \<and> name h = n \<and> completedDates h = [] \<and> createdAt h = t \<and>
    frequency h = (if fq = Some ''weekly'' then Weekly else Daily) \<and> (\<forall>d \<in> set hs. oid d \<noteq> oid h)"
proof -
  define f where "f = (if fq = Some ''weekly'' then Weekly else Daily)"
  have v: "validate_habbit (Some n) fq = Some (n, f)"
    using assms by (auto simp: validate_habbit_def f_def)
  define h :: habbit where "h = \<lparr>oid = new_oid hs, createdAt = t, userId = uid, name = n,
      frequency = f, completedDates = []\<rparr>"
  have "habits_POST (Some uid) t (Some n) fq hs = (Json 200 h, hs @ [h])"
    using v by (simp add: habits_POST_def insert_doc_def h_def Let_def)
  moreover have "\<forall>d \<in> set hs. oid d \<noteq> oid h"
    using new_oid_fresh [of _ hs] by (fastforce simp: h_def)
  ultimately show ?thesis by (auto simp: h_def f_def)
qed

theorem habits_POST_creates_witness:
  "\<exists>h. habits_POST (Some 2) 0 (Some ''read'') None [] = (Json 200 h, [h]) \<and> frequency h = Daily"
  using habits_POST_creates [of "''read''" None 2 0 "[]"] by auto

text \<open>
  \<open>GET /api/habits\<close> answers exactly the signed-in user's habits, newest first,
  and writes nothing.
\<close>

theorem habits_GET_owned:
  "\<exists>r. habits_GET (Some uid) hs = (Json 200 r, hs) \<and> set r = {h \<in> set hs. userId h = uid}
     \<and> sorted_wrt (\<ge>) (map createdAt r)"
  using sorted_sort_desc [of "find_owned uid hs"] by (auto simp: habits_GET_def find_owned_def)

text \<open>
  C12: \<open>PUT /api/habits\<close> looks the habit up by id alone: a signed-in user toggles a
  habit owned by another user (here user 1 updates user 2's habit).
\<close>

theorem habits_PUT_any_owner:
  "userId demo_habbit \<noteq> 1 \<and>
   habits_PUT (Some 1) 0 7 (JInt 1709307000000) [demo_habbit] =
     (Json 200 (demo_habbit\<lparr>completedDates := [JInt 1709251200000]\<rparr>),
      [demo_habbit\<lparr>completedDates := [JInt 1709251200000]\<rparr>])"
  by (simp add: demo_habbit_def habits_PUT_def find_by_id_def toggle_dates_def time_clip_def
      ms_per_day_def save_doc_def Let_def)

text \<open>
  C13: the server zeroes dates in its own time zone and the view in the browser's: with
  the server on UTC and the browser on UTC+9, a click at 05:00 local time stores a day
  the view does not count as today, and the next click removes it again, so the habit
  is never shown as done between midnight and 09:00.
\<close>

theorem habits_toggle_tz_mismatch:
  "snd (habits_PUT (Some 2) 0 7 (JInt 1709323200000) [demo_habbit]) =
     [demo_habbit\<lparr>completedDates := [JInt 1709251200000]\<rparr>]
   \<and> \<not> is_completed_today 32400000 1709323200000 [JInt 1709251200000]
   \<and> snd (habits_PUT (Some 2) 0 7 (JInt 1709323200000)
        [demo_habbit\<lparr>completedDates := [JInt 1709251200000]\<rparr>]) = [demo_habbit]"
  by (simp add: demo_habbit_def habits_PUT_def find_by_id_def toggle_dates_def time_clip_def
      ms_per_day_def save_doc_def is_completed_today_def splice1_def Let_def)

text \<open>
  C14: a \<open>date\<close> that does not parse makes \<open>habbit.save()\<close> throw: the answer is a
  500 and the store is unchanged, where a validation error (400) would be expected.
\<close>

theorem habits_PUT_invalid_date:
  assumes "find_by_id i hs = Some h"
  shows "habits_PUT (Some u) tz i NaN hs = (Crash, hs)"
  using assms by (simp add: habits_PUT_def toggle_dates_def Let_def list_ex_iff split: option.splits)

theorem habits_PUT_invalid_date_witness:
  "habits_PUT (Some 2) 0 7 NaN [demo_habbit] = (Crash, [demo_habbit])"
proof -
  have "find_by_id 7 [demo_habbit] = Some demo_habbit" by (simp add: demo_habbit_def find_by_id_def)
  then show ?thesis by (rule habits_PUT_invalid_date)
qed

end
