(* ===== verification/HabitsView.thy ===== *)
theory HabitsView
  imports Habits
begin

text \<open>
  The habit tracker client, \<open>src/components/habbit-tracker.tsx\<close> (lines 16 to 75), and its
  composition with the habit handlers of \<open>src/app/api/habits/route.ts\<close> (theory
  \<open>Habits\<close>). The React state of \<open>HabbitTracker\<close> is the record \<open>habit_view\<close>; each
  handler of the component is one function from the server's answer to the next state; a
  user action (fetch, typing, add, toggle) is an \<open>habit_action\<close>, and
  \<open>habit_client_step\<close> runs it against the habit collection through the route handlers,
  awaiting each request before the next action, as the component does for a single user.

  The main lemma is that the list the component shows is, once loaded, always the answer
  the server would give to \<open>GET /api/habits\<close>: the "optimistic update" of
  \<open>toggleHabbit\<close>, which replaces the toggled habit by the server's answer, is exact.
\<close>

section \<open>The component state and its handlers\<close>

record habit_view =
  hv_habbits :: "habbit list"
  newHabbitName :: string
  newHabbitFreq :: frequency
  hv_loading :: bool

definition init_habit_view :: habit_view where
  "init_habit_view = \<lparr>hv_habbits = [], newHabbitName = [], newHabbitFreq = Daily, hv_loading = True\<rparr>"

text \<open>\<open>fetchHabbits\<close>: an ok answer replaces the list; \<open>finally\<close> clears the flag.\<close>

definition fetch_habbits_done :: "habbit list response \<Rightarrow> habit_view \<Rightarrow> habit_view" where
  "fetch_habbits_done r v =
     (case ok_body r of Some d \<Rightarrow> v\<lparr>hv_habbits := d\<rparr> | None \<Rightarrow> v)\<lparr>hv_loading := False\<rparr>"

text \<open>\<open>JSON.stringify\<close> of the \<open>'daily' | 'weekly'\<close> state.\<close>

primrec freq_string :: "frequency \<Rightarrow> string" where
  "freq_string Daily = ''daily''"
| "freq_string Weekly = ''weekly''"

text \<open>
  \<open>handleAddHabbit\<close>: nothing is sent when the trimmed name is empty; otherwise the body
  is the untrimmed \<open>{name, frequency}\<close>. On an ok answer the input is cleared and the
  list refetched.
\<close>

definition add_habbit_request :: "habit_view \<Rightarrow> (string \<times> string) option" where
  "add_habbit_request v =
     (if js_trim (newHabbitName v) = [] then None
      else Some (newHabbitName v, freq_string (newHabbitFreq v)))"

definition add_habbit_done :: "habbit response \<Rightarrow> habit_view \<Rightarrow> habit_view" where
  "add_habbit_done r v = (if ok_body r \<noteq> None then v\<lparr>newHabbitName := []\<rparr> else v)"

text \<open>
  \<open>toggleHabbit(id)\<close>: on an ok answer the habit with that \<open>_id\<close> is replaced by the
  answered document. The request carries \<open>new Date().toISOString()\<close>, which the server's
  \<open>new Date(date)\<close> reads back to the same millisecond, so the server receives the
  client's clock reading \<open>JInt now\<close>.
\<close>

definition toggle_habbit_done :: "nat \<Rightarrow> habbit response \<Rightarrow> habit_view \<Rightarrow> habit_view" where
  "toggle_habbit_done i r v =
     (case ok_body r of
        Some h' \<Rightarrow> v\<lparr>hv_habbits := map (\<lambda>h. if oid h = i then h' else h) (hv_habbits v)\<rparr>
      | None \<Rightarrow> v)"

text \<open>The empty-state message of lines 179 to 183.\<close>

definition shows_no_habits :: "habit_view \<Rightarrow> bool" where
  "shows_no_habits v \<longleftrightarrow> hv_habbits v = [] \<and> \<not> hv_loading v"

section \<open>The component against the server\<close>

text \<open>
  The actions of a signed-in user \<open>u\<close>: the mount effect's fetch, typing into the two
  inputs, the add button at time \<open>t\<close> (Mongoose's \<open>createdAt\<close>), and a click on the
  check of habit \<open>i\<close> at client time \<open>now\<close>. \<open>tz\<close> is the server's offset.
\<close>

datatype habit_action = Fetch | SetName string | SetFreq frequency | AddHabbit int | ToggleHabbit nat int

fun habit_client_step ::
  "nat \<Rightarrow> int \<Rightarrow> habit_view \<times> habbit list \<Rightarrow> habit_action \<Rightarrow> habit_view \<times> habbit list" where
  "habit_client_step u tz (v, hs) Fetch = (fetch_habbits_done (fst (habits_GET (Some u) hs)) v, hs)"
| "habit_client_step u tz (v, hs) (SetName n) = (v\<lparr>newHabbitName := n\<rparr>, hs)"
| "habit_client_step u tz (v, hs) (SetFreq f) = (v\<lparr>newHabbitFreq := f\<rparr>, hs)"
| "habit_client_step u tz (v, hs) (AddHabbit t) =
     (case add_habbit_request v of
        None \<Rightarrow> (v, hs)
      | Some (n, f) \<Rightarrow>
          (case habits_POST (Some u) t (Some n) (Some f) hs of
             (r, hs') \<Rightarrow>
               if ok_body r \<noteq> None
               then (fetch_habbits_done (fst (habits_GET (Some u) hs')) (add_habbit_done r v), hs')
               else (add_habbit_done r v, hs')))"
| "habit_client_step u tz (v, hs) (ToggleHabbit i now) =
     (case habits_PUT (Some u) tz i (JInt now) hs of (r, hs') \<Rightarrow> (toggle_habbit_done i r v, hs'))"

definition habit_client_run ::
  "nat \<Rightarrow> int \<Rightarrow> habit_view \<times> habbit list \<Rightarrow> habit_action list \<Rightarrow> habit_view \<times> habbit list" where
  "habit_client_run u tz st acts = foldl (habit_client_step u tz) st acts"

text \<open>The view agrees with the server: still loading, or showing what \<open>GET\<close> answers.\<close>

definition habit_synced :: "nat \<Rightarrow> habit_view \<Rightarrow> habbit list \<Rightarrow> bool" where
  "habit_synced u v hs \<longleftrightarrow> hv_loading v \<or> fst (habits_GET (Some u) hs) = Json 200 (hv_habbits v)"

section \<open>Properties\<close>

lemma fetch_habbits_synced: "habit_synced u (fetch_habbits_done (fst (habits_GET (Some u) hs)) v) hs"
  by (simp add: habit_synced_def fetch_habbits_done_def habits_GET_def)

lemma habits_POST_not_ok:
  "habits_POST (Some u) t nm fq hs = (r, hs') \<Longrightarrow> ok_body r = None \<Longrightarrow> hs' = hs"
  by (auto simp: habits_POST_def Let_def split: option.splits)

lemma toggle_habbit_synced:
  assumes ok: "habbits_ok tz hs" and s: "habit_synced u v hs"
    and put: "habits_PUT (Some u) tz i (JInt now) hs = (r, hs')"
  shows "habit_synced u (toggle_habbit_done i r v) hs'"
proof (cases "ok_body r")
  case None
  moreover have "hs' = hs"
    using put None by (auto simp: habits_PUT_def Let_def split: option.splits if_splits)
  ultimately show ?thesis using s by (simp add: toggle_habbit_done_def)
next
  case (Some h')
  then obtain h where h: "find_by_id i hs = Some h"
    and h': "h' = h\<lparr>completedDates := toggle_dates tz (JInt now) (completedDates h)\<rparr>"
    and hs': "hs' = save_doc h' hs"
    using put by (auto simp: habits_PUT_def Let_def split: option.splits if_splits)
  have i: "oid h' = i" using find_by_id_Some [OF h] h' by simp
  have ids: "ids_distinct hs" using ok by (simp add: habbits_ok_def)
  have q: "sort_desc (find_owned u hs') = save_doc h' (sort_desc (find_owned u hs))"
    unfolding hs' by (rule owned_query_save_doc [OF ids]) (use h i h' in simp_all)
  show ?thesis
    using s Some i q by (auto simp: habit_synced_def toggle_habbit_done_def habits_GET_def save_doc_def)
qed

lemma habit_client_step_synced:
  assumes "habbits_ok tz hs" and "habit_synced u v hs"
  shows "habbits_ok tz (snd (habit_client_step u tz (v, hs) a)) \<and>
         habit_synced u (fst (habit_client_step u tz (v, hs) a)) (snd (habit_client_step u tz (v, hs) a))"
proof (cases a)
  case (AddHabbit t)
  show ?thesis
  proof (cases "add_habbit_request v")
    case (Some nf)
    obtain n f where nf: "nf = (n, f)" by fastforce
    obtain r hs' where p: "habits_POST (Some u) t (Some n) (Some f) hs = (r, hs')" by fastforce
    have "habbits_ok tz hs'" using habits_POST_ok [OF assms(1), of "Some u" t "Some n" "Some f"] p by simp
    moreover have "ok_body r = None \<Longrightarrow> hs' = hs" using p by (rule habits_POST_not_ok)
    ultimately show ?thesis
      using assms(2) AddHabbit Some nf p fetch_habbits_synced
      by (auto simp: habit_synced_def add_habbit_done_def)
  qed (use assms AddHabbit in simp)
next
  case (ToggleHabbit i now)
  obtain r hs' where p: "habits_PUT (Some u) tz i (JInt now) hs = (r, hs')" by fastforce
  have "habbits_ok tz hs'" using habits_PUT_ok [OF assms(1), of "Some u" i "JInt now"] p by simp
  with toggle_habbit_synced [OF assms p] ToggleHabbit p show ?thesis by simp
qed (use assms fetch_habbits_synced in \<open>auto simp: habit_synced_def\<close>)


lemma habit_client_run_inv:
  "habbits_ok tz hs \<Longrightarrow> habit_synced u v hs \<Longrightarrow>
     habbits_ok tz (snd (habit_client_run u tz (v, hs) acts)) \<and>
     habit_synced u (fst (habit_client_run u tz (v, hs) acts)) (snd (habit_client_run u tz (v, hs) acts))"
proof (induction acts arbitrary: v hs)
  case Nil
  then show ?case by (simp add: habit_client_run_def)
next
  case (Cons a acts)
  obtain v' hs' where st: "habit_client_step u tz (v, hs) a = (v', hs')" by fastforce
  have "habbits_ok tz hs' \<and> habit_synced u v' hs'"
    using habit_client_step_synced [OF Cons.prems, of a] st by simp
  then have "habbits_ok tz hs'" "habit_synced u v' hs'" by simp_all
  from Cons.IH [OF this] st show ?case by (simp add: habit_client_run_def)
qed

text \<open>
  C8: the habit list the component shows is, once the first fetch has answered, exactly
  what \<open>GET /api/habits\<close> answers, after any sequence of fetches, edits, adds and toggles
  of the signed-in user: the optimistic replacement of \<open>toggleHabbit\<close> and the refetch
  of \<open>handleAddHabbit\<close> keep the view and the store in agreement.
\<close>

theorem habit_client_synced:
  assumes "habbits_ok tz hs" and "habit_synced u v hs"
  shows "habit_synced u (fst (habit_client_run u tz (v, hs) acts)) (snd (habit_client_run u tz (v, hs) acts))"
  using habit_client_run_inv [OF assms] by blast

theorem habit_client_synced_witness:
  "habit_synced 2 (fst (habit_client_run 2 0 (init_habit_view, [])
      [Fetch, SetName ''read'', AddHabbit 1000, ToggleHabbit 1 1709307000000]))
    (snd (habit_client_run 2 0 (init_habit_view, [])
      [Fetch, SetName ''read'', AddHabbit 1000, ToggleHabbit 1 1709307000000]))"
  by (rule habit_client_synced) (simp_all add: habbits_ok_def ids_distinct_def habit_synced_def init_habit_view_def)

end
