(* ===== verification/Gratitude.thy ===== *)
theory Gratitude
  imports Store JsDate
begin

text \<open>
  The gratitude list: the \<open>Gratitude\<close> document of \<open>src/models/Gratitude.ts\<close>, the
  four handlers of \<open>src/app/api/gratitude/route.ts\<close> (list today's or the recent
  items, add, flip the check mark, delete), and the grouping of the history by day in
  \<open>src/components/gratitude-list.tsx\<close>. The server's local offset is \<open>tz\<close>.
\<close>

record gratitude = owned +
  content :: string
  isChecked :: bool

text \<open>
  \<open>GET /api/gratitude?mode=...\<close>. With \<open>mode=history\<close>: the user's 50 newest items,
  newest first. Otherwise: the items created between local midnight of one clock
  reading (\<open>t_start\<close>, line 29) and 23:59:59.999 of another (\<open>t_end\<close>, line 31),
  oldest first. A bound that is an Invalid Date cannot be cast by the query and throws.
\<close>

definition gratitude_GET ::
  "session \<Rightarrow> int \<Rightarrow> string option \<Rightarrow> int \<Rightarrow> int \<Rightarrow> gratitude list \<Rightarrow>
     gratitude list response \<times> gratitude list" where
  "gratitude_GET sess tz mode t_start t_end gs =
     (case sess of
        None \<Rightarrow> (unauthorized, gs)
      | Some uid \<Rightarrow>
          if mode = Some ''history'' then (Json 200 (take 50 (sort_desc (find_owned uid gs))), gs)
          else
            (let startOfDay = set_hours tz 0 0 0 0 (JInt t_start);
                 endOfDay = set_hours tz 23 59 59 999 (JInt t_end)
             in case (startOfDay, endOfDay) of
                  (JInt a, JInt b) \<Rightarrow>
                    (Json 200 (sort_asc (filter (\<lambda>g. a \<le> createdAt g \<and> createdAt g \<le> b)
                                                (find_owned uid gs))), gs)
                | _ \<Rightarrow> (Crash, gs)))"

text \<open>
  \<open>POST /api/gratitude\<close> with the parsed body \<open>{content}\<close>: \<open>content\<close> is required
  by the schema (a missing or empty string fails validation and \<open>create\<close> throws);
  the item starts unchecked.
\<close>

definition gratitude_POST ::
  "session \<Rightarrow> int \<Rightarrow> string option \<Rightarrow> gratitude list \<Rightarrow> gratitude response \<times> gratitude list" where
  "gratitude_POST sess t c gs =
     (case sess of
        None \<Rightarrow> (unauthorized, gs)
      | Some uid \<Rightarrow>
          (case c of
             None \<Rightarrow> (Crash, gs)
           | Some txt \<Rightarrow>
               if txt = [] then (Crash, gs)
               else (let g = \<lparr>oid = new_oid gs, createdAt = t, userId = uid, content = txt,
                              isChecked = False\<rparr>
                     in (Json 200 g, insert_doc g gs))))"

text \<open>\<open>PUT /api/gratitude\<close> with \<open>{id}\<close>: flip \<open>isChecked\<close> of the item with that id.\<close>

definition gratitude_PUT ::
  "session \<Rightarrow> nat \<Rightarrow> gratitude list \<Rightarrow> gratitude response \<times> gratitude list" where
  "gratitude_PUT sess i gs =
     (case sess of
        None \<Rightarrow> (unauthorized, gs)
      | Some uid \<Rightarrow>
          (case find_by_id i gs of
             None \<Rightarrow> (Message 404 ''Not found'', gs)
           | Some g \<Rightarrow>
               (let g' = g\<lparr>isChecked := \<not> isChecked g\<rparr> in (Json 200 g', save_doc g' gs))))"

text \<open>
  \<open>DELETE /api/gratitude?id=...\<close>: \<open>findByIdAndDelete\<close> with the query parameter
  (\<open>None\<close> when it is absent, which matches no document); the answer does not depend
  on whether anything was deleted.
\<close>

definition gratitude_DELETE ::
  "session \<Rightarrow> nat option \<Rightarrow> gratitude list \<Rightarrow> gratitude response \<times> gratitude list" where
  "gratitude_DELETE sess i gs =
     (case sess of
        None \<Rightarrow> (unauthorized, gs)
      | Some uid \<Rightarrow>
          (Message 200 ''Deleted'', (case i of None \<Rightarrow> gs | Some k \<Rightarrow> delete_by_id k gs)))"

section \<open>The client view\<close>

text \<open>
  The history tab groups consecutive items by their date label (lines 163 to 172): an
  item joins the last group when the labels agree and opens a new group otherwise. The
  label (\<open>toLocaleDateString\<close>) is a parameter.
\<close>

definition group_step :: "('a \<Rightarrow> string) \<Rightarrow> (string \<times> 'a list) list \<Rightarrow> 'a \<Rightarrow> (string \<times> 'a list) list" where
  "group_step label acc item =
     (let date = label item
      in if acc \<noteq> [] \<and> fst (last acc) = date
         then butlast acc @ [(fst (last acc), snd (last acc) @ [item])]
         else acc @ [(date, [item])])"

definition group_by_date :: "('a \<Rightarrow> string) \<Rightarrow> 'a list \<Rightarrow> (string \<times> 'a list) list" where
  "group_by_date label items = foldl (group_step label) [] items"

text \<open>
  The optimistic updates of the Today tab: \<open>toggleCheck\<close> flips the item in the local
  list before the \<open>PUT\<close> (line 62), \<open>handleDelete\<close> drops it before the
  \<open>DELETE\<close> (line 77).
\<close>

definition client_toggle :: "nat \<Rightarrow> gratitude list \<Rightarrow> gratitude list" where
  "client_toggle i items = map (\<lambda>g. if oid g = i then g\<lparr>isChecked := \<not> isChecked g\<rparr> else g) items"

definition client_delete :: "nat \<Rightarrow> gratitude list \<Rightarrow> gratitude list" where
  "client_delete i items = filter (\<lambda>g. oid g \<noteq> i) items"

text \<open>
  \<open>handleAdd\<close> (lines 42 to 48): nothing is sent when the trimmed input is empty;
  otherwise the untrimmed input is the \<open>content\<close> of the \<open>POST\<close>.
\<close>

definition client_add_request :: "string \<Rightarrow> string option" where
  "client_add_request newItem = (if js_trim newItem = [] then None else Some newItem)"

text \<open>
  What the history view promises of its groups: each group is non-empty, its items carry
  its label, and neighbouring groups have different labels.
\<close>

definition groups_ok :: "('a \<Rightarrow> string) \<Rightarrow> (string \<times> 'a list) list \<Rightarrow> bool" where
  "groups_ok label gs \<longleftrightarrow>
     list_all (\<lambda>(d, its). its \<noteq> [] \<and> list_all (\<lambda>i. label i = d) its) gs \<and>
     successively (\<lambda>a b. fst a \<noteq> fst b) gs"

text \<open>
  A small store for the examples: two items of user 1 on the first two days of 1970 (UTC)
  and one of user 2.
\<close>

definition demo_gratitude :: "gratitude list" where
  "demo_gratitude =
     [\<lparr>oid = 1, createdAt = 1000, userId = 1, content = ''tea'', isChecked = False\<rparr>,
      \<lparr>oid = 2, createdAt = 86400500, userId = 1, content = ''rain'', isChecked = True\<rparr>,
      \<lparr>oid = 3, createdAt = 2000, userId = 2, content = ''sun'', isChecked = False\<rparr>]"

section \<open>The handlers\<close>

lemma gratitude_GET_window:
  assumes mode: "mode \<noteq> Some ''history''"
    and day: "local_day tz t_end = local_day tz t_start"
    and a: "set_hours tz 0 0 0 0 (JInt t_start) \<noteq> NaN"
    and b: "set_hours tz 23 59 59 999 (JInt t_end) \<noteq> NaN"
  shows "gratitude_GET (Some uid) tz mode t_start t_end gs =
    (Json 200 (sort_asc (filter (\<lambda>g. local_day tz (createdAt g) = local_day tz t_start)
                                (find_owned uid gs))), gs)"
proof -
  define k where "k = local_day tz t_start"
  have sa: "set_hours tz 0 0 0 0 (JInt t_start) = JInt (k * ms_per_day - tz)"
    using a by (auto simp: k_def local_day_def time_clip_def split: if_splits)
  have sb: "set_hours tz 23 59 59 999 (JInt t_end) = JInt (k * ms_per_day + (ms_per_day - 1) - tz)"
    using b day by (auto simp: k_def local_day_def time_clip_def make_time_end_of_day split: if_splits)
  have w: "(k * ms_per_day - tz \<le> c \<and> c \<le> k * ms_per_day + (ms_per_day - 1) - tz) \<longleftrightarrow>
      local_day tz c = k" for c
    using day_window_iff [of ms_per_day k "c + tz"] by (auto simp: local_day_def ms_per_day_def)
  show ?thesis
    unfolding k_def [symmetric] using mode
    by (simp add: gratitude_GET_def Let_def sa sb w del: set_hours.simps)
qed

lemma filter_map_same:
  "(\<And>d. P (F d) = P d) \<Longrightarrow> filter P (map F xs) = map F (filter P xs)"
  by (induction xs) auto

text \<open>An update that keeps owners and creation times commutes with both queries.\<close>

lemma gratitude_GET_map:
  assumes keys: "\<And>d. createdAt (F d) = createdAt d" "\<And>d. userId (F d) = userId d"
    and get: "gratitude_GET (Some u) tz mode ts te gs = (Json 200 r, gs)"
  shows "gratitude_GET (Some u) tz mode ts te (map F gs) = (Json 200 (map F r), map F gs)"
proof (cases "mode = Some ''history''")
  case True
  then show ?thesis using get
    by (simp add: gratitude_GET_def find_owned_map [OF keys(2)] sort_desc_map [OF keys(1)] take_map)
next
  case False
  then obtain a b where ab: "set_hours tz 0 0 0 0 (JInt ts) = JInt a"
      "set_hours tz 23 59 59 999 (JInt te) = JInt b"
      and r: "r = sort_asc (filter (\<lambda>g. a \<le> createdAt g \<and> createdAt g \<le> b) (find_owned u gs))"
    using get by (auto simp: gratitude_GET_def Let_def simp del: set_hours.simps split: jsint.splits)
  have "filter (\<lambda>g. a \<le> createdAt g \<and> createdAt g \<le> b) (map F xs) =
      map F (filter (\<lambda>g. a \<le> createdAt g \<and> createdAt g \<le> b) xs)" for xs
    by (rule filter_map_same) (simp add: keys)
  then show ?thesis using False ab r
    by (simp add: gratitude_GET_def Let_def find_owned_map [OF keys(2)] sort_asc_map [OF keys(1)]
        del: set_hours.simps)
qed

lemma gratitude_PUT_store:
  assumes "ids_distinct gs"
  shows "snd (gratitude_PUT (Some u) i gs) =
    map (\<lambda>g. if oid g = i then g\<lparr>isChecked := \<not> isChecked g\<rparr> else g) gs"
proof (cases "find_by_id i gs")
  case None
  have "map (\<lambda>g. if oid g = i then g\<lparr>isChecked := \<not> isChecked g\<rparr> else g) gs = gs"
    by (rule save_doc_absent [OF None])
  with None show ?thesis by (simp add: gratitude_PUT_def del: find_by_id_None)
next
  case (Some g)
  then have "oid g = i" by (simp add: find_by_id_Some)
  then show ?thesis
    using save_doc_update [OF assms Some, of "\<lambda>g. g\<lparr>isChecked := \<not> isChecked g\<rparr>"] Some
    by (simp add: gratitude_PUT_def)
qed

lemma find_owned_filter: "find_owned u (filter P xs) = filter P (find_owned u xs)"
  by (simp add: find_owned_def conj_commute)

lemma gratitude_POST_Some:
  "txt \<noteq> [] \<Longrightarrow> gratitude_POST (Some u) t (Some txt) gs =
     (Json 200 \<lparr>oid = new_oid gs, createdAt = t, userId = u, content = txt, isChecked = False\<rparr>,
      insert_doc \<lparr>oid = new_oid gs, createdAt = t, userId = u, content = txt, isChecked = False\<rparr> gs)"
  by (simp add: gratitude_POST_def Let_def)

lemma gratitude_GET_subset:
  "gratitude_GET (Some u) tz mode ts te gs = (Json 200 r, gs') \<Longrightarrow> set r \<subseteq> set gs \<and> gs' = gs"
  by (auto simp: gratitude_GET_def Let_def find_owned_def dest: in_set_takeD
      simp del: set_hours.simps split: if_splits jsint.splits)

section \<open>The history grouping\<close>

lemma group_by_date_snoc:
  "group_by_date label (xs @ [x]) = group_step label (group_by_date label xs) x"
  by (simp add: group_by_date_def)

lemma group_step_ok:
  "groups_ok label acc \<Longrightarrow> groups_ok label (group_step label acc x)"
proof -
  assume ok: "groups_ok label acc"
  show ?thesis
  proof (cases "acc \<noteq> [] \<and> fst (last acc) = label x")
    case True
    then obtain ys d its where acc: "acc = ys @ [(d, its)]"
      by (metis append_butlast_last_id prod.collapse)
    then show ?thesis using ok True
      by (auto simp: groups_ok_def group_step_def successively_append_iff)
  next
    case False
    then show ?thesis using ok
      by (auto simp: groups_ok_def group_step_def successively_append_iff)
  qed
qed

lemma concat_group_step:
  "concat (map snd (group_step label acc x)) = concat (map snd acc) @ [x]"
proof (cases "acc \<noteq> [] \<and> fst (last acc) = label x")
  case True
  then obtain ys p where "acc = ys @ [p]" by (metis append_butlast_last_id)
  then show ?thesis using True by (simp add: group_step_def Let_def)
next
  case False
  then show ?thesis by (auto simp: group_step_def Let_def)
qed

section \<open>The example store\<close>

lemma demo_gratitude_ids: "ids_distinct demo_gratitude"
  by (simp add: ids_distinct_def demo_gratitude_def)

lemma demo_today:
  "gratitude_GET (Some 1) 0 None 1500 1500 demo_gratitude =
     (Json 200 [\<lparr>oid = 1, createdAt = 1000, userId = 1, content = ''tea'', isChecked = False\<rparr>],
      demo_gratitude)"
  by (simp add: gratitude_GET_def demo_gratitude_def find_owned_def sort_asc_def time_clip_def
      make_time_def ms_consts)

section \<open>Properties\<close>

text \<open>
  C15: when the two clock readings of \<open>GET /api/gratitude\<close> fall on the same local day
  and are valid dates, the Today list is exactly the signed-in user's items created on
  that day, oldest first, and nothing is written.
\<close>

theorem gratitude_GET_today:
  assumes "mode \<noteq> Some ''history''"
    and "local_day tz t_end = local_day tz t_start"
    and "set_hours tz 0 0 0 0 (JInt t_start) \<noteq> NaN"
    and "set_hours tz 23 59 59 999 (JInt t_end) \<noteq> NaN"
  shows "\<exists>r. gratitude_GET (Some uid) tz mode t_start t_end gs = (Json 200 r, gs)
    \<and> set r = {g \<in> set gs. userId g = uid \<and> local_day tz (createdAt g) = local_day tz t_start}
    \<and> sorted (map createdAt r)"
  using gratitude_GET_window [OF assms] sorted_sort_asc by (auto simp: find_owned_def)

theorem gratitude_GET_today_witness:
  "\<exists>r. gratitude_GET (Some 1) 0 None 1500 1500 demo_gratitude = (Json 200 r, demo_gratitude)
    \<and> set r = {g \<in> set demo_gratitude. userId g = 1 \<and> local_day 0 (createdAt g) = local_day 0 1500}
    \<and> sorted (map createdAt r)"
  by (rule gratitude_GET_today) (simp_all add: time_clip_def make_time_def ms_consts)

text \<open>
  C16: \<open>GET /api/gratitude?mode=history\<close> answers at most 50 of the user's items,
  newest first; all of them when the user has at most 50; and every item it leaves out
  is no newer than every item it answers.
\<close>

theorem gratitude_GET_history:
  assumes "gratitude_GET (Some u) tz (Some ''history'') ts te gs = (resp, gs')"
  shows "\<exists>r. resp = Json 200 r \<and> gs' = gs \<and> length r \<le> 50
    \<and> set r \<subseteq> {g \<in> set gs. userId g = u}
    \<and> sorted_wrt (\<ge>) (map createdAt r)
    \<and> (length (find_owned u gs) \<le> 50 \<longrightarrow> set r = {g \<in> set gs. userId g = u})
    \<and> (\<forall>d \<in> set gs. userId d = u \<longrightarrow> d \<notin> set r \<longrightarrow> (\<forall>e \<in> set r. createdAt d \<le> createdAt e))"
proof -
  have "resp = Json 200 (take 50 (sort_desc (find_owned u gs)))" "gs' = gs"
    using assms by (auto simp: gratitude_GET_def)
  then show ?thesis using recent_owned [of 50 u gs] by blast
qed

theorem gratitude_GET_history_witness:
  "\<exists>r. fst (gratitude_GET (Some 1) 0 (Some ''history'') 0 0 demo_gratitude) = Json 200 r
    \<and> snd (gratitude_GET (Some 1) 0 (Some ''history'') 0 0 demo_gratitude) = demo_gratitude
    \<and> length r \<le> 50 \<and> set r \<subseteq> {g \<in> set demo_gratitude. userId g = 1}
    \<and> sorted_wrt (\<ge>) (map createdAt r)
    \<and> (length (find_owned 1 demo_gratitude) \<le> 50 \<longrightarrow> set r = {g \<in> set demo_gratitude. userId g = 1})
    \<and> (\<forall>d \<in> set demo_gratitude. userId d = 1 \<longrightarrow> d \<notin> set r \<longrightarrow>
         (\<forall>e \<in> set r. createdAt d \<le> createdAt e))"
  by (rule gratitude_GET_history) simp

text \<open>
  The optimistic check-mark toggle of the client shows what the server answers
  next: after \<open>PUT\<close> with an id, the same \<open>GET\<close> (either mode) answers the list the
  client computed from its previous answer, for any id, found or not.
\<close>

theorem gratitude_toggle_agrees:
  assumes "ids_distinct gs"
    and "gratitude_GET (Some u) tz mode ts te gs = (Json 200 r, gs)"
  shows "gratitude_GET (Some u) tz mode ts te (snd (gratitude_PUT (Some u) i gs)) =
    (Json 200 (client_toggle i r), snd (gratitude_PUT (Some u) i gs))"
  unfolding gratitude_PUT_store [OF assms(1)] client_toggle_def
  by (rule gratitude_GET_map [OF _ _ assms(2)]) simp_all

theorem gratitude_toggle_agrees_witness:
  "gratitude_GET (Some 1) 0 None 1500 1500 (snd (gratitude_PUT (Some 1) 1 demo_gratitude)) =
    (Json 200 (client_toggle 1 [\<lparr>oid = 1, createdAt = 1000, userId = 1, content = ''tea'', isChecked = False\<rparr>]),
     snd (gratitude_PUT (Some 1) 1 demo_gratitude))"
  by (rule gratitude_toggle_agrees [OF demo_gratitude_ids demo_today])

text \<open>
  The optimistic delete of the Today tab shows what the server answers next: after
  \<open>DELETE ?id=i\<close> the Today query answers the client's list without item \<open>i\<close>.
\<close>

theorem gratitude_delete_agrees:
  assumes "mode \<noteq> Some ''history''"
    and "gratitude_GET (Some u) tz mode ts te gs = (Json 200 r, gs)"
  shows "gratitude_GET (Some u) tz mode ts te (snd (gratitude_DELETE (Some u) (Some i) gs)) =
    (Json 200 (client_delete i r), snd (gratitude_DELETE (Some u) (Some i) gs))"
  using assms
  by (auto simp: gratitude_GET_def gratitude_DELETE_def client_delete_def Let_def
      delete_by_id_def find_owned_filter sort_asc_filter conj_commute
      simp del: set_hours.simps split: jsint.splits)

theorem gratitude_delete_agrees_witness:
  "gratitude_GET (Some 1) 0 None 1500 1500 (snd (gratitude_DELETE (Some 1) (Some 1) demo_gratitude)) =
    (Json 200 (client_delete 1 [\<lparr>oid = 1, createdAt = 1000, userId = 1, content = ''tea'', isChecked = False\<rparr>]),
     snd (gratitude_DELETE (Some 1) (Some 1) demo_gratitude))"
  by (rule gratitude_delete_agrees [OF _ demo_today]) simp

text \<open>Two \<open>PUT\<close>s with the same id leave the collection as it was.\<close>

theorem gratitude_PUT_twice:
  assumes "ids_distinct gs"
  shows "snd (gratitude_PUT s i (snd (gratitude_PUT s i gs))) = gs"
proof (cases s)
  case (Some u)
  have "map (\<lambda>g. if oid g = i then g\<lparr>isChecked := \<not> isChecked g\<rparr> else g)
      (map (\<lambda>g. if oid g = i then g\<lparr>isChecked := \<not> isChecked g\<rparr> else g) gs) = gs"
    by (induction gs) auto
  moreover have "ids_distinct (map (\<lambda>g. if oid g = i then g\<lparr>isChecked := \<not> isChecked g\<rparr> else g) gs)"
    using assms by (simp add: ids_distinct_def o_def if_distrib cong: if_cong)
  ultimately show ?thesis using Some
    by (simp add: gratitude_PUT_store [OF assms] gratitude_PUT_store)
qed (simp add: gratitude_PUT_def)

theorem gratitude_PUT_twice_witness:
  "snd (gratitude_PUT (Some 1) 2 (snd (gratitude_PUT (Some 1) 2 demo_gratitude))) = demo_gratitude"
  by (rule gratitude_PUT_twice [OF demo_gratitude_ids])

text \<open>
  \<open>POST /api/gratitude\<close> with a non-empty content stores one new unchecked item of
  the signed-in user under a fresh id, and a Today query on the day of its creation
  lists it.
\<close>

theorem gratitude_POST_visible_today:
  assumes "txt \<noteq> []" and "ids_distinct gs"
    and "gratitude_POST (Some u) t (Some txt) gs = (resp, gs')"
    and "mode \<noteq> Some ''history''"
    and "local_day tz ts = local_day tz t" "local_day tz te = local_day tz t"
    and "set_hours tz 0 0 0 0 (JInt ts) \<noteq> NaN" "set_hours tz 23 59 59 999 (JInt te) \<noteq> NaN"
  shows "\<exists>g r. resp = Json 200 g \<and> ids_distinct gs' \<and> \<not> isChecked g \<and> userId g = u
    \<and> gratitude_GET (Some u) tz mode ts te gs' = (Json 200 r, gs') \<and> g \<in> set r"
proof -
  define g where "g = \<lparr>oid = new_oid gs, createdAt = t, userId = u, content = txt, isChecked = False\<rparr>"
  have post: "resp = Json 200 g" "gs' = insert_doc g gs"
    using assms(1,3) gratitude_POST_Some [OF assms(1)] by (simp_all add: g_def)
  have "ids_distinct gs'" using assms(2) post(2) new_oid_notin by (simp add: g_def)
  moreover have "gratitude_GET (Some u) tz mode ts te gs' =
      (Json 200 (sort_asc (filter (\<lambda>g. local_day tz (createdAt g) = local_day tz ts)
                                (find_owned u gs'))), gs')"
    using gratitude_GET_window [OF assms(4)] assms(5-8) by simp
  moreover have "g \<in> set (sort_asc (filter (\<lambda>g. local_day tz (createdAt g) = local_day tz ts)
                                (find_owned u gs')))"
    using post(2) assms(5) by (simp add: g_def insert_doc_def find_owned_def)
  ultimately show ?thesis using post by (auto simp: g_def)
qed

theorem gratitude_POST_visible_today_witness:
  "\<exists>g r. fst (gratitude_POST (Some 1) 3000 (Some ''tea'') demo_gratitude) = Json 200 g
    \<and> ids_distinct (snd (gratitude_POST (Some 1) 3000 (Some ''tea'') demo_gratitude))
    \<and> \<not> isChecked g \<and> userId g = 1
    \<and> gratitude_GET (Some 1) 0 None 3000 3000 (snd (gratitude_POST (Some 1) 3000 (Some ''tea'') demo_gratitude)) =
       (Json 200 r, snd (gratitude_POST (Some 1) 3000 (Some ''tea'') demo_gratitude)) \<and> g \<in> set r"
  by (rule gratitude_POST_visible_today [OF _ demo_gratitude_ids])
     (simp_all add: time_clip_def make_time_def ms_consts)

text \<open>
  \<open>POST /api/gratitude\<close> of a signed-in user fails with an uncaught validation
  error exactly when the content is missing or empty.
\<close>

theorem gratitude_POST_crash_iff:
  "fst (gratitude_POST (Some u) t c gs) = Crash \<longleftrightarrow> c = None \<or> c = Some []"
  by (auto simp: gratitude_POST_def Let_def split: option.splits)

text \<open>
  What the gratitude form sends is always accepted: when \<open>handleAdd\<close> sends a
  request, the server stores the item.
\<close>

theorem client_add_accepted:
  "client_add_request newItem = Some c \<Longrightarrow> \<exists>g. fst (gratitude_POST (Some u) t (Some c) gs) = Json 200 g"
  by (auto simp: client_add_request_def gratitude_POST_def Let_def split: if_splits)

theorem client_add_accepted_witness:
  "\<exists>g. fst (gratitude_POST (Some 1) 3000 (Some '' tea'') demo_gratitude) = Json 200 g"
  by (rule client_add_accepted [of "'' tea''"]) (simp add: client_add_request_def js_trim_def js_is_space_def)

text \<open>
  The history view loses and reorders nothing: its groups, concatenated, are the
  answered items in order, and the groups are well formed (\<open>groups_ok\<close>).
\<close>

theorem group_by_date_roundtrip:
  "concat (map snd (group_by_date label items)) = items \<and> groups_ok label (group_by_date label items)"
proof (induction items rule: rev_induct)
  case Nil
  then show ?case by (simp add: group_by_date_def groups_ok_def)
next
  case (snoc x xs)
  then show ?case by (simp add: group_by_date_snoc concat_group_step group_step_ok)
qed

text \<open>
  C19: \<open>PUT\<close> and \<open>DELETE\<close> do not check the owner: user 2 flips and deletes items of
  user 1.
\<close>

theorem gratitude_foreign_update:
  "userId (demo_gratitude ! 0) = 1 \<and> userId (demo_gratitude ! 1) = 1
   \<and> snd (gratitude_PUT (Some 2) 1 demo_gratitude) =
       demo_gratitude[0 := (demo_gratitude ! 0)\<lparr>isChecked := True\<rparr>]
   \<and> gratitude_DELETE (Some 2) (Some 2) demo_gratitude =
       (Message 200 ''Deleted'', [demo_gratitude ! 0, demo_gratitude ! 2])"
  by (simp add: gratitude_PUT_def gratitude_DELETE_def Let_def demo_gratitude_def find_by_id_def
      save_doc_def delete_by_id_def)

text \<open>
  C20: deleting a gratitude item removes it from every subsequent query: after
  \<open>DELETE ?id=i\<close>, no \<open>GET\<close> of any user in either mode answers an item with id
  \<open>i\<close>.
\<close>

theorem gratitude_DELETE_removes:
  assumes "gratitude_DELETE (Some u) (Some i) gs = (resp, gs')"
    and "gratitude_GET (Some v) tz mode ts te gs' = (Json 200 r, gs'')"
  shows "resp = Message 200 ''Deleted'' \<and> gs'' = gs' \<and> (\<forall>g \<in> set r. oid g \<noteq> i)"
proof -
  have "gs' = delete_by_id i gs" "resp = Message 200 ''Deleted''"
    using assms(1) by (auto simp: gratitude_DELETE_def)
  then show ?thesis using gratitude_GET_subset [OF assms(2)] by (auto simp: delete_by_id_def)
qed

theorem gratitude_DELETE_removes_witness:
  "2 \<notin> oid ` set (case fst (gratitude_GET (Some 1) 0 (Some ''history'') 0 0
        (snd (gratitude_DELETE (Some 1) (Some 2) demo_gratitude))) of Json _ r \<Rightarrow> r | _ \<Rightarrow> [])"
proof -
  have d: "gratitude_DELETE (Some 1) (Some 2) demo_gratitude =
      (Message 200 ''Deleted'', snd (gratitude_DELETE (Some 1) (Some 2) demo_gratitude))" by (simp add: gratitude_DELETE_def)
  obtain r where g: "gratitude_GET (Some 1) 0 (Some ''history'') 0 0 (snd (gratitude_DELETE (Some 1) (Some 2) demo_gratitude)) =
      (Json 200 r, snd (gratitude_DELETE (Some 1) (Some 2) demo_gratitude))"
    by (simp add: gratitude_GET_def)
  show ?thesis using gratitude_DELETE_removes [OF d g] g by auto
qed

text \<open>
  C21: the two clock readings of the Today query are taken one after the other: when
  local midnight falls between them (here 23:59:59.999 and 00:00:00.000 UTC), the window
  spans two days and the Today list holds yesterday's item as well as today's.
\<close>

theorem gratitude_midnight_race:
  "gratitude_GET (Some 1) 0 None 86399999 86400000 demo_gratitude =
     (Json 200 (butlast demo_gratitude), demo_gratitude)"
  by (simp add: gratitude_GET_def demo_gratitude_def find_owned_def sort_asc_def time_clip_def
      make_time_def ms_consts)

end
