(* ===== verification/GratitudeView.thy ===== *)
theory GratitudeView
  imports Gratitude
begin

text \<open>
  The gratitude list component, \<open>src/components/gratitude-list.tsx\<close> (lines 15 to 81 and
  the tab switch of lines 110 and 157), run against the handlers of
  \<open>src/app/api/gratitude/route.ts\<close> (theory \<open>Gratitude\<close>). Its state is the record
  \<open>grat_view\<close>; a user action is a \<open>grat_action\<close>; \<open>grat_view_step\<close> runs it through
  the handlers, each request awaited before the next action. The Today tab's add,
  check and delete controls exist only on that tab (line 110), so on the History tab
  those actions do nothing.

  The lemmas show that the tab on screen always shows what the server answers for it,
  on a day \<open>d\<close> whose clock readings are valid and whose adds come in clock order.
\<close>

section \<open>The component state and its handlers\<close>

datatype grat_tab = TodayTab | HistoryTab

record grat_view =
  gv_items :: "gratitude list"
  gv_historyItems :: "gratitude list"
  newItem :: string
  activeTab :: grat_tab

definition init_grat_view :: grat_view where
  "init_grat_view = \<lparr>gv_items = [], gv_historyItems = [], newItem = [], activeTab = TodayTab\<rparr>"

text \<open>The query parameter of \<open>fetchItems\<close> (line 26).\<close>

primrec tab_mode :: "grat_tab \<Rightarrow> string" where
  "tab_mode TodayTab = ''today''"
| "tab_mode HistoryTab = ''history''"

text \<open>\<open>fetchItems\<close>: an ok answer goes to the list of the tab that asked.\<close>

definition fetch_items_done :: "gratitude list response \<Rightarrow> grat_view \<Rightarrow> grat_view" where
  "fetch_items_done r v =
     (case ok_body r of
        Some d \<Rightarrow> if activeTab v = TodayTab then v\<lparr>gv_items := d\<rparr> else v\<lparr>gv_historyItems := d\<rparr>
      | None \<Rightarrow> v)"

text \<open>\<open>handleAdd\<close> after its request: an ok answer is appended and the input cleared.\<close>

definition add_done :: "gratitude response \<Rightarrow> grat_view \<Rightarrow> grat_view" where
  "add_done r v =
     (case ok_body r of Some g \<Rightarrow> v\<lparr>gv_items := gv_items v @ [g], newItem := []\<rparr> | None \<Rightarrow> v)"

text \<open>
  The actions of a signed-in user \<open>u\<close>: a fetch (the effect on mount and on every change
  of \<open>activeTab\<close>) with the two clock readings of the handler, typing, a tab click
  (which refetches only when the tab changes: React skips the effect otherwise), the add
  button at creation time \<open>t\<close>, and the check and delete buttons of an item.
  \<open>toggleCheck\<close> and \<open>handleDelete\<close> update the list before their request and ignore
  its answer. A request the browser rejects (the network is down: \<open>fetch\<close> throws and
  the server sees nothing) is its own action: the \<open>catch\<close> of \<open>toggleCheck\<close>
  refetches the tab (line 71), the \<open>catch\<close> of \<open>handleDelete\<close> only logs (line 80).
\<close>

datatype grat_action =
    FetchItems int int | SetNewItem string | SelectTab grat_tab int int
  | AddItem int | ToggleCheck nat | DeleteItem nat
  | ToggleCheckRejected nat int int | DeleteRejected nat

definition fetch_items :: "nat \<Rightarrow> int \<Rightarrow> int \<Rightarrow> int \<Rightarrow> grat_view \<Rightarrow> gratitude list \<Rightarrow> grat_view" where
  "fetch_items u tz ts te v gs =
     fetch_items_done (fst (gratitude_GET (Some u) tz (Some (tab_mode (activeTab v))) ts te gs)) v"

fun grat_view_step ::
  "nat \<Rightarrow> int \<Rightarrow> grat_view \<times> gratitude list \<Rightarrow> grat_action \<Rightarrow> grat_view \<times> gratitude list" where
  "grat_view_step u tz (v, gs) (FetchItems ts te) = (fetch_items u tz ts te v gs, gs)"
| "grat_view_step u tz (v, gs) (SetNewItem c) = (v\<lparr>newItem := c\<rparr>, gs)"
| "grat_view_step u tz (v, gs) (SelectTab tb ts te) =
     (if tb = activeTab v then (v, gs) else (fetch_items u tz ts te (v\<lparr>activeTab := tb\<rparr>) gs, gs))"
| "grat_view_step u tz (v, gs) (AddItem t) =
     (if activeTab v \<noteq> TodayTab then (v, gs)
      else case client_add_request (newItem v) of
             None \<Rightarrow> (v, gs)
           | Some c \<Rightarrow> (case gratitude_POST (Some u) t (Some c) gs of (r, gs') \<Rightarrow> (add_done r v, gs')))"
| "grat_view_step u tz (v, gs) (ToggleCheck i) =
     (if activeTab v \<noteq> TodayTab then (v, gs)
      else (v\<lparr>gv_items := client_toggle i (gv_items v)\<rparr>, snd (gratitude_PUT (Some u) i gs)))"
| "grat_view_step u tz (v, gs) (DeleteItem i) =
     (if activeTab v \<noteq> TodayTab then (v, gs)
      else (v\<lparr>gv_items := client_delete i (gv_items v)\<rparr>, snd (gratitude_DELETE (Some u) (Some i) gs)))"
| "grat_view_step u tz (v, gs) (ToggleCheckRejected i ts te) =
     (if activeTab v \<noteq> TodayTab then (v, gs)
      else (fetch_items u tz ts te (v\<lparr>gv_items := client_toggle i (gv_items v)\<rparr>) gs, gs))"
| "grat_view_step u tz (v, gs) (DeleteRejected i) =
     (if activeTab v \<noteq> TodayTab then (v, gs) else (v\<lparr>gv_items := client_delete i (gv_items v)\<rparr>, gs))"

text \<open>
  The day \<open>d\<close> of a run: both clock readings of a fetch fall on local day \<open>d\<close> and are
  valid dates, and an add happens on day \<open>d\<close> no earlier than any stored item. A
  rejected delete is not part of such a run: nothing repairs the list after it.
\<close>

definition clock_on_day :: "int \<Rightarrow> int \<Rightarrow> int \<Rightarrow> int \<Rightarrow> bool" where
  "clock_on_day tz d ts te \<longleftrightarrow> local_day tz ts = d \<and> local_day tz te = d \<and>
     set_hours tz 0 0 0 0 (JInt ts) \<noteq> NaN \<and> set_hours tz 23 59 59 999 (JInt te) \<noteq> NaN"

fun action_on_day :: "int \<Rightarrow> int \<Rightarrow> gratitude list \<Rightarrow> grat_action \<Rightarrow> bool" where
  "action_on_day tz d gs (FetchItems ts te) = clock_on_day tz d ts te"
| "action_on_day tz d gs (SelectTab tb ts te) = clock_on_day tz d ts te"
| "action_on_day tz d gs (AddItem t) = (local_day tz t = d \<and> list_all (\<lambda>g. createdAt g \<le> t) gs)"
| "action_on_day tz d gs (ToggleCheckRejected i ts te) = clock_on_day tz d ts te"
| "action_on_day tz d gs (DeleteRejected i) = False"
| "action_on_day tz d gs _ = True"

fun grat_run_on_day :: "nat \<Rightarrow> int \<Rightarrow> int \<Rightarrow> grat_view \<times> gratitude list \<Rightarrow> grat_action list \<Rightarrow> bool" where
  "grat_run_on_day u tz d st [] = True"
| "grat_run_on_day u tz d st (a # acts) =
     (action_on_day tz d (snd st) a \<and> grat_run_on_day u tz d (grat_view_step u tz st a) acts)"

definition grat_view_run ::
  "nat \<Rightarrow> int \<Rightarrow> grat_view \<times> gratitude list \<Rightarrow> grat_action list \<Rightarrow> grat_view \<times> gratitude list" where
  "grat_view_run u tz st acts = foldl (grat_view_step u tz) st acts"

text \<open>
  What the server answers on day \<open>d\<close>: the Today query (theory \<open>Gratitude\<close>, lemma
  \<open>gratitude_GET_window\<close>) and the History query.
\<close>

definition today_list :: "nat \<Rightarrow> int \<Rightarrow> int \<Rightarrow> gratitude list \<Rightarrow> gratitude list" where
  "today_list u tz d gs = sort_asc (filter (\<lambda>g. local_day tz (createdAt g) = d) (find_owned u gs))"

definition history_list :: "nat \<Rightarrow> gratitude list \<Rightarrow> gratitude list" where
  "history_list u gs = take 50 (sort_desc (find_owned u gs))"

definition grat_synced :: "nat \<Rightarrow> int \<Rightarrow> int \<Rightarrow> grat_view \<Rightarrow> gratitude list \<Rightarrow> bool" where
  "grat_synced u tz d v gs \<longleftrightarrow>
     (case activeTab v of
        TodayTab \<Rightarrow> gv_items v = today_list u tz d gs
      | HistoryTab \<Rightarrow> gv_historyItems v = history_list u gs)"


section \<open>The view agrees with the server\<close>

lemma fetch_items_synced:
  assumes "clock_on_day tz d ts te"
  shows "grat_synced u tz d (fetch_items u tz ts te v gs) gs"
proof (cases "activeTab v")
  case TodayTab
  have "gratitude_GET (Some u) tz (Some ''today'') ts te gs =
      (Json 200 (sort_asc (filter (\<lambda>g. local_day tz (createdAt g) = local_day tz ts) (find_owned u gs))), gs)"
    using assms by (intro gratitude_GET_window) (simp_all add: clock_on_day_def)
  then show ?thesis using TodayTab assms
    by (simp add: fetch_items_def fetch_items_done_def grat_synced_def today_list_def clock_on_day_def)
next
  case HistoryTab
  then show ?thesis
    by (simp add: fetch_items_def fetch_items_done_def grat_synced_def history_list_def gratitude_GET_def)
qed

lemma today_list_map:
  assumes "\<And>g. createdAt (F g) = createdAt g" "\<And>g. userId (F g) = userId g"
  shows "today_list u tz d (map F gs) = map F (today_list u tz d gs)"
proof -
  have "filter (\<lambda>g. local_day tz (createdAt g) = d) (map F xs) =
      map F (filter (\<lambda>g. local_day tz (createdAt g) = d) xs)" for xs
    by (rule filter_map_same) (simp add: assms)
  then show ?thesis
    by (simp add: today_list_def find_owned_map [OF assms(2)] sort_asc_map [OF assms(1)])
qed

lemma today_list_delete: "today_list u tz d (delete_by_id i gs) = client_delete i (today_list u tz d gs)"
  by (simp add: today_list_def client_delete_def delete_by_id_def find_owned_filter sort_asc_filter
      conj_commute)

lemma today_list_add:
  assumes "userId g = u" "local_day tz (createdAt g) = d" "\<forall>x \<in> set gs. createdAt x \<le> createdAt g"
  shows "today_list u tz d (gs @ [g]) = today_list u tz d gs @ [g]"
proof -
  have "\<forall>x \<in> set (filter (\<lambda>g. local_day tz (createdAt g) = d) (find_owned u gs)). createdAt x \<le> createdAt g"
    using assms(3) by (simp add: find_owned_def)
  then show ?thesis using assms(1,2)
    by (simp add: today_list_def find_owned_def sort_asc_snoc_newest)
qed

lemma grat_view_step_synced:
  assumes ids: "ids_distinct gs" and s: "grat_synced u tz d v gs" and a: "action_on_day tz d gs a"
  shows "ids_distinct (snd (grat_view_step u tz (v, gs) a)) \<and>
         grat_synced u tz d (fst (grat_view_step u tz (v, gs) a)) (snd (grat_view_step u tz (v, gs) a))"
proof (cases a)
  case (AddItem t)
  show ?thesis
  proof (cases "activeTab v = TodayTab \<and> client_add_request (newItem v) \<noteq> None")
    case True
    then obtain c where c: "client_add_request (newItem v) = Some c" "c \<noteq> []"
      using js_trim_Nil by (fastforce simp: client_add_request_def split: if_splits)
    define g where "g = \<lparr>oid = new_oid gs, createdAt = t, userId = u, content = c, isChecked = False\<rparr>"
    have "today_list u tz d (gs @ [g]) = today_list u tz d gs @ [g]"
      using a AddItem by (intro today_list_add) (simp_all add: g_def list_all_iff)
    moreover have "ids_distinct (insert_doc g gs)" using ids new_oid_notin [of gs] by (simp add: g_def)
    ultimately show ?thesis using True c s AddItem
      by (simp add: gratitude_POST_Some add_done_def grat_synced_def g_def insert_doc_def)
  qed (use s ids AddItem in auto)
next
  case (ToggleCheck i)
  let ?F = "\<lambda>g. if oid g = i then g\<lparr>isChecked := \<not> isChecked g\<rparr> else g"
  have "today_list u tz d (map ?F gs) = map ?F (today_list u tz d gs)"
    by (rule today_list_map) simp_all
  moreover have "map oid (map ?F gs) = map oid gs" by (induction gs) auto
  then have "ids_distinct (map ?F gs)" using ids by (simp only: ids_distinct_def)
  ultimately show ?thesis using s ids ToggleCheck
    by (simp add: gratitude_PUT_store grat_synced_def client_toggle_def split: grat_tab.splits)
next
  case (DeleteItem i)
  then show ?thesis using s ids
    by (simp add: gratitude_DELETE_def grat_synced_def today_list_delete split: grat_tab.splits)
next
  case (SelectTab tb ts te)
  then show ?thesis using s ids a fetch_items_synced by simp
next
  case (ToggleCheckRejected i ts te)
  have "grat_synced u tz d (fetch_items u tz ts te (v\<lparr>gv_items := client_toggle i (gv_items v)\<rparr>) gs) gs"
    using a ToggleCheckRejected by (intro fetch_items_synced) simp
  then show ?thesis using s ids ToggleCheckRejected by simp
qed (use s ids a fetch_items_synced in \<open>auto simp: grat_synced_def split: grat_tab.splits\<close>)

lemma grat_view_run_inv:
  "ids_distinct gs \<Longrightarrow> grat_synced u tz d v gs \<Longrightarrow> grat_run_on_day u tz d (v, gs) acts \<Longrightarrow>
     ids_distinct (snd (grat_view_run u tz (v, gs) acts)) \<and>
     grat_synced u tz d (fst (grat_view_run u tz (v, gs) acts)) (snd (grat_view_run u tz (v, gs) acts))"
proof (induction acts arbitrary: v gs)
  case Nil
  then show ?case by (simp add: grat_view_run_def)
next
  case (Cons a acts)
  obtain v' gs' where st: "grat_view_step u tz (v, gs) a = (v', gs')" by fastforce
  have "ids_distinct gs' \<and> grat_synced u tz d v' gs'"
    using grat_view_step_synced [OF Cons.prems(1,2), of a] Cons.prems(3) st by simp
  moreover have "grat_run_on_day u tz d (v', gs') acts" using Cons.prems(3) st by simp
  ultimately show ?case using Cons.IH st by (simp add: grat_view_run_def)
qed


text \<open>
  C17: the gratitude list shows what the server answers for the tab on screen, after
  any run of fetches, tab switches, adds, checks and deletes on one day: the appended
  \<open>savedItem\<close> of \<open>handleAdd\<close> and the optimistic updates of \<open>toggleCheck\<close> and
  \<open>handleDelete\<close> are exactly the changes of the Today query, provided the clock
  readings fall on that day and adds come in clock order.
\<close>

theorem grat_view_synced:
  assumes "ids_distinct gs" and "grat_synced u tz d v gs" and "grat_run_on_day u tz d (v, gs) acts"
  shows "grat_synced u tz d (fst (grat_view_run u tz (v, gs) acts)) (snd (grat_view_run u tz (v, gs) acts))"
  using grat_view_run_inv [OF assms] by blast

theorem grat_view_synced_witness:
  "grat_synced 1 0 0
     (fst (grat_view_run 1 0 (init_grat_view, [])
        [FetchItems 3000 3000, SetNewItem '' tea'', AddItem 5000, ToggleCheck 1, SetNewItem ''rain'',
         AddItem 6000, ToggleCheckRejected 2 6500 6500, DeleteItem 1, SelectTab HistoryTab 7000 7000]))
     (snd (grat_view_run 1 0 (init_grat_view, [])
        [FetchItems 3000 3000, SetNewItem '' tea'', AddItem 5000, ToggleCheck 1, SetNewItem ''rain'',
         AddItem 6000, ToggleCheckRejected 2 6500 6500, DeleteItem 1, SelectTab HistoryTab 7000 7000]))"
  by (rule grat_view_synced) (code_simp, code_simp, code_simp)


text \<open>
  C18: a refused check mark is not rolled back. \<open>toggleCheck\<close> flips the item before its
  \<open>PUT\<close> and refetches only when \<open>fetch\<close> itself throws; an answer with an error
  status is ignored. When the item was deleted meanwhile (from another tab of the same
  user), the server answers 404 and changes nothing, and the list keeps showing the item,
  now checked. Likewise a delete whose request the browser rejects removes the item from
  the list for good, while the server keeps it: \<open>handleDelete\<close>'s \<open>catch\<close> only logs.
\<close>

theorem gratitude_failed_toggle_kept:
  "fst (gratitude_PUT (Some 1) 1 (snd (gratitude_DELETE (Some 1) (Some 1) demo_gratitude))) =
     Message 404 ''Not found'' \<and>
   grat_view_step 1 0
     (init_grat_view\<lparr>gv_items := [\<lparr>oid = 1, createdAt = 1000, userId = 1, content = ''tea'', isChecked = False\<rparr>]\<rparr>,
      snd (gratitude_DELETE (Some 1) (Some 1) demo_gratitude)) (ToggleCheck 1) =
     (init_grat_view\<lparr>gv_items := [\<lparr>oid = 1, createdAt = 1000, userId = 1, content = ''tea'', isChecked = True\<rparr>]\<rparr>,
      snd (gratitude_DELETE (Some 1) (Some 1) demo_gratitude)) \<and>
   today_list 1 0 0 (snd (gratitude_DELETE (Some 1) (Some 1) demo_gratitude)) = [] \<and>
   grat_view_step 1 0
     (init_grat_view\<lparr>gv_items := [\<lparr>oid = 1, createdAt = 1000, userId = 1, content = ''tea'', isChecked = False\<rparr>]\<rparr>,
      [\<lparr>oid = 1, createdAt = 1000, userId = 1, content = ''tea'', isChecked = False\<rparr>]) (DeleteRejected 1) =
     (init_grat_view,
      [\<lparr>oid = 1, createdAt = 1000, userId = 1, content = ''tea'', isChecked = False\<rparr>]) \<and>
   today_list 1 0 0 [\<lparr>oid = 1, createdAt = 1000, userId = 1, content = ''tea'', isChecked = False\<rparr>] =
     [\<lparr>oid = 1, createdAt = 1000, userId = 1, content = ''tea'', isChecked = False\<rparr>]"
  by code_simp

end

