(* ===== verification/Journal.thy ===== *)
theory Journal
  imports Store
begin

text \<open>
  The journal: the \<open>Journal\<close> document of \<open>src/models/Journal.ts\<close> and the handlers of
  \<open>src/app/api/journal/route.ts\<close>. \<open>POST\<close> is the one handler of the program that
  catches its exceptions: a body that is not JSON, a \<open>null\<close> body and a failing
  \<open>create\<close> are answered 500 \<open>Server Error\<close>, a falsy \<open>content\<close> 400.
\<close>

record journal = owned +
  content :: string

text \<open>\<open>GET /api/journal\<close>: all of the user's entries, newest first.\<close>

definition journal_GET :: "session \<Rightarrow> journal list \<Rightarrow> journal list response \<times> journal list" where
  "journal_GET sess js =
     (case sess of
        None \<Rightarrow> (unauthorized, js)
      | Some uid \<Rightarrow> (Json 200 (sort_desc (find_owned uid js)), js))"

definition server_error :: "'a response" where
  "server_error = Message 500 ''Server Error''"

text \<open>
  \<open>POST /api/journal\<close>; the body is \<open>None\<close> when \<open>req.json()\<close> rejects. The steps
  inside \<open>try\<close> are in source order: parse (line 27), destructure, the \<open>!content\<close>
  check (line 28), \<open>create\<close> (line 33), answer 201 (line 39).
\<close>

definition journal_POST ::
  "session \<Rightarrow> int \<Rightarrow> jval option \<Rightarrow> journal list \<Rightarrow> journal response \<times> journal list" where
  "journal_POST sess t body js =
     (case sess of
        None \<Rightarrow> (unauthorized, js)
      | Some uid \<Rightarrow>
          (case body of
             None \<Rightarrow> (server_error, js)
           | Some b \<Rightarrow>
               (case destructure ''content'' b of
                  None \<Rightarrow> (server_error, js)
                | Some c \<Rightarrow>
                    if \<not> truthy c then (Message 400 ''Content is required'', js)
                    else
                      (case cast_string c of
                         None \<Rightarrow> (server_error, js)
                       | Some s \<Rightarrow>
                           (let j = \<lparr>oid = new_oid js, createdAt = t, userId = uid, content = s\<rparr>
                            in (Json 201 j, insert_doc j js))))))"

declare server_error_def [code_unfold]

section \<open>Properties\<close>

text \<open>
  \<open>POST /api/journal\<close> never ends in an uncaught exception, and it changes the
  collection only by appending the entry it answers with 201.
\<close>

theorem journal_POST_no_crash:
  "fst (journal_POST sess t body js) \<noteq> Crash \<and>
   (snd (journal_POST sess t body js) = js \<or>
    (\<exists>j. journal_POST sess t body js = (Json 201 j, js @ [j])))"
  by (auto simp: journal_POST_def Let_def server_error_def unauthorized_def insert_doc_def
      split: option.splits)

text \<open>
  A JSON object body with a non-empty string \<open>content\<close> creates one entry of the
  user with that content under a fresh id, answered 201; when the clock has moved past
  every stored entry, the next \<open>GET\<close> lists it first.
\<close>

theorem journal_POST_creates:
  assumes "json_prop ''content'' kvs = JStr s" "s \<noteq> []"
    and "\<forall>d \<in> set js. createdAt d < t"
  shows "\<exists>j. journal_POST (Some u) t (Some (JObj kvs)) js = (Json 201 j, js @ [j])
    \<and> content j = s \<and> userId j = u \<and> oid j \<notin> oid ` set js
    \<and> journal_GET (Some u) (js @ [j]) = (Json 200 (j # sort_desc (find_owned u js)), js @ [j])"
proof -
  define j where "j = \<lparr>oid = new_oid js, createdAt = t, userId = u, content = s\<rparr>"
  have post: "journal_POST (Some u) t (Some (JObj kvs)) js = (Json 201 j, js @ [j])"
    using assms(1,2) by (simp add: journal_POST_def j_def insert_doc_def Let_def)
  have fresh: "oid j \<notin> oid ` set js"
    using new_oid_fresh by (fastforce simp: j_def)
  have "\<forall>d \<in> set (find_owned u js). createdAt d < createdAt j"
    using assms(3) by (simp add: find_owned_def j_def)
  then have "journal_GET (Some u) (js @ [j]) = (Json 200 (j # sort_desc (find_owned u js)), js @ [j])"
    by (simp add: journal_GET_def find_owned_def j_def sort_desc_snoc_newest)
  with post fresh show ?thesis by (auto simp: j_def)
qed

theorem journal_POST_creates_witness:
  "\<exists>j. journal_POST (Some 1) 5 (Some (JObj [(''content'', JStr ''calm'')])) [] = (Json 201 j, [] @ [j])
    \<and> content j = ''calm'' \<and> userId j = 1 \<and> oid j \<notin> oid ` set ([] :: journal list)
    \<and> journal_GET (Some 1) ([] @ [j]) = (Json 200 (j # sort_desc (find_owned 1 [])), [] @ [j])"
  by (rule journal_POST_creates [where kvs = "[(''content'', JStr ''calm'')]" and s = "''calm''"])
     (simp_all add: json_prop_def)

text \<open>
  C23: for a JSON object body, the answer is 400 \<open>Content is required\<close> exactly when
  \<open>content\<close> is missing, \<open>null\<close>, \<open>false\<close>, \<open>0\<close> or the empty string.
\<close>

theorem journal_POST_400_iff:
  "fst (journal_POST (Some u) t (Some (JObj kvs)) js) = Message 400 ''Content is required'' \<longleftrightarrow>
   json_prop ''content'' kvs \<in> {JUndefined, JNull, JBool False, JNum 0, JStr []}"
proof -
  have "\<not> truthy v \<longleftrightarrow> v \<in> {JUndefined, JNull, JBool False, JNum 0, JStr []}" for v
    by (cases v) auto
  then show ?thesis
    by (auto simp: journal_POST_def Let_def server_error_def split: option.splits)
qed

text \<open>
  C24: the check is JavaScript truthiness, not the spec's non-empty text: a
  \<open>content\<close> of \<open>true\<close> or \<open>5\<close> is stored as the text \<open>true\<close> or \<open>5\<close>, a
  \<open>content\<close> that is an object fails the cast and is answered 500 rather than 400, and
  so is a body that is not JSON.
\<close>

theorem journal_POST_loose_content:
  "journal_POST (Some 1) 5 (Some (JObj [(''content'', JBool True)])) [] =
     (Json 201 \<lparr>oid = 1, createdAt = 5, userId = 1, content = ''true''\<rparr>,
      [\<lparr>oid = 1, createdAt = 5, userId = 1, content = ''true''\<rparr>])
   \<and> fst (journal_POST (Some 1) 5 (Some (JObj [(''content'', JNum 5)])) []) =
       Json 201 \<lparr>oid = 1, createdAt = 5, userId = 1, content = ''5''\<rparr>
   \<and> journal_POST (Some 1) 5 (Some (JObj [(''content'', JObj [])])) [] = (Message 500 ''Server Error'', [])
   \<and> journal_POST (Some 1) 5 None [] = (Message 500 ''Server Error'', [])"
  by code_simp

end
