(* ===== verification/JournalView.thy ===== *)
theory JournalView
  imports Journal
begin

text \<open>
  The journal panel of the dashboard page \<open>src/app/page.tsx\<close>: the \<open>journals\<close> and
  \<open>journalContent\<close> state (lines 17 and 18), \<open>fetchJournals\<close> (lines 44 to 54) and
  \<open>handleSaveJournal\<close> (lines 56 to 71), run against the handlers of
  \<open>src/app/api/journal/route.ts\<close> (theory \<open>Journal\<close>). \<open>fetchStreak\<close> (lines 29 to
  42) starts \<open>fetchJournals\<close> after the streak answer; its streak part is the
  \<open>StreakLoaded\<close> event of theory \<open>Dashboard\<close>, its journal part the \<open>FetchJournals\<close>
  action here. Each request is awaited before the next action.
\<close>

section \<open>The panel state and its handlers\<close>

record journal_view =
  jv_journals :: "journal list"
  journalContent :: string

definition init_journal_view :: journal_view where
  "init_journal_view = \<lparr>jv_journals = [], journalContent = []\<rparr>"

text \<open>\<open>fetchJournals\<close>: an ok answer replaces the list.\<close>

definition fetch_journals_done :: "journal list response \<Rightarrow> journal_view \<Rightarrow> journal_view" where
  "fetch_journals_done r v = (case ok_body r of Some d \<Rightarrow> v\<lparr>jv_journals := d\<rparr> | None \<Rightarrow> v)"

text \<open>
  \<open>handleSaveJournal\<close>: nothing is sent when the trimmed text is empty; otherwise the
  body is \<open>JSON.stringify({ content: journalContent })\<close>, the untrimmed text.
\<close>

definition save_journal_request :: "journal_view \<Rightarrow> jval option" where
  "save_journal_request v =
     (if js_trim (journalContent v) = [] then None
      else Some (JObj [(''content'', JStr (journalContent v))]))"

datatype journal_action = FetchJournals | SetContent string | SaveJournal int

text \<open>
  One action of the signed-in user \<open>u\<close>; \<open>SaveJournal t\<close> is the save button with
  Mongoose's \<open>createdAt\<close> time \<open>t\<close>. An ok answer clears the input and refetches.
\<close>

fun journal_view_step ::
  "nat \<Rightarrow> journal_view \<times> journal list \<Rightarrow> journal_action \<Rightarrow> journal_view \<times> journal list" where
  "journal_view_step u (v, js) FetchJournals = (fetch_journals_done (fst (journal_GET (Some u) js)) v, js)"
| "journal_view_step u (v, js) (SetContent c) = (v\<lparr>journalContent := c\<rparr>, js)"
| "journal_view_step u (v, js) (SaveJournal t) =
     (case save_journal_request v of
        None \<Rightarrow> (v, js)
      | Some b \<Rightarrow>
          (case journal_POST (Some u) t (Some b) js of
             (r, js') \<Rightarrow>
               if ok_body r \<noteq> None
               then (fetch_journals_done (fst (journal_GET (Some u) js')) (v\<lparr>journalContent := []\<rparr>), js')
               else (v, js')))"

definition journal_view_run ::
  "nat \<Rightarrow> journal_view \<times> journal list \<Rightarrow> journal_action list \<Rightarrow> journal_view \<times> journal list" where
  "journal_view_run u st acts = foldl (journal_view_step u) st acts"

section \<open>Properties\<close>

text \<open>
  C22: saving a text that is not blank, at a time later than every stored entry, is
  accepted: the entry with exactly the typed text (untrimmed) is appended to the
  collection, the input is cleared, and the refetched list shows the entry first,
  followed by the user's earlier entries newest first.
\<close>

theorem journal_save_shows_entry:
  assumes "js_trim (journalContent v) \<noteq> []" and "\<forall>e \<in> set js. createdAt e < t"
  shows "journal_view_step u (v, js) (SaveJournal t) =
    (let j = \<lparr>oid = new_oid js, createdAt = t, userId = u, content = journalContent v\<rparr>
     in (v\<lparr>journalContent := [], jv_journals := j # sort_desc (find_owned u js)\<rparr>, js @ [j]))"
proof -
  define j where "j = \<lparr>oid = new_oid js, createdAt = t, userId = u, content = journalContent v\<rparr>"
  have ne: "journalContent v \<noteq> []" using assms(1) by auto
  have post: "journal_POST (Some u) t (save_journal_request v) js = (Json 201 j, js @ [j])"
    using assms(1) ne by (simp add: save_journal_request_def journal_POST_def j_def insert_doc_def json_prop_def Let_def)
  have "\<forall>d \<in> set (find_owned u js). createdAt d < createdAt j"
    using assms(2) by (simp add: find_owned_def j_def)
  then have "sort_desc (find_owned u (js @ [j])) = j # sort_desc (find_owned u js)"
    by (simp add: find_owned_def j_def sort_desc_snoc_newest)
  with post assms(1) show ?thesis
    by (simp add: save_journal_request_def fetch_journals_done_def journal_GET_def j_def Let_def)
qed

theorem journal_save_shows_entry_witness:
  "journal_view_step 1 (\<lparr>jv_journals = [], journalContent = '' calm''\<rparr>, []) (SaveJournal 5) =
    (let j = \<lparr>oid = new_oid ([] :: journal list), createdAt = 5, userId = 1, content = journalContent \<lparr>jv_journals = [], journalContent = '' calm''\<rparr>\<rparr>
     in (\<lparr>jv_journals = [], journalContent = '' calm''\<rparr>\<lparr>journalContent := [], jv_journals := j # sort_desc (find_owned 1 [])\<rparr>, [] @ [j]))"
  by (rule journal_save_shows_entry) (simp_all add: js_trim_def js_is_space_def)

end
