(* ===== verification/MeditationTimer.thy ===== *)
theory MeditationTimer
  imports Complex_Main Prelude
begin

text \<open>
  The meditation timer of \<open>src/components/meditation-timer.tsx\<close> as a state machine.
  The state has the four React states (\<open>duration\<close>, \<open>timeLeft\<close>,
  \<open>isActive\<close>, \<open>isFinished\<close>), the interval of \<open>intervalRef\<close> (\<open>Some d\<close>
  while one is set: its callback closes over \<open>finishSession\<close> of the render that
  started it, and so over that render's \<open>duration\<close> \<open>d\<close>), and the bodies of the
  \<open>POST /api/meditation\<close> requests sent so far. Each user action and each firing of
  the interval is one event; React's batched state updates of one event are applied
  together, in source order. Reachable states are those of the events the rendered UI
  offers (\<open>enabled\<close>): Start when not active, Pause when active, Reset when shown
  (line 132), the three presets, and ticks at any time.
\<close>

record timer =
  duration :: int
  timeLeft :: int
  isActive :: bool
  isFinished :: bool
  interval :: "int option"
  posted :: "int list"

datatype timer_event = StartTimer | Tick | PauseTimer | ResetTimer | SetPreset int

text \<open>The preset buttons (lines 14 to 18) and the initial state (lines 8 to 11).\<close>

definition presets :: "int list" where
  "presets = [300, 600, 900]"

definition init_timer :: timer where
  "init_timer = \<lparr>duration = 300, timeLeft = 300, isActive = False, isFinished = False,
                  interval = None, posted = []\<rparr>"

text \<open>
  \<open>startTimer\<close> (lines 26 to 39), \<open>pauseTimer\<close> (41 to 44), the interval callback
  (31 to 37) with \<open>finishSession\<close> (52 to 67), \<open>resetTimer\<close> (46 to 50),
  \<open>setPreset\<close> (69 to 74).
\<close>

definition pause_timer :: "timer \<Rightarrow> timer" where
  "pause_timer s = s\<lparr>isActive := False, interval := None\<rparr>"

definition start_timer :: "timer \<Rightarrow> timer" where
  "start_timer s =
     (if isActive s then s
      else s\<lparr>isActive := True, isFinished := False, interval := Some (duration s)\<rparr>)"

definition finish_session :: "int \<Rightarrow> timer \<Rightarrow> timer" where
  "finish_session d s = (let s1 = pause_timer s in s1\<lparr>isFinished := True, posted := posted s1 @ [d]\<rparr>)"

definition tick :: "timer \<Rightarrow> timer" where
  "tick s =
     (case interval s of
        None \<Rightarrow> s
      | Some d \<Rightarrow>
          if timeLeft s \<le> 1 then (finish_session d s)\<lparr>timeLeft := 0\<rparr>
          else s\<lparr>timeLeft := timeLeft s - 1\<rparr>)"

definition reset_timer :: "timer \<Rightarrow> timer" where
  "reset_timer s = (let s1 = pause_timer s in s1\<lparr>timeLeft := duration s1, isFinished := False\<rparr>)"

definition set_preset :: "int \<Rightarrow> timer \<Rightarrow> timer" where
  "set_preset sec s = (pause_timer s)\<lparr>duration := sec, timeLeft := sec, isFinished := False\<rparr>"

primrec timer_step :: "timer \<Rightarrow> timer_event \<Rightarrow> timer" where
  "timer_step s StartTimer = start_timer s"
| "timer_step s Tick = tick s"
| "timer_step s PauseTimer = pause_timer s"
| "timer_step s ResetTimer = reset_timer s"
| "timer_step s (SetPreset sec) = set_preset sec s"

primrec enabled :: "timer \<Rightarrow> timer_event \<Rightarrow> bool" where
  "enabled s StartTimer = (\<not> isActive s)"
| "enabled s Tick = True"
| "enabled s PauseTimer = isActive s"
| "enabled s ResetTimer = (timeLeft s \<noteq> duration s \<or> isFinished s)"
| "enabled s (SetPreset sec) = (sec \<in> set presets)"

inductive reachable :: "timer \<Rightarrow> bool" where
  init: "reachable init_timer"
| step: "reachable s \<Longrightarrow> enabled s e \<Longrightarrow> reachable (timer_step s e)"

definition timer_inv :: "timer \<Rightarrow> bool" where
  "timer_inv s \<longleftrightarrow>
     duration s \<in> set presets \<and> 0 \<le> timeLeft s \<and> timeLeft s \<le> duration s \<and>
     interval s = (if isActive s then Some (duration s) else None) \<and>
     \<not> (isFinished s \<and> isActive s) \<and> list_all (\<lambda>d. d \<in> set presets) (posted s)"

text \<open>
  The display: \<open>formatTime\<close> (lines 76 to 80), the status label (line 112), and the
  dash offset of the progress ring (line 104), a JavaScript number.
\<close>

definition format_time :: "int \<Rightarrow> string" where
  "format_time sec = int_to_string (sec div 60) @ '':'' @ pad_start 2 (CHR ''0'') (int_to_string (js_rem sec 60))"

definition status_label :: "timer \<Rightarrow> string" where
  "status_label s = (if isActive s then ''Focus'' else if isFinished s then ''Completed'' else ''Ready'')"

definition ring_offset :: "timer \<Rightarrow> real" where
  "ring_offset s = 283 - (283 * of_int (timeLeft s)) / of_int (duration s)"
text \<open>
  The interval as a loop: \<open>setInterval\<close> calls the callback until
  \<open>clearInterval\<close>, which no bound guarantees; \<open>None\<close> is an interval that never
  stops.
\<close>

partial_function (option) run_interval :: "timer \<Rightarrow> timer option" where
  "run_interval s = (case interval s of None \<Rightarrow> Some s | Some d \<Rightarrow> run_interval (tick s))"

text \<open>
  The preset buttons (lines 141 to 149): each preset's label (lines 15 to 17) and whether
  it is highlighted, \<open>duration === p.sec\<close>.
\<close>

definition preset_buttons :: "timer \<Rightarrow> (string \<times> bool) list" where
  "preset_buttons s = zip [''5m'', ''10m'', ''15m''] (map (\<lambda>p. p = duration s) presets)"

text \<open>
  The effect of lines 20 to 24: when the component unmounts (the user leaves the
  dashboard), its cleanup clears a running interval. The component state is discarded
  with it; nothing is posted.
\<close>

definition unmount_timer :: "timer \<Rightarrow> timer" where
  "unmount_timer s = s\<lparr>interval := None\<rparr>"

section \<open>The invariant of reachable states\<close>

lemma presets_pos: "d \<in> set presets \<Longrightarrow> 0 < d"
  by (auto simp: presets_def)

lemma timer_inv_init: "timer_inv init_timer"
  by (simp add: timer_inv_def init_timer_def presets_def)

lemma timer_inv_step: "timer_inv s \<Longrightarrow> enabled s e \<Longrightarrow> timer_inv (timer_step s e)"
proof (cases e)
  case Tick
  assume "timer_inv s"
  then show ?thesis using Tick
    by (auto simp: timer_inv_def tick_def finish_session_def pause_timer_def Let_def
        split: option.splits if_splits)
qed (auto simp: timer_inv_def start_timer_def pause_timer_def reset_timer_def set_preset_def
      Let_def presets_def)

lemma reachable_inv: "reachable s \<Longrightarrow> timer_inv s"
  by (induction rule: reachable.induct) (auto intro: timer_inv_init timer_inv_step)

text \<open>In every state of the invariant exactly one preset button is highlighted.\<close>

lemma preset_buttons_one:
  "timer_inv s \<Longrightarrow> length (filter snd (preset_buttons s)) = 1"
  by (auto simp: timer_inv_def presets_def preset_buttons_def)

lemma ring_offset_bounds:
  assumes "timer_inv s"
  shows "0 \<le> ring_offset s \<and> ring_offset s \<le> 283"
proof -
  have d: "0 < duration s" "0 \<le> timeLeft s" "timeLeft s \<le> duration s"
    using assms presets_pos by (auto simp: timer_inv_def)
  then have "0 \<le> of_int (timeLeft s) / (of_int (duration s) :: real)"
    and "of_int (timeLeft s) / (of_int (duration s) :: real) \<le> 1"
    by simp_all
  then show ?thesis by (simp add: ring_offset_def)
qed

lemma reachable_ticks: "reachable s \<Longrightarrow> reachable ((tick ^^ n) s)"
proof (induction n)
  case (Suc n)
  then have "reachable (timer_step ((tick ^^ n) s) Tick)" by (intro reachable.step) simp_all
  then show ?case by simp
qed simp

lemma reachable_started: "reachable (timer_step init_timer StartTimer)"
  by (rule reachable.step [OF reachable.init]) (simp add: init_timer_def)

section \<open>Running down\<close>

lemma ticks_count_down:
  assumes "interval s = Some d" "int j < timeLeft s"
  shows "(tick ^^ j) s = s\<lparr>timeLeft := timeLeft s - int j\<rparr>"
  using assms(2)
proof (induction j)
  case 0
  then show ?case by simp
next
  case (Suc j)
  then have "(tick ^^ Suc j) s = tick (s\<lparr>timeLeft := timeLeft s - int j\<rparr>)" by simp
  also have "\<dots> = s\<lparr>timeLeft := timeLeft s - int (Suc j)\<rparr>"
    using Suc.prems assms(1) by (simp add: tick_def)
  finally show ?case .
qed

lemma ticks_finish:
  assumes "interval s = Some d" "timeLeft s \<le> int k + 1"
    and "int k < timeLeft s \<or> k = 0"
  shows "(tick ^^ Suc k) s = s\<lparr>timeLeft := 0, isActive := False, isFinished := True,
      interval := None, posted := posted s @ [d]\<rparr>"
proof -
  have "(tick ^^ k) s = s\<lparr>timeLeft := timeLeft s - int k\<rparr>"
    using assms(3) ticks_count_down [OF assms(1)] by (cases "k = 0") auto
  then have "(tick ^^ Suc k) s = tick (s\<lparr>timeLeft := timeLeft s - int k\<rparr>)" by simp
  also have "\<dots> = s\<lparr>timeLeft := 0, isActive := False, isFinished := True,
      interval := None, posted := posted s @ [d]\<rparr>"
    using assms(1,2) by (simp add: tick_def finish_session_def pause_timer_def Let_def)
  finally show ?thesis .
qed

lemma run_interval_stops:
  assumes "interval s = Some d" "timeLeft s \<le> int k + 1"
  shows "run_interval s = Some (s\<lparr>timeLeft := 0, isActive := False, isFinished := True,
      interval := None, posted := posted s @ [d]\<rparr>)"
  using assms
proof (induction k arbitrary: s)
  case 0
  then show ?case
    by (subst run_interval.simps)
       (simp add: tick_def finish_session_def pause_timer_def Let_def run_interval.simps)
next
  case (Suc k)
  show ?case
  proof (cases "timeLeft s \<le> 1")
    case True
    with Suc.prems show ?thesis
      by (subst run_interval.simps)
         (simp add: tick_def finish_session_def pause_timer_def Let_def run_interval.simps)
  next
    case False
    then have t: "tick s = s\<lparr>timeLeft := timeLeft s - 1\<rparr>" using Suc.prems(1) by (simp add: tick_def)
    have "run_interval (tick s) = Some ((tick s)\<lparr>timeLeft := 0, isActive := False, isFinished := True,
        interval := None, posted := posted (tick s) @ [d]\<rparr>)"
      by (rule Suc.IH) (use Suc.prems t in simp_all)
    then show ?thesis using Suc.prems(1) t by (subst run_interval.simps) simp
  qed
qed

text \<open>
  Leaving the page during a session loses it: after the cleanup the interval returns at
  once and the session's duration is never posted, however much time was left.
\<close>

lemma unmount_loses_session:
  "run_interval (unmount_timer s) = Some (unmount_timer s) \<and> posted (unmount_timer s) = posted s"
  by (subst run_interval.simps) (simp add: unmount_timer_def)

section \<open>Properties\<close>

text \<open>
  C25: in every state the UI can reach, the duration is a preset, \<open>0 \<le> timeLeft \<le>
  duration\<close>, an interval is set exactly while the timer is active and closes over the
  current duration, a finished timer is not active, every logged session is a preset
  (so the server only ever receives a positive duration from this view), the ring's
  dash offset lies in \<open>[0, 283]\<close>, and exactly one preset button is highlighted.
\<close>

theorem timer_reachable_safe:
  "reachable s \<Longrightarrow> timer_inv s \<and> 0 \<le> ring_offset s \<and> ring_offset s \<le> 283 \<and>
     length (filter snd (preset_buttons s)) = 1"
  using reachable_inv ring_offset_bounds preset_buttons_one by blast

theorem timer_reachable_safe_witness:
  "timer_inv (timer_step init_timer StartTimer) \<and> 0 \<le> ring_offset (timer_step init_timer StartTimer)
   \<and> ring_offset (timer_step init_timer StartTimer) \<le> 283
   \<and> length (filter snd (preset_buttons (timer_step init_timer StartTimer))) = 1"
  by (rule timer_reachable_safe [OF reachable_started])

text \<open>
  C26: a running timer finishes: from any reachable active state, after
  \<open>max 1 timeLeft\<close> ticks it has stopped at 0, shows Completed and has sent exactly one
  \<open>POST\<close> with its duration; no tick before that sends anything.
\<close>

theorem timer_completes:
  assumes "reachable s" "isActive s"
  shows "map (\<lambda>j. posted ((tick ^^ j) s)) [0..<max 1 (nat (timeLeft s))] =
      replicate (max 1 (nat (timeLeft s))) (posted s) \<and>
    (tick ^^ max 1 (nat (timeLeft s))) s =
      s\<lparr>timeLeft := 0, isActive := False, isFinished := True, interval := None,
        posted := posted s @ [duration s]\<rparr>"
proof -
  have inv: "timer_inv s" using assms(1) by (rule reachable_inv)
  then have iv: "interval s = Some (duration s)" and nn: "0 \<le> timeLeft s"
    using assms(2) by (simp_all add: timer_inv_def)
  define k where "k = max 1 (nat (timeLeft s)) - 1"
  have n: "max 1 (nat (timeLeft s)) = Suc k" by (simp add: k_def)
  have fin: "(tick ^^ Suc k) s = s\<lparr>timeLeft := 0, isActive := False, isFinished := True,
      interval := None, posted := posted s @ [duration s]\<rparr>"
    by (rule ticks_finish [OF iv]) (auto simp: k_def)
  have "posted ((tick ^^ j) s) = posted s" if "j < Suc k" for j
  proof (cases "j = 0")
    case False
    then have "int j < timeLeft s" using that by (simp add: k_def)
    then show ?thesis by (simp add: ticks_count_down [OF iv])
  qed simp
  then have "map (\<lambda>j. posted ((tick ^^ j) s)) [0..<Suc k] = replicate (Suc k) (posted s)"
    unfolding map_upt_eq_replicate by blast
  with fin show ?thesis unfolding n by simp
qed

theorem timer_completes_witness:
  "map (\<lambda>j. posted ((tick ^^ j) (timer_step init_timer StartTimer)))
      [0..<max 1 (nat (timeLeft (timer_step init_timer StartTimer)))] =
      replicate (max 1 (nat (timeLeft (timer_step init_timer StartTimer))))
        (posted (timer_step init_timer StartTimer)) \<and>
    (tick ^^ max 1 (nat (timeLeft (timer_step init_timer StartTimer)))) (timer_step init_timer StartTimer) =
      (timer_step init_timer StartTimer)\<lparr>timeLeft := 0, isActive := False, isFinished := True,
        interval := None, posted := posted (timer_step init_timer StartTimer) @
          [duration (timer_step init_timer StartTimer)]\<rparr>"
  by (rule timer_completes [OF reachable_started]) (simp add: init_timer_def start_timer_def)

text \<open>
  C28: Start stays offered on a finished timer, and pressing it logs another full session
  one second later: a 5-minute session runs out and is logged, Start, one tick, and a
  second 5-minute session is logged (\<open>prev \<le> 1\<close> holds for \<open>prev = 0\<close>).
\<close>

theorem timer_restart_logs_again:
  "reachable (tick (timer_step ((tick ^^ 300) (timer_step init_timer StartTimer)) StartTimer))
   \<and> posted ((tick ^^ 300) (timer_step init_timer StartTimer)) = [300]
   \<and> isFinished ((tick ^^ 300) (timer_step init_timer StartTimer))
   \<and> posted (tick (timer_step ((tick ^^ 300) (timer_step init_timer StartTimer)) StartTimer)) = [300, 300]"
proof -
  define s1 where "s1 = (tick ^^ 300) (timer_step init_timer StartTimer)"
  have e: "s1 = (tick ^^ Suc 299) (timer_step init_timer StartTimer)" by (simp add: s1_def)
  have s1: "s1 = \<lparr>duration = 300, timeLeft = 0, isActive = False, isFinished = True,
                  interval = None, posted = [300]\<rparr>"
    unfolding e by (subst ticks_finish [where d = 300]) (simp_all add: init_timer_def start_timer_def)
  have r1: "reachable s1" unfolding s1_def by (rule reachable_ticks [OF reachable_started])
  have "reachable (timer_step (timer_step s1 StartTimer) Tick)"
    by (intro reachable.step r1) (simp_all add: s1)
  then show ?thesis unfolding s1_def [symmetric]
    by (simp add: s1 start_timer_def tick_def finish_session_def pause_timer_def Let_def)
qed

text \<open>
  C27: the interval always stops: from every reachable state, running the interval until
  it is cleared returns, with the timer finished and exactly one session logged when it
  was active, and at once when it was not.
\<close>

theorem timer_interval_terminates:
  assumes "reachable s"
  shows "run_interval s =
    Some (if isActive s then s\<lparr>timeLeft := 0, isActive := False, isFinished := True, interval := None,
                               posted := posted s @ [duration s]\<rparr>
          else s)"
proof -
  have inv: "timer_inv s" using assms by (rule reachable_inv)
  show ?thesis
  proof (cases "isActive s")
    case True
    then have "interval s = Some (duration s)" using inv by (simp add: timer_inv_def)
    from run_interval_stops [OF this, of "nat (timeLeft s)"] True show ?thesis by simp
  next
    case False
    then have "interval s = None" using inv by (simp add: timer_inv_def)
    with False show ?thesis by (subst run_interval.simps) simp
  qed
qed

theorem timer_interval_terminates_witness:
  "run_interval (timer_step init_timer StartTimer) =
    Some (if isActive (timer_step init_timer StartTimer)
          then (timer_step init_timer StartTimer)\<lparr>timeLeft := 0, isActive := False, isFinished := True,
                 interval := None, posted := posted (timer_step init_timer StartTimer) @
                   [duration (timer_step init_timer StartTimer)]\<rparr>
          else timer_step init_timer StartTimer)"
  by (rule timer_interval_terminates [OF reachable_started])

end
