(* ===== verification/Meditation.thy ===== *)
theory Meditation
  imports Store MeditationTimer
begin

text \<open>
  The meditation log: the \<open>Meditation\<close> document of \<open>src/models/Meditation.ts\<close> and
  the handlers of \<open>src/app/api/meditation/route.ts\<close>, and how the timer of
  \<open>MeditationTimer\<close> uses them. \<open>POST\<close> has no \<open>try\<close>: an unparsable or
  \<open>null\<close> body and a failing \<open>create\<close> are uncaught exceptions.
\<close>

record meditation = owned +
  duration :: int

text \<open>\<open>GET /api/meditation\<close>: the user's 10 newest sessions, newest first.\<close>

definition meditation_GET :: "session \<Rightarrow> meditation list \<Rightarrow> meditation list response \<times> meditation list" where
  "meditation_GET sess ms =
     (case sess of
        None \<Rightarrow> (unauthorized, ms)
      | Some uid \<Rightarrow> (Json 200 (take 10 (sort_desc (find_owned uid ms))), ms))"

text \<open>\<open>POST /api/meditation\<close> with the body \<open>{duration}\<close> (\<open>None\<close> when it is not JSON).\<close>

definition meditation_POST ::
  "(string \<Rightarrow> int option) \<Rightarrow> session \<Rightarrow> int \<Rightarrow> jval option \<Rightarrow> meditation list \<Rightarrow>
     meditation response \<times> meditation list" where
  "meditation_POST to_number sess t body ms =
     (case sess of
        None \<Rightarrow> (unauthorized, ms)
      | Some uid \<Rightarrow>
          (case body of
             None \<Rightarrow> (Crash, ms)
           | Some b \<Rightarrow>
               (case destructure ''duration'' b of
                  None \<Rightarrow> (Crash, ms)
                | Some v \<Rightarrow>
                    (case cast_number to_number v of
                       None \<Rightarrow> (Crash, ms)
                     | Some d \<Rightarrow>
                         (let m = \<lparr>oid = new_oid ms, createdAt = t, userId = uid, duration = d\<rparr>
                          in (Json 200 m, insert_doc m ms))))))"

text \<open>The body \<open>finishSession\<close> sends: \<open>JSON.stringify({ duration })\<close> (line 62).\<close>

definition session_body :: "int \<Rightarrow> jval" where
  "session_body d = JObj [(''duration'', JNum d)]"

section \<open>Properties\<close>

text \<open>
  \<open>GET /api/meditation\<close> answers at most 10 of the user's sessions, newest first,
  all of them when there are at most 10, and every session it leaves out is no newer
  than every session it answers; it writes nothing.
\<close>

theorem meditation_GET_recent:
  assumes "meditation_GET (Some u) ms = (resp, ms')"
  shows "\<exists>r. resp = Json 200 r \<and> ms' = ms \<and> length r \<le> 10
    \<and> set r \<subseteq> {m \<in> set ms. userId m = u}
    \<and> sorted_wrt (\<ge>) (map createdAt r)
    \<and> (length (find_owned u ms) \<le> 10 \<longrightarrow> set r = {m \<in> set ms. userId m = u})
    \<and> (\<forall>d \<in> set ms. userId d = u \<longrightarrow> d \<notin> set r \<longrightarrow> (\<forall>e \<in> set r. createdAt d \<le> createdAt e))"
proof -
  have "resp = Json 200 (take 10 (sort_desc (find_owned u ms)))" "ms' = ms"
    using assms by (auto simp: meditation_GET_def)
  then show ?thesis using recent_owned [of 10 u ms] by blast
qed

theorem meditation_GET_recent_witness:
  "\<exists>r. fst (meditation_GET (Some 1) []) = Json 200 r \<and> snd (meditation_GET (Some 1) []) = []
    \<and> length r \<le> 10 \<and> set r \<subseteq> {m \<in> set ([] :: meditation list). userId m = 1}
    \<and> sorted_wrt (\<ge>) (map createdAt r)
    \<and> (length (find_owned 1 ([] :: meditation list)) \<le> 10 \<longrightarrow> set r = {m \<in> set ([] :: meditation list). userId m = 1})
    \<and> (\<forall>d \<in> set ([] :: meditation list). userId d = 1 \<longrightarrow> d \<notin> set r \<longrightarrow>
         (\<forall>e \<in> set r. createdAt d \<le> createdAt e))"
  by (rule meditation_GET_recent) simp

text \<open>
  C29: every session the timer logs is stored: for a reachable timer state, each
  \<open>POST\<close> body it has sent creates one session of the user with that duration, which
  is positive, answered 200.
\<close>

theorem timer_sessions_stored:
  assumes "reachable s" "d \<in> set (posted s)"
  shows "\<exists>m. meditation_POST to_number (Some u) t (Some (session_body d)) ms = (Json 200 m, ms @ [m])
    \<and> meditation.duration m = d \<and> 0 < d \<and> userId m = u"
proof -
  have "d \<in> set presets" using reachable_inv [OF assms(1)] assms(2)
    by (auto simp: timer_inv_def list_all_iff)
  then show ?thesis
    by (auto simp: meditation_POST_def session_body_def json_prop_def insert_doc_def presets_def Let_def)
qed

theorem timer_sessions_stored_witness:
  "\<exists>m. meditation_POST (\<lambda>_. None) (Some 1) 5
      (Some (session_body 300)) [] = (Json 200 m, [] @ [m])
    \<and> meditation.duration m = 300 \<and> 0 < (300::int) \<and> userId m = 1"
proof -
  have r: "reachable ((tick ^^ Suc 299) (timer_step init_timer StartTimer))"
    by (rule reachable_ticks [OF reachable_started])
  have "(tick ^^ Suc 299) (timer_step init_timer StartTimer) =
      \<lparr>timer.duration = 300, timeLeft = 0, isActive = False, isFinished = True, interval = None,
       posted = [300]\<rparr>"
    by (subst ticks_finish [where d = 300]) (simp_all add: init_timer_def start_timer_def)
  then have "300 \<in> set (posted ((tick ^^ Suc 299) (timer_step init_timer StartTimer)))" by simp
  from timer_sessions_stored [OF r this] show ?thesis .
qed

text \<open>
  C30: the server checks nothing of the duration: a duration of 0, of -5 or of \<open>true\<close>
  is stored, while a missing one makes \<open>create\<close> throw (an uncaught exception, 500).
  The spec asks for a positive integer and a 400 validation error.
\<close>

theorem meditation_POST_unchecked:
  "fst (meditation_POST (\<lambda>_. None) (Some 1) 5 (Some (JObj [(''duration'', JNum 0)])) []) =
     Json 200 \<lparr>oid = 1, createdAt = 5, userId = 1, duration = 0\<rparr>
   \<and> fst (meditation_POST (\<lambda>_. None) (Some 1) 5 (Some (JObj [(''duration'', JNum (-5))])) []) =
     Json 200 \<lparr>oid = 1, createdAt = 5, userId = 1, duration = -5\<rparr>
   \<and> fst (meditation_POST (\<lambda>_. None) (Some 1) 5 (Some (JObj [(''duration'', JBool True)])) []) =
     Json 200 \<lparr>oid = 1, createdAt = 5, userId = 1, duration = 1\<rparr>
   \<and> meditation_POST (\<lambda>_. None) (Some 1) 5 (Some (JObj [])) [] = (Crash, [])"
  by (simp add: meditation_POST_def json_prop_def new_oid_def insert_doc_def Let_def)

end
