(* ===== verification/Dashboard.thy ===== *)
theory Dashboard
  imports Complex_Main Streak
begin

text \<open>
  The dashboard page \<open>src/app/page.tsx\<close>: its live streak clock, the milestone
  progress computed from the clock's day count, and the client state the clock reads.
  A date string the page keeps (the \<open>startDate\<close> of \<open>GET /api/streak\<close>, cached in
  \<open>localStorage\<close>) is modelled by the time value \<open>new Date(...)\<close> parses it to: the
  server serialises a valid date as its ISO string, which parses back to the same time.
\<close>

record clock =
  days :: jsint
  hours :: jsint
  minutes :: jsint
  seconds :: jsint

definition zero_clock :: clock where
  "zero_clock = \<lparr>days = JInt 0, hours = JInt 0, minutes = JInt 0, seconds = JInt 0\<rparr>"

definition nan_clock :: clock where
  "nan_clock = \<lparr>days = NaN, hours = NaN, minutes = NaN, seconds = NaN\<rparr>"

text \<open>The decomposition of \<open>diff\<close> (lines 151 to 156, and 117 to 122).\<close>

definition elapsed_of :: "int \<Rightarrow> clock" where
  "elapsed_of diff =
     \<lparr>days = JInt (diff div ms_per_day),
      hours = JInt (js_rem diff ms_per_day div ms_per_hour),
      minutes = JInt (js_rem diff ms_per_hour div ms_per_minute),
      seconds = JInt (js_rem diff ms_per_minute div ms_per_second)\<rparr>"

text \<open>
  The page state: the cached start (\<open>localStorage.streakStartDate\<close>), the start the
  clock reads (\<open>startDateRef\<close>), \<open>mounted\<close>, \<open>elapsed\<close> and \<open>streakData\<close>.
\<close>

record dash =
  cache :: "jsint option"
  start_ref :: "jsint option"
  mounted :: bool
  elapsed :: clock
  streak_data :: "streak_json option"

definition init_dash :: "jsint option \<Rightarrow> dash" where
  "init_dash c = \<lparr>cache = c, start_ref = None, mounted = False, elapsed = zero_clock,
                  streak_data = None\<rparr>"

text \<open>
  The events: the mount effect with its clock reading (lines 106 to 125), the arrival of
  a \<open>GET /api/streak\<close> answer with the effect on \<open>streakData\<close> (lines 128 to 133), a
  firing of the one-second interval (139 to 157), a successful \<open>handleReset\<close> (77 to
  80; the refetch it starts arrives later as its own event) and sign-out (189).
\<close>

datatype dash_event = Mount int | StreakLoaded streak_json | ClockTick int | ResetOk | SignOut

definition mount :: "int \<Rightarrow> dash \<Rightarrow> dash" where
  "mount now d =
     (case cache d of
        None \<Rightarrow> d\<lparr>mounted := True\<rparr>
      | Some st \<Rightarrow>
          d\<lparr>mounted := True, start_ref := Some st,
            elapsed := (case js_sub (JInt now) st of
                          JInt x \<Rightarrow> if 0 \<le> x then elapsed_of x else elapsed d
                        | NaN \<Rightarrow> elapsed d)\<rparr>)"

definition streak_loaded :: "streak_json \<Rightarrow> dash \<Rightarrow> dash" where
  "streak_loaded sj d =
     (case startDate sj of
        Some (JInt s) \<Rightarrow> d\<lparr>streak_data := Some sj, start_ref := Some (JInt s), cache := Some (JInt s)\<rparr>
      | _ \<Rightarrow> d\<lparr>streak_data := Some sj\<rparr>)"

definition clock_tick :: "int \<Rightarrow> dash \<Rightarrow> dash" where
  "clock_tick now d =
     (if \<not> mounted d then d
      else case start_ref d of
             None \<Rightarrow> d
           | Some st \<Rightarrow>
               (case js_sub (JInt now) st of
                  NaN \<Rightarrow> d\<lparr>elapsed := nan_clock\<rparr>
                | JInt x \<Rightarrow> if x < 0 then d\<lparr>elapsed := zero_clock\<rparr> else d\<lparr>elapsed := elapsed_of x\<rparr>))"

primrec dash_step :: "dash \<Rightarrow> dash_event \<Rightarrow> dash" where
  "dash_step d (Mount now) = mount now d"
| "dash_step d (StreakLoaded sj) = streak_loaded sj d"
| "dash_step d (ClockTick now) = clock_tick now d"
| "dash_step d ResetOk = d\<lparr>cache := None, elapsed := zero_clock\<rparr>"
| "dash_step d SignOut = d\<lparr>cache := None\<rparr>"

definition dash_run :: "dash \<Rightarrow> dash_event list \<Rightarrow> dash" where
  "dash_run d es = foldl dash_step d es"

text \<open>\<open>getNextMilestone\<close> and \<open>getProgress\<close> (lines 87 to 98), applied to \<open>elapsed.days\<close>.\<close>

definition milestones :: "int list" where
  "milestones = [1, 3, 7, 14, 30, 60, 90, 180, 365]"

definition next_milestone :: "int \<Rightarrow> int" where
  "next_milestone n = (case find (\<lambda>m. m > n) milestones of Some m \<Rightarrow> if m \<noteq> 0 then m else n + 1 | None \<Rightarrow> n + 1)"

fun get_next_milestone :: "jsint \<Rightarrow> jsint" where
  "get_next_milestone NaN = NaN"
| "get_next_milestone (JInt n) = JInt (next_milestone n)"

definition prev_milestone :: "int \<Rightarrow> int" where
  "prev_milestone n =
     (case find (\<lambda>m. m \<le> n) (rev (0 # milestones)) of Some m \<Rightarrow> if m \<noteq> 0 then m else 0 | None \<Rightarrow> 0)"

fun get_progress :: "jsint \<Rightarrow> real" where
  "get_progress NaN = 0"
| "get_progress (JInt n) =
     (let next = next_milestone n; prev = prev_milestone n
      in if next = prev then 100
         else min 100 (max 0 (of_int (n - prev) / of_int (next - prev) * 100)))"

section \<open>The clock\<close>

lemma mod_div_recompose:
  fixes x D k :: int
  assumes "0 < k" "k dvd D"
  shows "x mod D div k * k + x mod k = x mod D"
proof -
  have "x mod D mod k = x mod k" using assms(2) by (rule mod_mod_cancel)
  then show ?thesis using div_mult_mod_eq [of "x mod D" k] by simp
qed

lemma elapsed_of_parts:
  assumes "0 \<le> x"
  shows "\<exists>b c e. elapsed_of x = \<lparr>days = JInt (x div ms_per_day), hours = JInt b, minutes = JInt c,
      seconds = JInt e\<rparr> \<and>
    x div ms_per_day * ms_per_day + b * ms_per_hour + c * ms_per_minute + e * ms_per_second
      + x mod 1000 = x \<and>
    0 \<le> b \<and> b < 24 \<and> 0 \<le> c \<and> c < 60 \<and> 0 \<le> e \<and> e < 60 \<and>
    x div ms_per_hour = x div ms_per_day * 24 + b"
proof -
  define b where "b = x mod 86400000 div 3600000"
  define c where "c = x mod 3600000 div 60000"
  define e where "e = x mod 60000 div 1000"
  have r1: "b * 3600000 + x mod 3600000 = x mod 86400000"
    using mod_div_recompose [of 3600000 86400000 x] by (simp add: b_def)
  have r2: "c * 60000 + x mod 60000 = x mod 3600000"
    using mod_div_recompose [of 60000 3600000 x] by (simp add: c_def)
  have r3: "e * 1000 + x mod 1000 = x mod 60000"
    using mod_div_recompose [of 1000 60000 x] by (simp add: e_def)
  have r0: "x div 86400000 * 86400000 + x mod 86400000 = x" by (rule div_mult_mod_eq)
  have m: "0 \<le> x mod 86400000" "x mod 86400000 < 86400000" "0 \<le> x mod 3600000" "x mod 3600000 < 3600000"
    "0 \<le> x mod 60000" "x mod 60000 < 60000" "0 \<le> x mod 1000" "x mod 1000 < 1000"
    by simp_all
  have hd: "x div 3600000 = x div 86400000 * 24 + b"
  proof -
    have "(x div 86400000 * 24 + b) * 3600000 = x div 86400000 * 86400000 + b * 3600000"
      by (simp add: algebra_simps)
    then have "x = (x div 86400000 * 24 + b) * 3600000 + x mod 3600000" using r0 r1 by linarith
    then show ?thesis using int_div_pos_eq [of x 3600000 "x div 86400000 * 24 + b" "x mod 3600000"] m by simp
  qed
  have "elapsed_of x = \<lparr>days = JInt (x div ms_per_day), hours = JInt b, minutes = JInt c,
      seconds = JInt e\<rparr>"
    using assms by (simp add: elapsed_of_def ms_consts b_def c_def e_def)
  moreover have "0 \<le> b \<and> b < 24 \<and> 0 \<le> c \<and> c < 60 \<and> 0 \<le> e \<and> e < 60"
    using r1 r2 r3 m by linarith
  moreover have "x div 86400000 * 86400000 + b * 3600000 + c * 60000 + e * 1000 + x mod 1000 = x"
    using r0 r1 r2 r3 by linarith
  ultimately show ?thesis using hd by (auto simp: ms_consts)
qed

lemma demo_user_found: "find_by_id 1 [demo_user] = Some demo_user"
  by (simp add: find_by_id_def demo_user_def)

section \<open>The milestones\<close>

lemma find_sorted_least:
  "sorted xs \<Longrightarrow> find (\<lambda>m. n < m) xs = Some m \<Longrightarrow> m' \<in> set xs \<Longrightarrow> n < m' \<Longrightarrow> m \<le> m'"
  for n m m' :: int
  by (induction xs) (auto split: if_splits)

lemma find_rev_sorted_greatest:
  "sorted xs \<Longrightarrow> find (\<lambda>m. m \<le> n) (rev xs) = Some m \<Longrightarrow> m' \<in> set xs \<Longrightarrow> m' \<le> n \<Longrightarrow> m' \<le> m"
  for n m m' :: int
proof (induction xs arbitrary: m rule: rev_induct)
  case (snoc x xs)
  then show ?case by (auto simp: sorted_append split: if_splits)
qed simp

lemma find_SomeD: "find P xs = Some m \<Longrightarrow> P m \<and> m \<in> set xs"
  by (induction xs) (auto split: if_splits)

lemma next_milestone_props:
  "n < next_milestone n \<and> (n < 365 \<longrightarrow> next_milestone n \<in> set milestones)
    \<and> (365 \<le> n \<longrightarrow> next_milestone n = n + 1)
    \<and> (\<forall>m \<in> set milestones. n < m \<longrightarrow> next_milestone n \<le> m)"
proof (cases "find (\<lambda>m. n < m) milestones")
  case None
  then have e: "next_milestone n = n + 1" by (simp add: next_milestone_def)
  from None have "\<forall>m \<in> set milestones. \<not> n < m" by (simp add: find_None_iff)
  then have "365 \<le> n" by (simp add: milestones_def)
  with e show ?thesis by auto
next
  case (Some m)
  have "sorted milestones" "0 \<notin> set milestones" "\<forall>m \<in> set milestones. m \<le> 365"
    by (simp_all add: milestones_def)
  with Some find_SomeD [OF Some] find_sorted_least [of milestones n m] show ?thesis
    by (auto simp: next_milestone_def)
qed

lemma prev_milestone_props:
  assumes "0 \<le> n"
  shows "prev_milestone n \<le> n \<and> prev_milestone n \<in> set (0 # milestones)
    \<and> (\<forall>m \<in> set (0 # milestones). m \<le> n \<longrightarrow> m \<le> prev_milestone n)"
proof (cases "find (\<lambda>m. m \<le> n) (rev (0 # milestones))")
  case None
  then show ?thesis using assms by (auto simp: find_None_iff)
next
  case (Some m)
  have "sorted (0 # milestones)" by (simp add: milestones_def)
  with Some find_SomeD [OF Some] find_rev_sorted_greatest [of "0 # milestones" n m] show ?thesis
    by (auto simp: prev_milestone_def)
qed

lemma next_milestone_Min:
  "next_milestone n = (if n < 365 then Min (set (filter (\<lambda>m. n < m) milestones)) else n + 1)"
  using next_milestone_props [of n]
  by (auto intro!: Min_eqI [symmetric])

lemma prev_milestone_Max:
  "0 \<le> n \<Longrightarrow> prev_milestone n = Max (set (filter (\<lambda>m. m \<le> n) (0 # milestones)))"
  using prev_milestone_props [of n]
  by (auto intro!: Max_eqI [symmetric])

section \<open>Properties\<close>

text \<open>
  C31: the live clock agrees with the server: after the page receives the answer of
  \<open>GET /api/streak\<close> for a valid stored start \<open>s\<close>, the next tick at the same instant
  \<open>now \<ge> s\<close> shows the server's \<open>streakDays\<close>; its hours, minutes and seconds are in
  range and recompose \<open>now - s\<close> to the millisecond, and the server's
  \<open>streakHours\<close> is the clock's days times 24 plus its hours.
\<close>

theorem dashboard_clock_agrees:
  assumes "find_by_id uid us = Some u" "currentStreakStart u = Some (JInt s)" "s \<le> now"
    and "streak_GET (Some uid) t_fill now t_fix us = (Json 200 sj, us')"
    and "mounted d"
  shows "\<exists>b c e. elapsed (dash_run d [StreakLoaded sj, ClockTick now]) =
      \<lparr>days = JInt (streakDays sj), hours = JInt b, minutes = JInt c, seconds = JInt e\<rparr>
    \<and> streakDays sj * ms_per_day + b * ms_per_hour + c * ms_per_minute + e * ms_per_second
        + (now - s) mod 1000 = now - s
    \<and> 0 \<le> b \<and> b < 24 \<and> 0 \<le> c \<and> c < 60 \<and> 0 \<le> e \<and> e < 60
    \<and> streakHours sj = streakDays sj * 24 + b"
proof -
  have sj: "sj = streak_status_spec s now (history u)"
    using streak_GET_refines [OF assms(1), of t_fill now t_fix] assms(2,4)
    by (simp add: healed_start_def Let_def)
  have run: "dash_run d [StreakLoaded sj, ClockTick now] =
      d\<lparr>streak_data := Some sj, start_ref := Some (JInt s), cache := Some (JInt s),
        elapsed := elapsed_of (now - s)\<rparr>"
    using assms(3,5) by (simp add: dash_run_def sj streak_status_spec_def streak_loaded_def clock_tick_def)
  have "streakDays sj = (now - s) div ms_per_day" "streakHours sj = (now - s) div ms_per_hour"
    using assms(3) by (simp_all add: sj streak_status_spec_def)
  then show ?thesis using elapsed_of_parts [of "now - s"] assms(3) run by auto
qed

theorem dashboard_clock_agrees_witness:
  "\<exists>b c e. elapsed (dash_run ((init_dash None)\<lparr>mounted := True\<rparr>)
        [StreakLoaded (StreakJson 1 25 (Some (JInt 0)) []), ClockTick 90061001]) =
      \<lparr>days = JInt (streakDays (StreakJson 1 25 (Some (JInt 0)) [])), hours = JInt b, minutes = JInt c,
       seconds = JInt e\<rparr>
    \<and> streakDays (StreakJson 1 25 (Some (JInt 0)) []) * ms_per_day + b * ms_per_hour + c * ms_per_minute
        + e * ms_per_second + (90061001 - 0) mod 1000 = 90061001 - 0
    \<and> 0 \<le> b \<and> b < 24 \<and> 0 \<le> c \<and> c < 60 \<and> 0 \<le> e \<and> e < 60
    \<and> streakHours (StreakJson 1 25 (Some (JInt 0)) []) = streakDays (StreakJson 1 25 (Some (JInt 0)) []) * 24 + b"
proof (rule dashboard_clock_agrees [OF demo_user_found])
  show "currentStreakStart demo_user = Some (JInt 0)" by (simp add: demo_user_def)
  show "streak_GET (Some 1) 0 90061001 0 [demo_user] =
      (Json 200 (StreakJson 1 25 (Some (JInt 0)) []), [demo_user])"
    by (subst streak_GET_refines [OF demo_user_found])
       (simp add: healed_start_def demo_user_def streak_status_spec_def ms_consts Let_def)
qed (simp_all add: init_dash_def)

text \<open>
  C34: for a non-negative day count, \<open>getNextMilestone\<close> is the least milestone above
  it (the next day once 365 is passed), the previous milestone is the greatest one not
  above it, and \<open>getProgress\<close> is the linear interpolation between them, in
  \<open>[0, 100)\<close>: the clamps never act.
\<close>

theorem milestone_progress_spec:
  assumes "0 \<le> n"
  shows "next_milestone n = (if n < 365 then Min (set (filter (\<lambda>m. n < m) milestones)) else n + 1)
    \<and> prev_milestone n = Max (set (filter (\<lambda>m. m \<le> n) (0 # milestones)))
    \<and> prev_milestone n \<le> n \<and> n < next_milestone n
    \<and> get_progress (JInt n) =
        of_int (n - prev_milestone n) / of_int (next_milestone n - prev_milestone n) * 100
    \<and> 0 \<le> get_progress (JInt n) \<and> get_progress (JInt n) < 100"
proof -
  define p where "p = prev_milestone n"
  define q where "q = next_milestone n"
  have pq: "p \<le> n" "n < q"
    using next_milestone_props [of n] prev_milestone_props [OF assms] by (simp_all add: p_def q_def)
  then have r: "0 \<le> of_int (n - p) / of_int (q - p) * (100 :: real)"
    "of_int (n - p) / of_int (q - p) * (100 :: real) < 100"
    by (simp_all add: divide_less_eq)
  have "get_progress (JInt n) = of_int (n - p) / of_int (q - p) * 100"
    using pq r by (simp add: p_def q_def Let_def)
  with pq r show ?thesis
    using next_milestone_Min [of n] prev_milestone_Max [OF assms] by (simp add: p_def q_def)
qed

theorem milestone_progress_spec_witness:
  "next_milestone 10 = (if (10::int) < 365 then Min (set (filter (\<lambda>m. 10 < m) milestones)) else 10 + 1)
    \<and> prev_milestone 10 = Max (set (filter (\<lambda>m. m \<le> 10) (0 # milestones)))
    \<and> prev_milestone 10 \<le> 10 \<and> 10 < next_milestone 10
    \<and> get_progress (JInt 10) =
        of_int (10 - prev_milestone 10) / of_int (next_milestone 10 - prev_milestone 10) * 100
    \<and> 0 \<le> get_progress (JInt 10) \<and> get_progress (JInt 10) < 100"
  by (rule milestone_progress_spec) simp

text \<open>
  C35: \<open>handleReset\<close> clears the cache and zeroes the clock but leaves
  \<open>startDateRef\<close> at the old start: the next tick, when it fires before the refetched
  streak arrives, shows the old streak again (here 3 days).
\<close>

theorem dashboard_reset_stale_clock:
  "days (elapsed (dash_run (init_dash None)
      [Mount 0, StreakLoaded (StreakJson 0 0 (Some (JInt 0)) []), ResetOk])) = JInt 0
   \<and> days (elapsed (dash_run (init_dash None)
      [Mount 0, StreakLoaded (StreakJson 0 0 (Some (JInt 0)) []), ResetOk, ClockTick 259200000])) = JInt 3"
  by (simp add: dash_run_def init_dash_def mount_def streak_loaded_def clock_tick_def zero_clock_def
      elapsed_of_def ms_consts)

end
