(* ===== verification/Login.thy ===== *)
theory Login
  imports Prelude
begin

text \<open>
  Signing in: the login page \<open>src/app/login/page.tsx\<close>, the next-auth credentials
  sign-in it calls, and the session effect of the dashboard page \<open>src/app/page.tsx\<close>
  (lines 21 to 27) that sends a visitor without a session to \<open>/login\<close>.

  next-auth and its credentials provider are not part of \<open>src/\<close>; the spec describes
  the authorization collaborator as returning a user identity or signalling
  unauthenticated. It is the parameter \<open>authorize\<close> (the user id the credentials
  belong to, or \<open>None\<close>), and \<open>signIn('credentials', {redirect: false})\<close> resolves to an
  object whose \<open>error\<close> is set exactly when \<open>authorize\<close> refuses.
\<close>

section \<open>The login form\<close>

text \<open>
  The page state (lines 14 to 16); \<open>router.push\<close> is recorded in \<open>pushed\<close>, the list of
  locations the page navigated to. \<open>router.refresh()\<close> only re-renders.
\<close>

record login_form =
  email :: string
  password :: string
  login_error :: string
  pushed :: "string list"

definition init_login_form :: login_form where
  "init_login_form = \<lparr>email = [], password = [], login_error = [], pushed = []\<rparr>"

text \<open>
  What the awaited \<open>signIn\<close> gives \<open>handleSubmit\<close>: it rejects, or it resolves to a
  value whose \<open>res?.error\<close> is read (\<open>None\<close> for \<open>undefined\<close> or \<open>null\<close>).
\<close>

datatype sign_in_outcome = SignInThrows | SignInAnswer "string option"

text \<open>\<open>handleSubmit\<close> after \<open>signIn\<close> (lines 27 to 37): a truthy \<open>error\<close> shows
  \<open>Invalid credentials\<close>; otherwise the page goes to the dashboard; a rejection shows
  \<open>Something went wrong\<close>.\<close>

definition handle_submit :: "sign_in_outcome \<Rightarrow> login_form \<Rightarrow> login_form" where
  "handle_submit r f =
     (case r of
        SignInThrows \<Rightarrow> f\<lparr>login_error := ''Something went wrong''\<rparr>
      | SignInAnswer e \<Rightarrow>
          if truthy (case e of None \<Rightarrow> JUndefined | Some s \<Rightarrow> JStr s)
          then f\<lparr>login_error := ''Invalid credentials''\<rparr>
          else f\<lparr>pushed := pushed f @ [''/'']\<rparr>)"

text \<open>
  next-auth's credentials sign-in with \<open>redirect: false\<close>: the session it establishes and
  the answer's \<open>error\<close> (\<open>CredentialsSignin\<close> on refused credentials).
\<close>

definition sign_in :: "(string \<Rightarrow> string \<Rightarrow> nat option) \<Rightarrow> string \<Rightarrow> string \<Rightarrow> sign_in_outcome \<times> session" where
  "sign_in authorize e p =
     (case authorize e p of
        Some u \<Rightarrow> (SignInAnswer None, Some u)
      | None \<Rightarrow> (SignInAnswer (Some ''CredentialsSignin''), None))"

text \<open>A submit of the form: sign in with its fields, then \<open>handleSubmit\<close>.\<close>

definition login_submit :: "(string \<Rightarrow> string \<Rightarrow> nat option) \<Rightarrow> login_form \<Rightarrow> login_form \<times> session" where
  "login_submit authorize f =
     (case sign_in authorize (email f) (password f) of (r, s) \<Rightarrow> (handle_submit r f, s))"

text \<open>
  The form's inputs (lines 50 to 69) and its submit. Both inputs are \<open>required\<close>, so the
  browser does not submit the form while one of them is empty. (The \<open>type="email"\<close>
  format check of the browser is not modelled: a malformed address reaches
  \<open>authorize\<close>, which refuses it.) The session is next-auth's, changed only by a
  sign-in.
\<close>

datatype login_action = SetEmail string | SetPassword string | Submit

fun login_step ::
  "(string \<Rightarrow> string \<Rightarrow> nat option) \<Rightarrow> login_form \<times> session \<Rightarrow> login_action \<Rightarrow> login_form \<times> session" where
  "login_step authorize (f, s) (SetEmail e) = (f\<lparr>email := e\<rparr>, s)"
| "login_step authorize (f, s) (SetPassword p) = (f\<lparr>password := p\<rparr>, s)"
| "login_step authorize (f, s) Submit =
     (if email f = [] \<or> password f = [] then (f, s) else login_submit authorize f)"

text \<open>The error line of line 71: shown when \<open>error\<close> is a non-empty string.\<close>

definition shown_error :: "login_form \<Rightarrow> string option" where
  "shown_error f = (if login_error f = [] then None else Some (login_error f))"

section \<open>The dashboard's session effect\<close>

text \<open>\<open>useSession()\<close>'s \<open>status\<close> and the effect of lines 21 to 27.\<close>

datatype auth_status = AuthLoading | Authenticated | Unauthenticated

datatype page_effect = NoEffect | PushLogin | FetchStreak

primrec session_status :: "session \<Rightarrow> auth_status" where
  "session_status None = Unauthenticated"
| "session_status (Some u) = Authenticated"

primrec dashboard_auth_effect :: "auth_status \<Rightarrow> page_effect" where
  "dashboard_auth_effect AuthLoading = NoEffect"
| "dashboard_auth_effect Authenticated = FetchStreak"
| "dashboard_auth_effect Unauthenticated = PushLogin"

section \<open>Properties\<close>

text \<open>
  C36: a submit of the login form ends in one of the two outcomes of the spec: with
  credentials the collaborator accepts, a session of that user and a navigation to the
  dashboard, whose effect then loads the streak; otherwise no session, the message
  \<open>Invalid credentials\<close> and no navigation, and a dashboard visit is sent back to
  \<open>/login\<close>. \<open>Something went wrong\<close> never results from a sign-in that answers.
\<close>

theorem login_submit_outcomes:
  "login_submit authorize f =
     (case authorize (email f) (password f) of
        Some u \<Rightarrow> (f\<lparr>pushed := pushed f @ [''/'']\<rparr>, Some u)
      | None \<Rightarrow> (f\<lparr>login_error := ''Invalid credentials''\<rparr>, None)) \<and>
   dashboard_auth_effect (session_status (snd (login_submit authorize f))) =
     (if authorize (email f) (password f) = None then PushLogin else FetchStreak)"
  by (simp add: login_submit_def sign_in_def handle_submit_def split: option.splits)

end
