(* ===== verification/DashboardPage.thy ===== *)
theory DashboardPage
  imports Dashboard JournalView Login
begin

text \<open>
  The dashboard page \<open>src/app/page.tsx\<close> as a whole: the clock state of theory
  \<open>Dashboard\<close>, the journal panel of theory \<open>JournalView\<close>, the page's own
  \<open>loading\<close> flag and navigation, driven by the session effect (lines 21 to 27),
  \<open>fetchStreak\<close> (lines 29 to 42), \<open>handleReset\<close> (lines 73 to 85) and the sign-out
  button (lines 188 to 191), against the streak and journal handlers. What the page
  renders is \<open>page_screen\<close> (lines 163 to 167) and the history table \<open>history_rows\<close>
  (lines 377 to 390).

  The world of a page is the page state, the next-auth session, and the two collections
  the page reads. Each request is awaited before the next event; the journal fetch that
  \<open>fetchStreak\<close> starts without awaiting it is answered within the same event.
\<close>

section \<open>The page and its world\<close>

record page =
  pg_dash :: dash
  pg_journal :: journal_view
  pg_loading :: bool
  pg_pushed :: "string list"

definition init_page :: "jsint option \<Rightarrow> page" where
  "init_page c = \<lparr>pg_dash = init_dash c, pg_journal = init_journal_view, pg_loading = True, pg_pushed = []\<rparr>"

record world =
  w_page :: page
  w_session :: session
  w_users :: "user list"
  w_journals :: "journal list"

text \<open>
  \<open>fetchStreak\<close> of the signed-in user \<open>u\<close>, with the three clock readings of
  \<open>GET /api/streak\<close>: an ok answer becomes \<open>streakData\<close> (with the effect of lines 128
  to 133, the \<open>StreakLoaded\<close> event), then \<open>fetchJournals\<close>, and \<open>finally\<close> the
  loading flag is cleared.
\<close>

definition fetch_streak :: "nat \<Rightarrow> int \<Rightarrow> int \<Rightarrow> int \<Rightarrow> world \<Rightarrow> world" where
  "fetch_streak u a b c w =
     (case streak_GET (Some u) a b c (w_users w) of
        (r, us') \<Rightarrow>
          (let p = w_page w;
               d' = (case ok_body r of Some sj \<Rightarrow> streak_loaded sj (pg_dash p) | None \<Rightarrow> pg_dash p);
               jv' = fetch_journals_done (fst (journal_GET (Some u) (w_journals w))) (pg_journal p)
           in w\<lparr>w_page := p\<lparr>pg_dash := d', pg_journal := jv', pg_loading := False\<rparr>, w_users := us'\<rparr>))"

text \<open>
  The events: the session resolving (the effect of lines 21 to 27, with the readings of
  the \<open>GET\<close> it starts), the clock's mount and interval, \<open>handleReset\<close> with the answer
  of \<open>confirm\<close>, the two readings of \<open>POST /api/streak\<close> and the three of the refetch,
  an action of the journal panel, and the sign-out button.
\<close>

datatype page_event =
    SessionResolved int int int
  | ClockMount int
  | ClockTickAt int
  | ResetClicked bool int int int int int
  | JournalEvent journal_action
  | SignOutClicked

fun page_step :: "world \<Rightarrow> page_event \<Rightarrow> world" where
  "page_step w (SessionResolved a b c) =
     (case dashboard_auth_effect (session_status (w_session w)) of
        PushLogin \<Rightarrow> w\<lparr>w_page := (w_page w)\<lparr>pg_pushed := pg_pushed (w_page w) @ [''/login'']\<rparr>\<rparr>
      | FetchStreak \<Rightarrow> (case w_session w of Some u \<Rightarrow> fetch_streak u a b c w | None \<Rightarrow> w)
      | NoEffect \<Rightarrow> w)"
| "page_step w (ClockMount now) = w\<lparr>w_page := (w_page w)\<lparr>pg_dash := mount now (pg_dash (w_page w))\<rparr>\<rparr>"
| "page_step w (ClockTickAt now) = w\<lparr>w_page := (w_page w)\<lparr>pg_dash := clock_tick now (pg_dash (w_page w))\<rparr>\<rparr>"
| "page_step w (ResetClicked ok tp ts a b c) =
     (case w_session w of
        None \<Rightarrow> w
      | Some u \<Rightarrow>
          if \<not> ok then w
          else (case streak_POST (Some u) tp ts (w_users w) of
                  (r, us') \<Rightarrow>
                    if res_ok r
                    then fetch_streak u a b c
                           (w\<lparr>w_page := (w_page w)\<lparr>pg_dash := dash_step (pg_dash (w_page w)) ResetOk\<rparr>,
                              w_users := us'\<rparr>)
                    else w\<lparr>w_users := us'\<rparr>))"
| "page_step w (JournalEvent act) =
     (case w_session w of
        None \<Rightarrow> w
      | Some u \<Rightarrow>
          (case journal_view_step u (pg_journal (w_page w), w_journals w) act of
             (jv, js) \<Rightarrow> w\<lparr>w_page := (w_page w)\<lparr>pg_journal := jv\<rparr>, w_journals := js\<rparr>))"
| "page_step w SignOutClicked =
     w\<lparr>w_page := (w_page w)\<lparr>pg_dash := dash_step (pg_dash (w_page w)) SignOut\<rparr>, w_session := None\<rparr>"

definition page_run :: "world \<Rightarrow> page_event list \<Rightarrow> world" where
  "page_run w es = foldl page_step w es"

section \<open>What the page shows\<close>

datatype page_screen = LoadingScreen | BlankScreen | ContentScreen

text \<open>Lines 163 to 167: the loading screen, then nothing without a session.\<close>

definition page_screen :: "auth_status \<Rightarrow> session \<Rightarrow> page \<Rightarrow> page_screen" where
  "page_screen st sess p =
     (if st = AuthLoading \<or> pg_loading p \<or> \<not> mounted (pg_dash p) then LoadingScreen
      else if sess = None then BlankScreen else ContentScreen)"

text \<open>The Recent History table: \<open>streakData.history.slice().reverse()\<close>.\<close>

definition history_rows :: "page \<Rightarrow> jsint list" where
  "history_rows p = (case streak_data (pg_dash p) of Some sj \<Rightarrow> rev (streak_history sj) | None \<Rightarrow> [])"

text \<open>A signed-in user 1 on a mounted page, for the examples.\<close>

definition demo_world :: world where
  "demo_world = \<lparr>w_page = (init_page None)\<lparr>pg_dash := (init_dash None)\<lparr>mounted := True\<rparr>\<rparr>,
                  w_session = Some 1, w_users = [demo_user], w_journals = []\<rparr>"

section \<open>Properties\<close>

text \<open>
  C32: a confirmed reset reaches every part of the page: after \<open>handleReset\<close>'s
  \<open>POST\<close>, its \<open>fetchStreak\<close> and one tick of the clock, the server stores the reset
  moment at the end of the user's history and the new start, the clock counts from the
  new start, the cache holds it for the next visit, the history table lists the reset
  first, and the page is not loading.
\<close>

theorem page_reset_refetch:
  assumes s: "w_session w = Some u" and f: "find_by_id u (w_users w) = Some usr"
    and m: "mounted (pg_dash (w_page w))" and t: "ts \<le> now"
  shows "elapsed (pg_dash (w_page (page_run w [ResetClicked True tp ts a b c, ClockTickAt now]))) = elapsed_of (now - ts) \<and>
    history_rows (w_page (page_run w [ResetClicked True tp ts a b c, ClockTickAt now])) = JInt tp # rev (history usr) \<and>
    cache (pg_dash (w_page (page_run w [ResetClicked True tp ts a b c, ClockTickAt now]))) = Some (JInt ts) \<and>
    \<not> pg_loading (w_page (page_run w [ResetClicked True tp ts a b c, ClockTickAt now])) \<and>
    find_by_id u (w_users (page_run w [ResetClicked True tp ts a b c, ClockTickAt now])) =
      Some (usr\<lparr>history := history usr @ [JInt tp], currentStreakStart := Some (JInt ts)\<rparr>)"
proof -
  define u' where "u' = usr\<lparr>history := history usr @ [JInt tp], currentStreakStart := Some (JInt ts)\<rparr>"
  have post: "streak_POST (Some u) tp ts (w_users w) = (Message 200 ''Streak reset successfully'', save_doc u' (w_users w))"
    using f by (simp add: streak_POST_def u'_def)
  have oid: "oid u' = u" using find_by_id_Some [OF f] by (simp add: u'_def)
  have f': "find_by_id u (save_doc u' (w_users w)) = Some u'"
    using f oid by (simp add: find_by_id_save_doc)
  obtain dd hh where get: "streak_GET (Some u) a b c (save_doc u' (w_users w)) =
      (Json 200 (StreakJson dd hh (Some (JInt ts)) (history usr @ [JInt tp])), save_doc u' (w_users w))"
    using f' by (simp add: streak_GET_def Let_def u'_def)
  show ?thesis
    using s m t post get f'
    by (simp add: page_run_def fetch_streak_def streak_loaded_def clock_tick_def history_rows_def
        res_ok_def u'_def Let_def)
qed


theorem page_reset_refetch_witness:
  "elapsed (pg_dash (w_page (page_run demo_world [ResetClicked True 5000 5000 6000 6000 6000, ClockTickAt 9000]))) = elapsed_of (9000 - 5000) \<and>
    history_rows (w_page (page_run demo_world [ResetClicked True 5000 5000 6000 6000 6000, ClockTickAt 9000])) = JInt 5000 # rev (history demo_user) \<and>
    cache (pg_dash (w_page (page_run demo_world [ResetClicked True 5000 5000 6000 6000 6000, ClockTickAt 9000]))) = Some (JInt 5000) \<and>
    \<not> pg_loading (w_page (page_run demo_world [ResetClicked True 5000 5000 6000 6000 6000, ClockTickAt 9000])) \<and>
    find_by_id 1 (w_users (page_run demo_world [ResetClicked True 5000 5000 6000 6000 6000, ClockTickAt 9000])) =
      Some (demo_user\<lparr>history := history demo_user @ [JInt 5000], currentStreakStart := Some (JInt 5000)\<rparr>)"
  by (rule page_reset_refetch) (simp_all add: demo_world_def init_page_def demo_user_def find_by_id_def)

end
