(* ===== verification/Display.thy ===== *)
theory Display
  imports DashboardPage HabitsView GratitudeView
begin

text \<open>
  What the views print: the parts of the markup of \<open>src/app/page.tsx\<close>,
  \<open>src/components/habbit-tracker.tsx\<close> and \<open>src/components/gratitude-list.tsx\<close> that
  compute a text or a choice from the component state. Styling (class names, SVG) is
  left out. A number is printed by \<open>Number.prototype.toString\<close>, which for the integral
  values of the model is \<open>int_to_string\<close>, and \<open>NaN\<close> for an Invalid Date's
  arithmetic.

  \<open>read_digits\<close> is the value a reader takes from a string of decimal digits; it is
  not part of the program and serves to state that the printed counter shows exactly the
  elapsed time.
\<close>

section \<open>Numbers as the views print them\<close>

primrec js_num_string :: "jsint \<Rightarrow> string" where
  "js_num_string (JInt i) = int_to_string i"
| "js_num_string NaN = ''NaN''"

definition is_digits :: "string \<Rightarrow> bool" where
  "is_digits s \<longleftrightarrow> s \<noteq> [] \<and> list_all (\<lambda>c. 48 \<le> (of_char c :: nat) \<and> (of_char c :: nat) \<le> 57) s"

definition read_digits :: "string \<Rightarrow> nat" where
  "read_digits s = foldl (\<lambda>n c. 10 * n + (of_char c - 48)) 0 s"

section \<open>The dashboard counter\<close>

text \<open>
  Lines 213 to 232 of \<open>page.tsx\<close>: \<open>{elapsed.days}\<close>, and hours, minutes and seconds
  each as \<open>x.toString().padStart(2, '0')\<close>.
\<close>

record counter_text =
  ct_days :: string
  ct_hours :: string
  ct_minutes :: string
  ct_seconds :: string

definition counter_text :: "clock \<Rightarrow> counter_text" where
  "counter_text c =
     \<lparr>ct_days = js_num_string (days c),
      ct_hours = pad_start 2 (CHR ''0'') (js_num_string (hours c)),
      ct_minutes = pad_start 2 (CHR ''0'') (js_num_string (minutes c)),
      ct_seconds = pad_start 2 (CHR ''0'') (js_num_string (seconds c))\<rparr>"

text \<open>\<open>Math.round\<close> on a number: the nearest integer, halves rounded up.\<close>

definition js_round :: "real \<Rightarrow> int" where
  "js_round x = \<lfloor>x + 1 / 2\<rfloor>"

text \<open>
  The progress card (lines 262 to 281): the next milestone, the rounded percentage of the
  text, and the unrounded value of the bar.
\<close>

definition progress_detail :: "clock \<Rightarrow> jsint \<times> int \<times> real" where
  "progress_detail c =
     (get_next_milestone (days c), js_round (get_progress (days c)), get_progress (days c))"

text \<open>
  The journal entries (lines 341 to 368): per entry its date and time labels (the
  browser's \<open>toLocaleDateString\<close> and \<open>toLocaleTimeString\<close>, parameters) and its
  content; \<open>None\<close> is the \<open>No entries yet\<close> prompt.
\<close>

definition journal_list ::
  "(int \<Rightarrow> string) \<Rightarrow> (int \<Rightarrow> string) \<Rightarrow> journal_view \<Rightarrow> (string \<times> string \<times> string) list option" where
  "journal_list date_label time_label v =
     (if jv_journals v = [] then None
      else Some (map (\<lambda>j. (date_label (createdAt j), time_label (createdAt j), journal.content j)) (jv_journals v)))"

section \<open>The habit rows\<close>

text \<open>
  One row of the habit list (\<open>habbit-tracker.tsx\<close>, lines 114 to 172), at the browser's
  offset \<open>tz\<close> and clock reading \<open>now\<close>: the name, the frequency as stored, whether
  the check is shown (\<open>isCompletedToday\<close>), and the progress line
  \<open>{completedThisMonth}/{target} days|weeks ({percentage}%)\<close>.
\<close>

record habit_row =
  hr_name :: string
  hr_frequency :: string
  hr_completed :: bool
  hr_progress :: string

definition habit_row :: "int \<Rightarrow> int \<Rightarrow> habbit \<Rightarrow> habit_row" where
  "habit_row tz now h =
     (case monthly_progress tz now (frequency h) (completedDates h) of
        (c, t, p) \<Rightarrow>
          \<lparr>hr_name = name h, hr_frequency = freq_string (frequency h),
           hr_completed = is_completed_today tz now (completedDates h),
           hr_progress = int_to_string c @ ''/'' @ int_to_string t @ '' '' @
             (if frequency h = Daily then ''days'' else ''weeks'') @ '' ('' @ js_num_string p @ ''%)''\<rparr>)"

definition habit_rows :: "int \<Rightarrow> int \<Rightarrow> habit_view \<Rightarrow> habit_row list" where
  "habit_rows tz now v = map (habit_row tz now) (hv_habbits v)"

section \<open>The gratitude card\<close>

text \<open>
  The card body of \<open>gratitude-list.tsx\<close> (lines 110 to 189): on the Today tab, the
  items with their check marks, or the prompt when there are none; on the History tab,
  the groups by date label (\<open>group_by_date\<close>), or \<open>No history yet.\<close>
\<close>

datatype grat_screen =
    TodayItems "(string \<times> bool) list"
  | TodayPrompt
  | HistoryGroups "(string \<times> string list) list"
  | HistoryEmpty

definition grat_screen :: "(gratitude \<Rightarrow> string) \<Rightarrow> grat_view \<Rightarrow> grat_screen" where
  "grat_screen label v =
     (case activeTab v of
        TodayTab \<Rightarrow>
          if gv_items v = [] then TodayPrompt
          else TodayItems (map (\<lambda>g. (content g, isChecked g)) (gv_items v))
      | HistoryTab \<Rightarrow>
          if gv_historyItems v = [] then HistoryEmpty
          else HistoryGroups (map (\<lambda>(d, its). (d, map content its)) (group_by_date label (gv_historyItems v))))"

section \<open>Digits\<close>

lemma read_digits_snoc: "read_digits (s @ [c]) = 10 * read_digits s + (of_char c - 48)"
  by (simp add: read_digits_def)

lemma read_digits_digits_nat [simp]: "read_digits (digits_nat n) = n"
proof (induction n rule: digits_nat.induct)
  case (1 n)
  show ?case
  proof (cases "n < 10")
    case True
    then show ?thesis by (simp add: read_digits_def digits_nat.simps [of n])
  next
    case False
    then have "read_digits (digits_nat n) = 10 * (n div 10) + n mod 10"
      using 1 by (simp add: digits_nat.simps [of n] read_digits_snoc)
    then show ?thesis by simp
  qed
qed

lemma is_digits_digits_nat [simp]: "is_digits (digits_nat n)"
proof (induction n rule: digits_nat.induct)
  case (1 n)
  have c: "48 \<le> (of_char (char_of (48 + k) :: char) :: nat) \<and> (of_char (char_of (48 + k) :: char) :: nat) \<le> 57"
    if "k < 10" for k :: nat
    using that by simp
  show ?case
    using 1 c [of n] c [of "n mod 10"] by (simp add: digits_nat.simps [of n] is_digits_def)
qed

lemma length_digits_nat_le: "n < 10 ^ k \<Longrightarrow> 0 < k \<Longrightarrow> length (digits_nat n) \<le> k"
proof (induction n arbitrary: k rule: digits_nat.induct)
  case (1 n)
  show ?case
  proof (cases "n < 10")
    case True
    with 1 show ?thesis by (simp add: digits_nat.simps [of n])
  next
    case False
    have "\<not> k \<le> 1"
    proof
      assume "k \<le> 1"
      then have "(10::nat) ^ k \<le> 10 ^ 1" by (intro power_increasing) simp_all
      with False 1(2) show False by simp
    qed
    then obtain k' where k: "k = Suc k'" "0 < k'" by (cases k) auto
    then have "n div 10 < 10 ^ k'" using 1(2) by (simp add: div_less_iff_less_mult mult.commute)
    then have "length (digits_nat (n div 10)) \<le> k'" using 1(1) False k(2) by simp
    then show ?thesis using False k by (simp add: digits_nat.simps [of n])
  qed
qed

lemma read_digits_zeros [simp]: "read_digits (replicate k (CHR ''0'') @ s) = read_digits s"
proof -
  have "foldl (\<lambda>n c. 10 * n + (of_char c - 48)) (0::nat) (replicate k (CHR ''0'')) = 0"
    by (induction k) simp_all
  then show ?thesis by (simp add: read_digits_def)
qed

lemma is_digits_zeros: "is_digits s \<Longrightarrow> is_digits (replicate k (CHR ''0'') @ s)"
  by (auto simp: is_digits_def list_all_iff)

text \<open>A number from 0 to 99 printed with \<open>padStart(2, '0')\<close>: two digits that read back to it.\<close>

lemma pad2_roundtrip:
  assumes "0 \<le> i" "i < 100"
  shows "length (pad_start 2 (CHR ''0'') (js_num_string (JInt i))) = 2 \<and>
    is_digits (pad_start 2 (CHR ''0'') (js_num_string (JInt i))) \<and>
    int (read_digits (pad_start 2 (CHR ''0'') (js_num_string (JInt i)))) = i"
proof -
  have "length (digits_nat (nat i)) \<le> 2"
    using assms by (intro length_digits_nat_le) auto
  then show ?thesis
    using assms is_digits_zeros [OF is_digits_digits_nat [of "nat i"]]
    by (simp add: pad_start_def int_to_string_def del: digits_nat.simps)
qed


lemma days_roundtrip:
  assumes "0 \<le> d"
  shows "is_digits (js_num_string (JInt d)) \<and> int (read_digits (js_num_string (JInt d))) = d"
  using assms by (simp add: int_to_string_def del: digits_nat.simps)

lemma get_progress_range: "0 \<le> get_progress d \<and> get_progress d \<le> 100"
  by (cases d) (simp_all add: Let_def)

text \<open>The percentage the progress card prints lies between 0 and 100.\<close>

lemma progress_percent_bounds:
  "0 \<le> fst (snd (progress_detail c)) \<and> fst (snd (progress_detail c)) \<le> 100"
proof -
  have r: "0 \<le> get_progress (days c)" "get_progress (days c) \<le> 100" using get_progress_range by simp_all
  have "0 \<le> \<lfloor>get_progress (days c) + 1 / 2\<rfloor>" using r(1) by simp
  moreover have "\<lfloor>get_progress (days c) + 1 / 2\<rfloor> \<le> 100"
    using r(2) by (simp add: floor_le_iff)
  ultimately show ?thesis by (simp add: progress_detail_def js_round_def)
qed

section \<open>Properties\<close>

text \<open>
  C33: the dashboard counter prints exactly the elapsed time: for every non-negative
  difference \<open>x\<close> in milliseconds, the day count is a string of digits reading back as
  the whole days of \<open>x\<close>, and hours, minutes and seconds are two digits each that read
  back to the time within the day, to the second.
\<close>

theorem counter_text_roundtrip:
  assumes "0 \<le> x"
  shows "let t = counter_text (elapsed_of x) in
    length (ct_hours t) = 2 \<and> length (ct_minutes t) = 2 \<and> length (ct_seconds t) = 2 \<and>
    is_digits (ct_days t) \<and> is_digits (ct_hours t) \<and> is_digits (ct_minutes t) \<and> is_digits (ct_seconds t) \<and>
    int (read_digits (ct_days t)) = x div ms_per_day \<and>
    int (read_digits (ct_hours t)) * ms_per_hour + int (read_digits (ct_minutes t)) * ms_per_minute
      + int (read_digits (ct_seconds t)) * ms_per_second = x mod ms_per_day - x mod 1000"
proof -
  obtain b c e where el: "elapsed_of x = \<lparr>days = JInt (x div ms_per_day), hours = JInt b, minutes = JInt c,
      seconds = JInt e\<rparr>"
    and sum: "x div ms_per_day * ms_per_day + b * ms_per_hour + c * ms_per_minute + e * ms_per_second
      + x mod 1000 = x"
    and rng: "0 \<le> b" "b < 24" "0 \<le> c" "c < 60" "0 \<le> e" "e < 60"
    using elapsed_of_parts [OF assms] by blast
  have d: "0 \<le> x div ms_per_day" using assms by (simp add: ms_consts)
  have "x div ms_per_day * ms_per_day + x mod ms_per_day = x" by (rule div_mult_mod_eq)
  then have "b * ms_per_hour + c * ms_per_minute + e * ms_per_second = x mod ms_per_day - x mod 1000"
    using sum by linarith
  then show ?thesis
    using el days_roundtrip [OF d] pad2_roundtrip [of b] pad2_roundtrip [of c] pad2_roundtrip [of e] rng
    by (simp add: counter_text_def Let_def)
qed

theorem counter_text_roundtrip_witness:
  "let t = counter_text (elapsed_of 180245000) in
    length (ct_hours t) = 2 \<and> length (ct_minutes t) = 2 \<and> length (ct_seconds t) = 2 \<and>
    is_digits (ct_days t) \<and> is_digits (ct_hours t) \<and> is_digits (ct_minutes t) \<and> is_digits (ct_seconds t) \<and>
    int (read_digits (ct_days t)) = 180245000 div ms_per_day \<and>
    int (read_digits (ct_hours t)) * ms_per_hour + int (read_digits (ct_minutes t)) * ms_per_minute
      + int (read_digits (ct_seconds t)) * ms_per_second = 180245000 mod ms_per_day - 180245000 mod 1000"
  by (rule counter_text_roundtrip) simp

end
