(* ===== verification/Reddit.thy ===== *)
theory Reddit
  imports Prelude "HOL-Library.Monad_Syntax"
begin

text \<open>
  The community feed: \<open>GET /api/reddit\<close> (\<open>src/app/api/reddit/route.ts\<close>), a proxy
  of the subreddit's hot posts, and its view \<open>src/components/reddit-feed.tsx\<close>. The
  upstream answer is an input: \<open>None\<close> when \<open>fetch\<close> rejects, otherwise its
  \<open>ok\<close> flag and its body (\<open>None\<close> when \<open>res.json()\<close> rejects). Every step of the
  handler is inside one \<open>try\<close>; a property read on \<open>undefined\<close> or \<open>null\<close> and a
  call of \<open>filter\<close> on a non-array throw a \<open>TypeError\<close>, the value \<open>None\<close> of the
  option monad below.
\<close>

text \<open>\<open>v.k\<close>: \<open>None\<close> is the \<open>TypeError\<close> of reading a property of \<open>undefined\<close> or \<open>null\<close>.\<close>

fun js_get :: "string \<Rightarrow> jval \<Rightarrow> jval option" where
  "js_get k JUndefined = None"
| "js_get k JNull = None"
| "js_get k (JObj kvs) = Some (json_prop k kvs)"
| "js_get k _ = Some JUndefined"

text \<open>\<open>Array.prototype.join\<close> of the converted elements, with \<open>,\<close>.\<close>

fun join_comma :: "string list \<Rightarrow> string" where
  "join_comma [] = []"
| "join_comma [x] = x"
| "join_comma (x # xs) = x @ '','' @ join_comma xs"

text \<open>\<open>String(v)\<close>, as a template literal converts a value.\<close>

function js_to_string :: "jval \<Rightarrow> string" where
  "js_to_string JUndefined = ''undefined''"
| "js_to_string JNull = ''null''"
| "js_to_string (JBool b) = (if b then ''true'' else ''false'')"
| "js_to_string (JNum n) = int_to_string n"
| "js_to_string (JStr s) = s"
| "js_to_string (JArr xs) =
     join_comma (map (\<lambda>x. if x = JUndefined \<or> x = JNull then [] else js_to_string x) xs)"
| "js_to_string (JObj _) = ''[object Object]''"
  by pat_completeness auto

termination
proof (relation "measure size")
  fix xs and x :: jval
  assume "x \<in> set xs"
  then have "size x \<le> size_list size xs" by (rule size_list_estimation') simp
  then show "(x, JArr xs) \<in> measure size" by simp
qed simp

text \<open>A post of the answer (lines 26 to 33).\<close>

record reddit_post =
  post_id :: jval
  title :: jval
  url :: string
  author :: jval
  score :: jval
  created :: jval

definition to_post :: "jval \<Rightarrow> reddit_post option" where
  "to_post child = do {
     cd \<leftarrow> js_get ''data'' child;
     i \<leftarrow> js_get ''id'' cd;
     t \<leftarrow> js_get ''title'' cd;
     p \<leftarrow> js_get ''permalink'' cd;
     a \<leftarrow> js_get ''author'' cd;
     s \<leftarrow> js_get ''score'' cd;
     c \<leftarrow> js_get ''created_utc'' cd;
     Some \<lparr>post_id = i, title = t, url = ''https://www.reddit.com'' @ js_to_string p,
           author = a, score = s, created = c\<rparr>
   }"

text \<open>\<open>child => !child.data.stickied\<close> (line 24).\<close>

definition not_stickied :: "jval \<Rightarrow> bool option" where
  "not_stickied child = do {
     cd \<leftarrow> js_get ''data'' child;
     st \<leftarrow> js_get ''stickied'' cd;
     Some (\<not> truthy st)
   }"

text \<open>
  \<open>Array.prototype.filter\<close> and \<open>map\<close> with a callback that may throw: the callback
  runs on every element in order, and the first exception ends the call.
\<close>

fun filter_opt :: "('a \<Rightarrow> bool option) \<Rightarrow> 'a list \<Rightarrow> 'a list option" where
  "filter_opt P [] = Some []"
| "filter_opt P (x # xs) = do {
     b \<leftarrow> P x;
     ys \<leftarrow> filter_opt P xs;
     Some (if b then x # ys else ys)
   }"

fun map_opt :: "('a \<Rightarrow> 'b option) \<Rightarrow> 'a list \<Rightarrow> 'b list option" where
  "map_opt f [] = Some []"
| "map_opt f (x # xs) = do { y \<leftarrow> f x; ys \<leftarrow> map_opt f xs; Some (y # ys) }"

text \<open>Lines 23 to 33: \<open>data.data.children.filter(...).slice(0, 5).map(...)\<close>.\<close>

definition extract_posts :: "jval \<Rightarrow> reddit_post list option" where
  "extract_posts body = do {
     d \<leftarrow> js_get ''data'' body;
     ch \<leftarrow> js_get ''children'' d;
     cs \<leftarrow> (case ch of JArr cs \<Rightarrow> Some cs | _ \<Rightarrow> None);
     kept \<leftarrow> filter_opt not_stickied cs;
     map_opt to_post (take 5 kept)
   }"

definition reddit_GET :: "(bool \<times> jval option) option \<Rightarrow> reddit_post list response" where
  "reddit_GET upstream =
     (case upstream of
        None \<Rightarrow> Message 500 ''Failed to load community insights''
      | Some (ok, body) \<Rightarrow>
          if \<not> ok then Message 500 ''Failed to load community insights''
          else (case body of
                  None \<Rightarrow> Message 500 ''Failed to load community insights''
                | Some b \<Rightarrow>
                    (case extract_posts b of
                       None \<Rightarrow> Message 500 ''Failed to load community insights''
                     | Some ps \<Rightarrow> Json 200 ps)))"

text \<open>
  The view after its one fetch (lines 19 to 41): the posts, or the error message. The
  answer reaches it as JSON: an array of posts is \<open>Array.isArray\<close>; a \<open>{message}\<close>
  object is not. \<open>None\<close> is a rejected \<open>fetch\<close>.
\<close>

record feed =
  posts :: "reddit_post list"
  loading :: bool
  feed_error :: bool

definition feed_after_fetch :: "reddit_post list response option \<Rightarrow> feed" where
  "feed_after_fetch r =
     (case r of
        None \<Rightarrow> \<lparr>posts = [], loading = False, feed_error = True\<rparr>
      | Some resp \<Rightarrow>
          if res_ok resp then
            (case resp of
               Json _ ps \<Rightarrow> \<lparr>posts = ps, loading = False, feed_error = False\<rparr>
             | _ \<Rightarrow> \<lparr>posts = [], loading = False, feed_error = True\<rparr>)
          else \<lparr>posts = [], loading = False, feed_error = True\<rparr>)"

text \<open>The initial state (lines 15 to 17): loading, no posts, no error.\<close>

definition init_feed :: feed where
  "init_feed = \<lparr>posts = [], loading = True, feed_error = False\<rparr>"

text \<open>
  What the card shows (lines 55 to 94): three skeleton rows while loading, the
  unavailability message on an error, otherwise one link per post.
\<close>

datatype feed_screen = FeedSkeleton | FeedUnavailable | FeedPosts "reddit_post list"

definition feed_screen :: "feed \<Rightarrow> feed_screen" where
  "feed_screen f = (if loading f then FeedSkeleton else if feed_error f then FeedUnavailable else FeedPosts (posts f))"

text \<open>A listing for the examples: a stickied welcome post, then one ordinary post.\<close>

definition demo_listing :: jval where
  "demo_listing = JObj [(''data'', JObj [(''children'', JArr
     [JObj [(''data'', JObj [(''stickied'', JBool True), (''id'', JStr ''a'')])],
      JObj [(''data'', JObj [(''stickied'', JBool False), (''id'', JStr ''b''), (''permalink'', JStr ''/r/x'')])]])])]"

section \<open>The handler\<close>

lemma filter_opt_eq:
  "filter_opt P xs =
     (if \<forall>x \<in> set xs. P x \<noteq> None then Some (filter (\<lambda>x. P x = Some True) xs) else None)"
  by (induction xs) (auto split: option.splits)

lemma map_opt_length: "map_opt f xs = Some ys \<Longrightarrow> length ys = length xs"
  by (induction xs arbitrary: ys) (auto split: bind_splits)

lemma map_opt_eq:
  "map_opt f xs = (if \<forall>x \<in> set xs. f x \<noteq> None then Some (map (the \<circ> f) xs) else None)"
  by (induction xs) (auto split: option.splits)

lemma extract_posts_length: "extract_posts b = Some ps \<Longrightarrow> length ps \<le> 5"
  by (auto simp: extract_posts_def dest!: map_opt_length split: bind_splits jval.splits)

lemma js_get_None_iff: "js_get k v = None \<longleftrightarrow> v = JUndefined \<or> v = JNull"
  by (cases v) simp_all

lemma to_post_defined: "not_stickied c \<noteq> None \<Longrightarrow> to_post c \<noteq> None"
  by (cases "js_get ''data'' c")
     (auto simp: not_stickied_def to_post_def js_get_None_iff split: bind_splits)

lemma extract_posts_listing:
  assumes "\<forall>c \<in> set cs. not_stickied c \<noteq> None"
  shows "extract_posts (JObj [(''data'', JObj [(''children'', JArr cs)])]) =
    Some (map (the \<circ> to_post) (take 5 (filter (\<lambda>c. not_stickied c = Some True) cs)))"
proof -
  have "\<forall>c \<in> set (take 5 (filter (\<lambda>c. not_stickied c = Some True) cs)). to_post c \<noteq> None"
    using to_post_defined by (fastforce dest!: in_set_takeD)
  then show ?thesis using assms
    by (simp add: extract_posts_def json_prop_def filter_opt_eq map_opt_eq)
qed

lemma reddit_GET_demo:
  "reddit_GET (Some (True, Some demo_listing)) = Json 200 [\<lparr>post_id = JStr ''b'', title = JUndefined,
   url = ''https://www.reddit.com/r/x'', author = JUndefined, score = JUndefined, created = JUndefined\<rparr>]"
  by (simp add: reddit_GET_def demo_listing_def extract_posts_def not_stickied_def to_post_def json_prop_def)

text \<open>The route has no session check; it answers 200 or 500 and touches no collection.\<close>

lemma reddit_GET_status: "status_of (reddit_GET up) \<in> {200, 500}"
  by (simp add: reddit_GET_def split: option.splits prod.splits)

section \<open>Properties\<close>

text \<open>
  C37: the feed degrades gracefully: whatever the upstream does (rejects, answers an
  error, sends a body that is not JSON or not a listing), the route answers either its
  500 message, and the card shows the unavailability message, or 200 with at most five
  posts, and the card shows exactly those; a \<open>fetch\<close> that the browser rejects also
  ends in the message, never in a crash or a skeleton that stays.
\<close>

theorem reddit_feed_graceful:
  "((reddit_GET up = Message 500 ''Failed to load community insights''
      \<and> feed_screen (feed_after_fetch (Some (reddit_GET up))) = FeedUnavailable)
   \<or> (\<exists>ps. reddit_GET up = Json 200 ps \<and> length ps \<le> 5
      \<and> feed_screen (feed_after_fetch (Some (reddit_GET up))) = FeedPosts ps))
   \<and> feed_screen (feed_after_fetch None) = FeedUnavailable"
  by (auto simp: reddit_GET_def feed_after_fetch_def feed_screen_def res_ok_def
      dest: extract_posts_length split: option.splits)

end
