(* ===== verification/Spec2Isabelle.thy ===== *)
theory Spec2Isabelle
  imports Streak Habits HabitsView Gratitude GratitudeView Journal JournalView Meditation Dashboard
    DashboardPage Display Reddit Login
begin

text \<open>
  A verification development for the habit and accountability tracker
  (Next.js route handlers under \<open>src/app/api\<close>, Mongoose models under
  \<open>src/models\<close>, React client components under \<open>src/components\<close> and \<open>src/app\<close>).

  \<^bold>\<open>The program.\<close> Each route handler authenticates the session, reads or writes one
  collection, and answers JSON. The client views call the handlers and compute what they
  display: the streak clock and milestone progress of the dashboard, the habit grid and
  its monthly statistics, the gratitude lists, the meditation timer.

  \<^bold>\<open>Theories\<close> (each imports the ones it uses; this root imports them all).
  \<^item> \<open>Prelude\<close>: the answer of a handler (\<open>response\<close>: \<open>NextResponse.json\<close> with a
    status, or \<open>Crash\<close> for an uncaught exception, which Next.js answers 500), the
    session, JSON values of request bodies with truthiness and destructuring,
    \<open>findIndex\<close>, \<open>splice\<close>, \<open>trim\<close>, \<open>padStart\<close>, \<open>%\<close> and
    \<open>Number.prototype.toString\<close>.
  \<^item> \<open>JsDate\<close>: the ECMA-262 \<open>Date\<close> operations the code calls: time values with NaN
    (\<open>jsint\<close>), \<open>TimeClip\<close>, \<open>setHours\<close> in local time with a fixed offset \<open>tz\<close>,
    and the proleptic Gregorian calendar by year and month walks (\<open>function\<close> with
    termination measures). \<open>year_from_day_spec\<close> and \<open>civil_of_day_spec\<close> show the
    walks compute YearFromTime, MonthFromTime and DateFromTime; \<open>bucket_eq\<close> and
    \<open>start_of_day_idem\<close> that \<open>setHours(0,0,0,0)\<close> is a day key.
  \<^item> \<open>Store\<close>: Mongoose collections as lists of extensible records (\<open>mdoc\<close>,
    \<open>owned\<close>) with \<open>findById\<close>, \<open>save\<close>, \<open>findByIdAndDelete\<close>,
    \<open>find({userId})\<close>, \<open>sort\<close>, \<open>limit\<close>, \<open>create\<close>, the String and Number casts of
    a schema path, and the invariant \<open>ids_distinct\<close>.
  \<^item> \<open>Streak\<close> (\<open>src/app/api/streak/route.ts\<close>, \<open>src/models/User.ts\<close>):
    \<open>streak_GET\<close>, \<open>streak_POST\<close>; \<open>streak_GET_refines\<close> reduces GET to the spec's
    contract (self-healing start, floor of the absolute difference).
  \<^item> \<open>Habits\<close> (\<open>src/app/api/habits/route.ts\<close>, \<open>src/models/Habbit.ts\<close>,
    \<open>src/components/habbit-tracker.tsx\<close>): the three handlers, the toggle of a day
    bucket and its invariant (one valid entry per day), the view's
    \<open>isCompletedToday\<close> and monthly statistics.
  \<^item> \<open>HabitsView\<close> (\<open>src/components/habbit-tracker.tsx\<close>, lines 16 to 75): the
    tracker's React state and its handlers \<open>fetchHabbits\<close>, \<open>handleAddHabbit\<close>,
    \<open>toggleHabbit\<close> as a step function over the view and the habit collection
    (\<open>habit_client_step\<close>); the view, once loaded, always shows what
    \<open>GET /api/habits\<close> answers (\<open>habit_client_synced\<close>).
  \<^item> \<open>Gratitude\<close> (\<open>src/app/api/gratitude/route.ts\<close>, its model,
    \<open>src/components/gratitude-list.tsx\<close>): the four handlers, the list's optimistic
    updates refined by the server's next answer, the history grouping.
  \<^item> \<open>GratitudeView\<close> (\<open>src/components/gratitude-list.tsx\<close>): the list's tabs,
    \<open>fetchItems\<close>, \<open>handleAdd\<close>, \<open>toggleCheck\<close>, \<open>handleDelete\<close> run
    against the handlers (\<open>grat_view_step\<close>); the tab on screen shows the server's
    answer for it through any run on one day (\<open>grat_view_synced\<close>), and a refused
    check mark is not rolled back.
  \<^item> \<open>Journal\<close> (\<open>src/app/api/journal/route.ts\<close>, its model): the one handler with a
    \<open>try\<close>/\<open>catch\<close>, its status for every JSON body.
  \<^item> \<open>JournalView\<close> (\<open>src/app/page.tsx\<close>, lines 17 to 71): the dashboard's journal
    panel (\<open>fetchJournals\<close>, \<open>handleSaveJournal\<close>) against the journal handlers.
  \<^item> \<open>MeditationTimer\<close> (\<open>src/components/meditation-timer.tsx\<close>): the timer as a
    state machine (\<open>timer_step\<close>, \<open>reachable\<close>) with its invariant by rule induction
    and its liveness (\<open>timer_completes\<close>: \<open>tick ^^ n\<close> with \<open>n = max 1 timeLeft\<close>,
    the exact number of ticks, so no fuel bound is needed). The interval itself is the
    loop \<open>run_interval\<close>, a \<open>partial_function (option)\<close> that is \<open>None\<close> when it
    never stops; \<open>timer_interval_terminates\<close> shows it returns from every reachable
    state, by induction on the ticks left. The unmount cleanup (\<open>unmount_timer\<close>)
    stops it at once and posts nothing, and the preset buttons highlight exactly one
    preset in every reachable state.
  \<^item> \<open>Meditation\<close> (\<open>src/app/api/meditation/route.ts\<close>, its model): the two handlers
    and the timer's sessions as the server stores them.
  \<^item> \<open>Dashboard\<close> (\<open>src/app/page.tsx\<close>): the live clock and its page state as events
    (\<open>dash_step\<close>, \<open>dash_run\<close>), \<open>getNextMilestone\<close>, \<open>getProgress\<close>; the clock
    agrees with \<open>streak_GET\<close>.
  \<^item> \<open>DashboardPage\<close> (\<open>src/app/page.tsx\<close>): the whole page as a step function over
    the page state, the session and the user and journal collections
    (\<open>page_step\<close>): the session effect, \<open>fetchStreak\<close> with its loading flag,
    \<open>handleReset\<close> with its refetch, sign-out, the render gate and the history table;
    a confirmed reset reaches the server, the clock, the cache and the table
    (\<open>page_reset_refetch\<close>).
  \<^item> \<open>Reddit\<close> (\<open>src/app/api/reddit/route.ts\<close>, \<open>src/components/reddit-feed.tsx\<close>):
    the proxy of the community feed with the upstream answer as an input, property reads
    that may throw as the option monad (\<open>Monad_Syntax\<close>), and the card's state and
    screen after its fetch; the feed degrades to an error message and never to a crash.
  \<^item> \<open>Display\<close> (the markup of \<open>page.tsx\<close>, \<open>habbit-tracker.tsx\<close>,
    \<open>gratitude-list.tsx\<close>): what the views print, as functions of their state: the
    streak counter (\<open>counter_text\<close>), the habit rows with their progress line, the
    gratitude card body. With \<open>read_digits\<close>, the value a reader takes from a digit
    string, \<open>counter_text_roundtrip\<close> shows the counter prints exactly the elapsed time.
  \<^item> \<open>Login\<close> (\<open>src/app/login/page.tsx\<close>, the session effect of \<open>src/app/page.tsx\<close>):
    the login form's inputs (both \<open>required\<close>) and \<open>handleSubmit\<close> with the
    credentials check of next-auth as the
    parameter \<open>authorize\<close>, and the dashboard's redirect to \<open>/login\<close>.
  \<^item> This theory: the whole server as one function of a request and the five collections
    (\<open>serve\<close> over the fourteen route handlers, \<open>serve_run\<close> over a
    sequence of requests), with the properties that
    span the components: authentication comes first for every route of the database,
    and \<open>GET /api/reddit\<close>, the one route without a session check, answers alike with
    and without a session and never 401 (\<open>serve_unauthenticated\<close>), a signed-in request is answered with a status of the
    spec's taxonomy and never 401 (\<open>serve_status_signed_in\<close>), and every run of
    requests keeps the store invariant \<open>sys_inv\<close> (ids unique in every collection,
    habit day keys distinct and valid).

  \<^bold>\<open>Clients against the server.\<close> Each view theory runs a user's actions one at a
  time, every request awaited before the next action, against the handlers of its
  collection. A request the browser rejects is an action of its own where the code
  handles it differently from an answer: the gratitude list's rejected check (its
  \<open>catch\<close> refetches) and rejected delete (its \<open>catch\<close> only logs, so the list
  loses an item the server keeps). In the other views a rejected \<open>fetch\<close> only logs and
  leaves the state as it was. Interleavings of requests from several tabs are not part of
  these runs; the one interleaving a claim needs (a delete from another tab before a
  check) is written out as two steps.

  \<^bold>\<open>Clock readings and parameters.\<close> Every \<open>new Date()\<close> of a handler is a parameter
  of its model, in source order, so that a claim states how the readings relate. The
  server's local offset \<open>tz\<close> and the string-to-number conversion of JavaScript
  (\<open>to_number\<close>, used by Mongoose's Number cast) are parameters; every theorem holds for
  all of them. A date string the dashboard caches is modelled by the time value it parses
  to.

  \<^bold>\<open>Findings.\<close> \<open>PROJECT.json\<close> lists them with the theorems that show them: no
  ownership check on habit and gratitude updates, day boundaries in different time zones
  on server and client, validation errors answered 500, the Today window built from two
  clock readings, truthiness as the journal's content check, unchecked meditation
  durations, a second session logged by Start on a finished timer, the dashboard
  clock showing the old streak after a reset until the refetch arrives, a refused
  gratitude check mark left on screen, and \<open>GET /api/reddit\<close> answering without a
  session although the spec requires one on every endpoint.

  \<^bold>\<open>Not modelled.\<close> Styling and layout (class names, SVG, CSS transitions), which
  compute nothing from the state; \<open>next-auth\<close> and its route (not in \<open>src\<close>; the sign-in is modelled from the spec, the session is an
  input); \<open>dbConnect\<close> (not in \<open>src\<close>); the HTTP call to reddit.com (its answer is an
  input);
  \<open>toLocaleDateString\<close> and \<open>toLocaleTimeString\<close> labels (locale data of the
  browser; a parameter of the grouping); the browser's \<open>type="email"\<close> check; non-integral JSON numbers; daylight-saving changes of the offset;
  concurrent requests (each request is one atomic step of \<open>serve\<close>); \<open>updatedAt\<close>.
\<close>

section \<open>The server as one state machine\<close>

text \<open>
  The fourteen routes of \<open>src/app/api\<close> with the parsed inputs of each handler and its
  clock readings (for \<open>GET /api/reddit\<close> the upstream answer, as in theory
  \<open>Reddit\<close>), and the five collections of the database.
\<close>

datatype request =
    StreakGet int int int
  | StreakPost int int
  | HabitsGet
  | HabitsPost int "string option" "string option"
  | HabitsPut nat jsint
  | GratitudeGet "string option" int int
  | GratitudePost int "string option"
  | GratitudePut nat
  | GratitudeDelete "nat option"
  | JournalGet
  | JournalPost int "jval option"
  | MeditationGet
  | MeditationPost int "jval option"
  | RedditGet "(bool \<times> jval option) option"

record system =
  users :: "user list"
  habbits :: "habbit list"
  gratitudes :: "gratitude list"
  journals :: "journal list"
  meditations :: "meditation list"

fun serve :: "(string \<Rightarrow> int option) \<Rightarrow> int \<Rightarrow> session \<Rightarrow> request \<Rightarrow> system \<Rightarrow> nat \<times> system" where
  "serve tn tz s (StreakGet a b c) sys =
     (case streak_GET s a b c (users sys) of (r, us) \<Rightarrow> (status_of r, sys\<lparr>users := us\<rparr>))"
| "serve tn tz s (StreakPost a b) sys =
     (case streak_POST s a b (users sys) of (r, us) \<Rightarrow> (status_of r, sys\<lparr>users := us\<rparr>))"
| "serve tn tz s HabitsGet sys =
     (case habits_GET s (habbits sys) of (r, hs) \<Rightarrow> (status_of r, sys\<lparr>habbits := hs\<rparr>))"
| "serve tn tz s (HabitsPost t nm fq) sys =
     (case habits_POST s t nm fq (habbits sys) of (r, hs) \<Rightarrow> (status_of r, sys\<lparr>habbits := hs\<rparr>))"
| "serve tn tz s (HabitsPut i date) sys =
     (case habits_PUT s tz i date (habbits sys) of (r, hs) \<Rightarrow> (status_of r, sys\<lparr>habbits := hs\<rparr>))"
| "serve tn tz s (GratitudeGet m a b) sys =
     (case gratitude_GET s tz m a b (gratitudes sys) of (r, gs) \<Rightarrow> (status_of r, sys\<lparr>gratitudes := gs\<rparr>))"
| "serve tn tz s (GratitudePost t c) sys =
     (case gratitude_POST s t c (gratitudes sys) of (r, gs) \<Rightarrow> (status_of r, sys\<lparr>gratitudes := gs\<rparr>))"
| "serve tn tz s (GratitudePut i) sys =
     (case gratitude_PUT s i (gratitudes sys) of (r, gs) \<Rightarrow> (status_of r, sys\<lparr>gratitudes := gs\<rparr>))"
| "serve tn tz s (GratitudeDelete i) sys =
     (case gratitude_DELETE s i (gratitudes sys) of (r, gs) \<Rightarrow> (status_of r, sys\<lparr>gratitudes := gs\<rparr>))"
| "serve tn tz s JournalGet sys =
     (case journal_GET s (journals sys) of (r, js) \<Rightarrow> (status_of r, sys\<lparr>journals := js\<rparr>))"
| "serve tn tz s (JournalPost t b) sys =
     (case journal_POST s t b (journals sys) of (r, js) \<Rightarrow> (status_of r, sys\<lparr>journals := js\<rparr>))"
| "serve tn tz s MeditationGet sys =
     (case meditation_GET s (meditations sys) of (r, ms) \<Rightarrow> (status_of r, sys\<lparr>meditations := ms\<rparr>))"
| "serve tn tz s (MeditationPost t b) sys =
     (case meditation_POST tn s t b (meditations sys) of (r, ms) \<Rightarrow> (status_of r, sys\<lparr>meditations := ms\<rparr>))"
| "serve tn tz s (RedditGet up) sys = (status_of (reddit_GET up), sys)"

text \<open>
  The routes whose handler starts with \<open>getServerSession\<close>: all but
  \<open>GET /api/reddit\<close>, which reads no collection and has no session check.
\<close>

definition needs_session :: "request \<Rightarrow> bool" where
  "needs_session r \<longleftrightarrow> (case r of RedditGet _ \<Rightarrow> False | _ \<Rightarrow> True)"

definition serve_run ::
  "(string \<Rightarrow> int option) \<Rightarrow> int \<Rightarrow> (session \<times> request) list \<Rightarrow> system \<Rightarrow> system" where
  "serve_run tn tz rs sys = foldl (\<lambda>sy (s, r). snd (serve tn tz s r sy)) sys rs"

definition sys_inv :: "int \<Rightarrow> system \<Rightarrow> bool" where
  "sys_inv tz sys \<longleftrightarrow> ids_distinct (users sys) \<and> habbits_ok tz (habbits sys) \<and>
     ids_distinct (gratitudes sys) \<and> ids_distinct (journals sys) \<and> ids_distinct (meditations sys)"

text \<open>An empty database, for the examples.\<close>

definition empty_system :: system where
  "empty_system = \<lparr>users = [], habbits = [], gratitudes = [], journals = [], meditations = []\<rparr>"

section \<open>Every handler keeps the store invariant\<close>

lemma streak_GET_ids: "ids_distinct (snd (streak_GET s a b c us)) = ids_distinct us"
  by (auto simp: streak_GET_def repair_start_def Let_def split: option.splits prod.splits)

lemma streak_POST_ids: "ids_distinct (snd (streak_POST s a b us)) = ids_distinct us"
  by (auto simp: streak_POST_def Let_def split: option.splits)

lemma gratitude_ids:
  "ids_distinct gs \<Longrightarrow> ids_distinct (snd (gratitude_GET s tz m a b gs))"
  "ids_distinct gs \<Longrightarrow> ids_distinct (snd (gratitude_POST s t c gs))"
  "ids_distinct gs \<Longrightarrow> ids_distinct (snd (gratitude_PUT s i gs))"
  "ids_distinct gs \<Longrightarrow> ids_distinct (snd (gratitude_DELETE s j gs))"
  by (auto simp: gratitude_GET_def gratitude_POST_def gratitude_PUT_def gratitude_DELETE_def Let_def
      new_oid_notin simp del: set_hours.simps split: option.splits jsint.splits prod.splits)

lemma journal_meditation_ids:
  "ids_distinct js \<Longrightarrow> ids_distinct (snd (journal_POST s t b js))"
  "ids_distinct ms \<Longrightarrow> ids_distinct (snd (meditation_POST tn s t b ms))"
  by (auto simp: journal_POST_def meditation_POST_def Let_def new_oid_notin split: option.splits)

lemma serve_inv: "sys_inv tz sys \<Longrightarrow> sys_inv tz (snd (serve tn tz s r sys))"
  by (cases r)
     (auto simp: sys_inv_def streak_GET_ids streak_POST_ids habits_POST_ok habits_PUT_ok gratitude_ids
        journal_meditation_ids habits_GET_def journal_GET_def meditation_GET_def split_beta
        split: option.splits)

section \<open>Properties\<close>

text \<open>
  C38: every route of the database (all routes but \<open>GET /api/reddit\<close>) answers a request
  without a session with 401 and leaves every collection unchanged: authentication is
  checked before any work. \<open>GET /api/reddit\<close> has no session check: without a
  session it answers exactly as to a signed-in user, 200 or 500 and never 401, and it
  changes no collection either.
\<close>

theorem serve_unauthenticated:
  "serve tn tz None r sys = (if needs_session r then (401, sys) else serve tn tz (Some u) r sys) \<and>
   snd (serve tn tz None r sys) = sys \<and>
   fst (serve tn tz None (RedditGet up) sys) \<in> {200, 500}"
  using reddit_GET_status [of up]
  by (cases r) (simp_all add: needs_session_def streak_GET_def streak_POST_def
      habits_GET_def habits_POST_def habits_PUT_def gratitude_GET_def gratitude_POST_def
      gratitude_PUT_def gratitude_DELETE_def journal_GET_def journal_POST_def meditation_GET_def
      meditation_POST_def)

text \<open>
  C40: every sequence of requests, by any users and with any inputs, keeps the store
  invariant: ids are unique in every collection and each habit's completion entries are
  valid dates on distinct days.
\<close>

theorem serve_run_inv: "sys_inv tz sys \<Longrightarrow> sys_inv tz (serve_run tn tz rs sys)"
  by (induction rs arbitrary: sys) (auto simp: serve_run_def serve_inv)

theorem serve_run_inv_witness:
  "sys_inv 0 (serve_run (\<lambda>_. None) 0
     [(Some 1, JournalPost 5 (Some (JObj [(''content'', JStr ''calm'')]))), (None, GratitudePut 3),
      (Some 2, HabitsPost 6 (Some ''read'') None), (Some 2, HabitsPut 1 (JInt 0)),
      (None, RedditGet None)] empty_system)"
  by (rule serve_run_inv) (simp add: sys_inv_def empty_system_def habbits_ok_def ids_distinct_def)

text \<open>
  C39: every answer to a signed-in request has a status of the spec's taxonomy (200 or
  201 for success, 400 validation, 404 not found, 500 unexpected, an uncaught exception
  included) and is never 401; \<open>GET /api/reddit\<close> is among them and answers 200 or 500.
  With the property above, a 401 answer means exactly a database route without a session.
\<close>

theorem serve_status_signed_in:
  "fst (serve tn tz (Some u) r sys) \<in> {200, 201, 400, 404, 500}"
proof (cases r)
  case (RedditGet up)
  then show ?thesis using reddit_GET_status [of up] by auto
qed (auto simp: streak_GET_def streak_POST_def habits_GET_def habits_POST_def habits_PUT_def
        gratitude_GET_def gratitude_POST_def gratitude_PUT_def gratitude_DELETE_def journal_GET_def
        journal_POST_def meditation_GET_def meditation_POST_def server_error_def Let_def split_beta
        simp del: set_hours.simps split: option.splits if_splits jsint.splits prod.splits)

end
